theory Spec2Isabelle
  imports Main "HOL-Library.Word" "HOL-Library.Sublist" "HOL-Library.Signed_Division"
begin

section \<open>Data model of the consensus state machine (consensus/state.go)\<close>

text \<open>
  The embedding follows \<^verbatim>\<open>consensus/state.go\<close>. Go pointers that the code compares
  with \<^verbatim>\<open>nil\<close> are options. The packages \<^verbatim>\<open>types\<close>, \<^verbatim>\<open>state\<close>, \<^verbatim>\<open>epoch\<close> and
  \<^verbatim>\<open>crypto\<close> are not part of the sources at hand: their records carry the fields that
  \<^verbatim>\<open>state.go\<close> reads and writes, and their functions are fields of the record
  \<open>Env\<close>, so that every theorem holds for each implementation of them.
\<close>

type_synonym bytes = "8 word list"

text \<open>A \<^verbatim>\<open>time.Time\<close> is an instant and a \<^verbatim>\<open>time.Duration\<close> a number of nanoseconds
  in \<^verbatim>\<open>int64\<close>; instants are counted in nanoseconds too.\<close>

type_synonym time = int

text \<open>\<^verbatim>\<open>type RoundStepType uint8 // These must be numeric, ordered.\<close>\<close>

type_synonym RoundStepType = "8 word"

definition RoundStepNewHeight :: RoundStepType where "RoundStepNewHeight = 1"
definition RoundStepNewRound :: RoundStepType where "RoundStepNewRound = 2"
definition RoundStepPropose :: RoundStepType where "RoundStepPropose = 3"
definition RoundStepPrevote :: RoundStepType where "RoundStepPrevote = 4"
definition RoundStepPrevoteWait :: RoundStepType where "RoundStepPrevoteWait = 5"
definition RoundStepPrecommit :: RoundStepType where "RoundStepPrecommit = 6"
definition RoundStepPrecommitWait :: RoundStepType where "RoundStepPrecommitWait = 7"
definition RoundStepCommit :: RoundStepType where "RoundStepCommit = 8"
definition RoundStepTest :: RoundStepType where "RoundStepTest = 9"

text \<open>The error values declared at the top of \<^verbatim>\<open>state.go\<close>; \<open>ErrOther\<close> stands for
  an error made on the spot by \<^verbatim>\<open>fmt.Errorf\<close> or \<^verbatim>\<open>errors.New\<close>, or returned by a
  collaborator.\<close>

datatype error =
    ErrInvalidProposalSignature
  | ErrInvalidProposalPOLRound
  | ErrAddingVote
  | ErrVoteHeightMismatch
  | ErrInvalidSignatureAggr
  | ErrDuplicateSignatureAggr
  | ErrNotMaj23SignatureAggr
  | ErrVoteConflictingVotes
  | ErrOther string

text \<open>The vote kinds of package \<^verbatim>\<open>types\<close> (a byte there); \<open>VoteTypeUnknown\<close> is any
  other byte.\<close>

datatype VoteType = VoteTypePrevote | VoteTypePrecommit | VoteTypeUnknown "8 word"

record PartSetHeader =
  psh_Total :: int
  psh_Hash :: bytes

text \<open>\<^verbatim>\<open>types.PartSetHeader{}\<close>, the zero value.\<close>

definition PartSetHeader_zero :: PartSetHeader where
  "PartSetHeader_zero = \<lparr>psh_Total = 0, psh_Hash = []\<rparr>"

record BlockID =
  bid_Hash :: bytes
  bid_PartsHeader :: PartSetHeader

definition BlockID_zero :: BlockID where
  "BlockID_zero = \<lparr>bid_Hash = [], bid_PartsHeader = PartSetHeader_zero\<rparr>"

text \<open>Modelled from the spec: \<^verbatim>\<open>BlockID.IsZero\<close> is declared in package \<^verbatim>\<open>types\<close>; the
  nil BlockID has an empty hash and a zero header.\<close>

definition BlockID_IsZero :: "BlockID \<Rightarrow> bool" where
  "BlockID_IsZero b \<longleftrightarrow> bid_Hash b = [] \<and> bid_PartsHeader b = PartSetHeader_zero"

record Proposal =
  p_Height :: int
  p_Round :: int
  p_Hash :: bytes
  p_BlockPartsHeader :: PartSetHeader
  p_POLRound :: int
  p_POLBlockID :: BlockID
  p_ProposerNetAddr :: string
  p_ProposerPeerKey :: string
  p_Signature :: bytes

record Vote =
  v_ValidatorAddress :: bytes
  v_ValidatorIndex :: int
  v_Height :: int
  v_Round :: int
  v_Type :: VoteType
  v_BlockID :: BlockID
  v_Signature :: bytes
  v_SignBytes :: bytes

record Validator =
  val_Address :: bytes
  val_PubKey :: bytes
  val_VotingPower :: int
  val_Accum :: int

text \<open>Modelled from the spec: \<^verbatim>\<open>types.ValidatorSet\<close> is an ordered sequence of validators
  with a proposer pointer; a validator's index in the sequence is its bitmap position.\<close>

record ValidatorSet =
  vs_Validators :: "Validator list"
  vs_Proposer :: "Validator option"

definition ValidatorSet_Size :: "ValidatorSet \<Rightarrow> nat" where
  "ValidatorSet_Size vs = length (vs_Validators vs)"

definition GetProposer :: "ValidatorSet \<Rightarrow> Validator option" where
  "GetProposer vs = vs_Proposer vs"

text \<open>The integers of the code are machine integers: \<^verbatim>\<open>int64\<close>, and \<^verbatim>\<open>int\<close>, which has
  64 bits on the platforms the node is built for. \<open>int64 x\<close> is the value that such a
  computation gives where the integers give \<open>x\<close>: it wraps around.\<close>

definition int64 :: "int \<Rightarrow> int" where
  "int64 x = sint (word_of_int x :: 64 word)"

text \<open>\<^verbatim>\<open>time.Millisecond\<close>, and the two operations on instants that the code uses:
  \<^verbatim>\<open>t.Add(d)\<close>, and \<^verbatim>\<open>t.Sub(u)\<close>, which gives the largest or the smallest duration when
  the difference is outside \<^verbatim>\<open>int64\<close>.\<close>

definition Millisecond :: int where
  "Millisecond = 1000000"

definition Time_Add :: "time \<Rightarrow> int \<Rightarrow> time" where
  "Time_Add t d = t + d"

definition Time_Sub :: "time \<Rightarrow> time \<Rightarrow> int" where
  "Time_Sub t u = max (- (2 ^ 63)) (min (2 ^ 63 - 1) (t - u))"

text \<open>Modelled from the spec: \<^verbatim>\<open>ValidatorSet.TotalVotingPower\<close> is the total voting power
  of the set, summed in \<^verbatim>\<open>int64\<close>.\<close>

definition TotalVotingPower :: "ValidatorSet \<Rightarrow> int" where
  "TotalVotingPower vs = int64 (sum_list (map val_VotingPower (vs_Validators vs)))"

definition HasAddress :: "ValidatorSet \<Rightarrow> bytes \<Rightarrow> bool" where
  "HasAddress vs a \<longleftrightarrow> a \<in> set (map val_Address (vs_Validators vs))"

text \<open>\<^verbatim>\<open>GetByAddress\<close> gives the index of the first validator with the address, \<open>-1\<close>
  when there is none.\<close>

fun index_of_address :: "Validator list \<Rightarrow> bytes \<Rightarrow> int \<Rightarrow> int" where
  "index_of_address [] a i = -1"
| "index_of_address (v # vs) a i = (if val_Address v = a then i else index_of_address vs a (i + 1))"

definition GetByAddress :: "ValidatorSet \<Rightarrow> bytes \<Rightarrow> int" where
  "GetByAddress vs a = index_of_address (vs_Validators vs) a 0"

text \<open>A \<^verbatim>\<open>BitArray\<close> is the list of its bits; the nil bit array has size 0.\<close>

type_synonym BitArray = "bool list"

definition NewBitArray :: "nat \<Rightarrow> BitArray" where
  "NewBitArray n = replicate n False"

definition SetIndex :: "BitArray \<Rightarrow> nat \<Rightarrow> bool \<Rightarrow> BitArray" where
  "SetIndex ba i v = (if i < length ba then ba[i := v] else ba)"

text \<open>Modelled from the spec: \<^verbatim>\<open>ValidatorSet.TalliedVotingPower\<close> is declared in package
  \<^verbatim>\<open>types\<close>; it tallies the voting power over the bitmap, and fails when the bitmap and
  the validator set differ in size.\<close>

fun tally :: "Validator list \<Rightarrow> BitArray \<Rightarrow> int" where
  "tally (v # vs) (b # bs) = (if b then val_VotingPower v else 0) + tally vs bs"
| "tally _ _ = 0"

definition TalliedVotingPower :: "ValidatorSet \<Rightarrow> BitArray \<Rightarrow> error + int" where
  "TalliedVotingPower vs bm =
     (if length bm \<noteq> ValidatorSet_Size vs then Inl (ErrOther ''Size is not equal'')
      else Inr (int64 (tally (vs_Validators vs) bm)))"

record SignAggr =
  sa_ChainID :: string
  sa_Height :: int
  sa_Round :: int
  sa_Type :: VoteType
  sa_NumValidators :: int
  sa_BlockID :: BlockID
  sa_Maj23 :: BlockID
  sa_BitArray :: BitArray
  sa_SignAggr :: "bytes option"
  sa_SignBytes :: bytes

definition MakeSignAggr ::
  "int \<Rightarrow> int \<Rightarrow> VoteType \<Rightarrow> int \<Rightarrow> BlockID \<Rightarrow> string \<Rightarrow> BitArray \<Rightarrow> bytes option \<Rightarrow> SignAggr" where
  "MakeSignAggr height round type numValidators blockID chainID bitArray signAggr =
     \<lparr>sa_ChainID = chainID, sa_Height = height, sa_Round = round, sa_Type = type,
      sa_NumValidators = numValidators, sa_BlockID = blockID, sa_Maj23 = BlockID_zero,
      sa_BitArray = bitArray, sa_SignAggr = signAggr, sa_SignBytes = []\<rparr>"

record Block =
  b_Height :: int
  b_Hash :: bytes
  b_NumTxs :: int
  b_ExData :: bytes

text \<open>\<^verbatim>\<open>Block.Hash\<close> and \<^verbatim>\<open>Block.HashesTo\<close> are called on pointers that may be nil
  (\<^verbatim>\<open>cs.LockedBlock.HashesTo\<close> in \<^verbatim>\<open>enterPrecommit\<close>): the nil block has no hash and
  hashes to nothing.\<close>

definition Block_Hash :: "Block option \<Rightarrow> bytes" where
  "Block_Hash b = (case b of None \<Rightarrow> [] | Some blk \<Rightarrow> b_Hash blk)"

definition HashesTo :: "Block option \<Rightarrow> bytes \<Rightarrow> bool" where
  "HashesTo b h = (case b of None \<Rightarrow> False | Some blk \<Rightarrow> h \<noteq> [] \<and> b_Hash blk = h)"

record Part =
  part_Index :: int
  part_Bytes :: bytes

record PartSet =
  ps_Header :: PartSetHeader
  ps_Parts :: "Part option list"

text \<open>Modelled from the spec: \<^verbatim>\<open>types.NewPartSetFromHeader\<close> gives a fresh part set for
  the header, with none of its parts received.\<close>

definition NewPartSetFromHeader :: "PartSetHeader \<Rightarrow> PartSet" where
  "NewPartSetFromHeader h = \<lparr>ps_Header = h, ps_Parts = replicate (nat (psh_Total h)) None\<rparr>"

definition PartSet_Header :: "PartSet option \<Rightarrow> PartSetHeader" where
  "PartSet_Header ps = (case ps of None \<Rightarrow> PartSetHeader_zero | Some p \<Rightarrow> ps_Header p)"

definition HasHeader :: "PartSet option \<Rightarrow> PartSetHeader \<Rightarrow> bool" where
  "HasHeader ps h = (case ps of None \<Rightarrow> False | Some p \<Rightarrow> ps_Header p = h)"

definition PartSet_IsComplete :: "PartSet \<Rightarrow> bool" where
  "PartSet_IsComplete ps \<longleftrightarrow> (\<forall>p \<in> set (ps_Parts ps). p \<noteq> None)"


record Commit =
  c_BlockID :: BlockID
  c_Height :: int
  c_Round :: int
  c_BitArray :: BitArray
  c_SignAggr :: "bytes option"

text \<open>A \<^verbatim>\<open>VoteSet\<close> of \<^verbatim>\<open>cs.Votes\<close>: \<^verbatim>\<open>Votes()\<close> is the slice of votes by validator
  index (nil where a validator has not voted), and \<^verbatim>\<open>TwoThirdsMajority()\<close> the block id
  that has reached +2/3, if any.\<close>

record VoteSet =
  vset_Votes :: "Vote option list"
  vset_maj23 :: "BlockID option"
  vset_any23 :: bool

definition VoteSet_TwoThirdsMajority :: "VoteSet \<Rightarrow> BlockID \<times> bool" where
  "VoteSet_TwoThirdsMajority vs =
     (case vset_maj23 vs of None \<Rightarrow> (BlockID_zero, False) | Some b \<Rightarrow> (b, True))"

definition VoteSet_HasTwoThirdsMajority :: "VoteSet \<Rightarrow> bool" where
  "VoteSet_HasTwoThirdsMajority vs \<longleftrightarrow> vset_maj23 vs \<noteq> None"

record HeightVoteSet =
  hvs_chainID :: string
  hvs_height :: int
  hvs_sets :: "((int \<times> VoteType) \<times> VoteSet) list"

record HeightVoteSignAggr =
  hvsa_chainID :: string
  hvsa_height :: int
  hvsa_round :: int
  hvsa_aggrs :: "((int \<times> VoteType) \<times> SignAggr) list"

record Epoch =
  ep_Number :: int
  ep_NextEpoch :: "bytes option"

record State =
  st_ChainID :: string
  st_LastBlockHeight :: int
  st_LastBlockID :: BlockID
  st_AppHash :: bytes
  st_Epoch :: Epoch

text \<open>Modelled from the spec: the signing device of the private validator keeps track of
  what it signed last, to refuse signing twice.\<close>

record PrivValidator =
  pv_Address :: bytes
  pv_PubKey :: bytes
  pv_LastHeight :: int
  pv_LastSign :: bytes

record NodeInfo =
  ni_ListenAddr :: string
  ni_PubKey :: string

datatype ConsensusMessage =
    ProposalMessage "Proposal option"
  | BlockPartMessage int int "Part option"
  | VoteMessage "Vote option"
  | Maj23SignAggrMessage "SignAggr option"
  | UnknownMessage

record msgInfo =
  mi_Msg :: ConsensusMessage
  mi_PeerKey :: string

record timeoutInfo =
  ti_Duration :: int
  ti_Height :: int
  ti_Round :: int
  ti_Step :: RoundStepType

record EventDataRoundState =
  ev_Height :: int
  ev_Round :: int
  ev_Step :: string

text \<open>What \<^verbatim>\<open>cs.wal.Save\<close> is given: a round state event (from \<^verbatim>\<open>newStep\<close>), a
  \<^verbatim>\<open>msgInfo\<close> or a \<^verbatim>\<open>timeoutInfo\<close> (from \<^verbatim>\<open>receiveRoutine\<close>).\<close>

datatype WALMessage =
    WalRoundState EventDataRoundState
  | WalMsgInfo msgInfo
  | WalTimeoutInfo timeoutInfo

record WAL =
  wal_light :: bool

record BlockStore =
  bs_Height :: int
  bs_Blocks :: "(Block \<times> PartSet option \<times> Commit) list"

text \<open>
  The effects of the state machine on its collaborators, in the order in which the code
  performs them. Every function below appends to the field \<open>trace\<close> of the state and
  never removes from it.
\<close>

datatype effect =
    EffWalSave WALMessage
  | EffWalEndHeight int
  | EffWalStop
  | EffMakeCommit int "SignAggr option" Commit
  | EffSaveBlock Block "PartSet option" Commit
  | EffApplyBlock Block PartSetHeader
  | EffFireEvent string
  | EffScheduleTimeout timeoutInfo
  | EffSleep int
  | EffLogFatal string
  | EffCloseDone

text \<open>\<^verbatim>\<open>TimeoutParams\<close>: timeouts and deltas for each round step, in milliseconds;
  the methods give durations.\<close>

record TimeoutParams =
  Propose0 :: int
  ProposeDelta :: int
  Prevote0 :: int
  PrevoteDelta :: int
  Precommit0 :: int
  PrecommitDelta :: int
  Commit0 :: int
  SkipTimeoutCommit :: bool

definition TimeoutParams_Propose :: "TimeoutParams \<Rightarrow> int \<Rightarrow> int" where
  "TimeoutParams_Propose tp round =
     int64 (int64 (Propose0 tp + int64 (ProposeDelta tp * round)) * Millisecond)"

definition TimeoutParams_Prevote :: "TimeoutParams \<Rightarrow> int \<Rightarrow> int" where
  "TimeoutParams_Prevote tp round =
     int64 (int64 (Prevote0 tp + int64 (PrevoteDelta tp * round)) * Millisecond)"

definition TimeoutParams_Precommit :: "TimeoutParams \<Rightarrow> int \<Rightarrow> int" where
  "TimeoutParams_Precommit tp round =
     int64 (int64 (Precommit0 tp + int64 (PrecommitDelta tp * round)) * Millisecond)"

definition TimeoutParams_Commit :: "TimeoutParams \<Rightarrow> time \<Rightarrow> time" where
  "TimeoutParams_Commit tp t = Time_Add t (int64 (Commit0 tp * Millisecond))"

text \<open>The function-valued fields \<^verbatim>\<open>doPrevote\<close> and \<^verbatim>\<open>setProposal\<close> of
  \<^verbatim>\<open>ConsensusState\<close> hold one of the two functions that \<^verbatim>\<open>state.go\<close> defines for
  each.\<close>

datatype doPrevoteFn = NewDoPrevote | DefaultDoPrevote
datatype setProposalFn = NewSetProposal | DefaultSetProposal

text \<open>\<^verbatim>\<open>ConsensusState\<close> with its embedded \<^verbatim>\<open>RoundState\<close> (the fields down to
  \<open>PrecommitMaj23SignAggr\<close>).\<close>

record ConsensusState =
  Height :: int
  Round :: int
  Step :: RoundStepType
  StartTime :: time
  CommitTime :: time
  Epoch :: Epoch
  Validators :: ValidatorSet
  Proposal :: "Proposal option"
  ProposalBlock :: "Block option"
  ProposalBlockParts :: "PartSet option"
  ProposerNetAddr :: string
  ProposerPeerKey :: string
  LockedRound :: int
  LockedBlock :: "Block option"
  LockedBlockParts :: "PartSet option"
  Votes :: HeightVoteSet
  VoteSignAggr :: "HeightVoteSignAggr option"
  CommitRound :: int
  LastCommit :: "SignAggr option"
  LastValidators :: ValidatorSet
  PrevoteMaj23SignAggr :: "SignAggr option"
  PrecommitMaj23SignAggr :: "SignAggr option"
  privValidator :: "PrivValidator option"
  nodeInfo :: "NodeInfo option"
  epoch :: Epoch
  state :: "State option"
  blockStore :: BlockStore
  internalMsgQueue :: "msgInfo list"
  pendingSends :: "msgInfo list"
  timeoutParams :: TimeoutParams
  wal :: "WAL option"
  replayMode :: bool
  nSteps :: int
  evsw :: bool
  doPrevote :: doPrevoteFn
  setProposal :: setProposalFn
  trace :: "effect list"

text \<open>
  The collaborators of \<^verbatim>\<open>state.go\<close> whose code is outside the sources at hand: the
  cryptography, the validator set's proposer rotation, the vote and aggregate containers,
  block validation and execution, the mempool, the epoch and the signing device.
\<close>

record Env =
  VerifyBytes :: "bytes \<Rightarrow> bytes \<Rightarrow> bytes \<Rightarrow> bool"
  SignBytes_Proposal :: "string \<Rightarrow> Proposal \<Rightarrow> bytes"
  SignBytes_Vote :: "string \<Rightarrow> Vote \<Rightarrow> bytes"
  AggrPubKey :: "ValidatorSet \<Rightarrow> BitArray \<Rightarrow> bytes option"
  BLSSignatureAggregate :: "bytes list \<Rightarrow> bytes option"
  BytesToHash160 :: "bytes \<Rightarrow> bytes"
  SignVote :: "PrivValidator \<Rightarrow> string \<Rightarrow> Vote \<Rightarrow> error option \<times> Vote \<times> PrivValidator"
  SignProposal :: "PrivValidator \<Rightarrow> string \<Rightarrow> Proposal \<Rightarrow> error option \<times> Proposal \<times> PrivValidator"
  IncrementAccum :: "ValidatorSet \<Rightarrow> int \<Rightarrow> ValidatorSet"
  GetValidators :: "State \<Rightarrow> ValidatorSet \<times> ValidatorSet"
  ValidateBlock :: "State \<Rightarrow> Block \<Rightarrow> error option"
  ApplyBlock :: "State \<Rightarrow> Block \<Rightarrow> PartSetHeader \<Rightarrow> error option \<times> State"
  SignAggr_TwoThirdsMajority :: "SignAggr option \<Rightarrow> BlockID \<times> bool"
  SignAggr_HasTwoThirdsMajority :: "SignAggr option \<Rightarrow> ValidatorSet \<Rightarrow> bool"
  SignAggr_MakeCommit :: "SignAggr option \<Rightarrow> Commit"
  hvsa_Prevotes :: "HeightVoteSignAggr \<Rightarrow> int \<Rightarrow> SignAggr option"
  hvsa_Precommits :: "HeightVoteSignAggr \<Rightarrow> int \<Rightarrow> SignAggr option"
  hvsa_SetRound :: "HeightVoteSignAggr \<Rightarrow> int \<Rightarrow> HeightVoteSignAggr"
  hvsa_AddSignAggr :: "HeightVoteSignAggr \<Rightarrow> SignAggr \<Rightarrow> HeightVoteSignAggr"
  hvsa_POLInfo :: "HeightVoteSignAggr \<Rightarrow> int \<times> BlockID"
  hvsa_getSignAggr :: "HeightVoteSignAggr \<Rightarrow> int \<Rightarrow> VoteType \<Rightarrow> SignAggr option"
  NewHeightVoteSignAggr :: "string \<Rightarrow> int \<Rightarrow> ValidatorSet \<Rightarrow> HeightVoteSignAggr"
  NewHeightVoteSet :: "string \<Rightarrow> int \<Rightarrow> ValidatorSet \<Rightarrow> HeightVoteSet"
  hvs_AddVote :: "HeightVoteSet \<Rightarrow> Vote \<Rightarrow> string \<Rightarrow> bool \<times> error option \<times> HeightVoteSet"
  hvs_Prevotes :: "HeightVoteSet \<Rightarrow> int \<Rightarrow> VoteSet"
  hvs_Precommits :: "HeightVoteSet \<Rightarrow> int \<Rightarrow> VoteSet"
  PartSet_AddPart :: "PartSet \<Rightarrow> Part option \<Rightarrow> bool \<Rightarrow> bool \<times> error option \<times> PartSet"
  ReadBlock :: "PartSet \<Rightarrow> Block \<times> error option"
  MempoolReap :: "int \<Rightarrow> bytes list"
  ProposeTransactions :: "Epoch \<Rightarrow> string \<Rightarrow> int \<Rightarrow> error option \<times> bytes list"
  ShouldProposeNextEpoch :: "Epoch \<Rightarrow> int \<Rightarrow> bool"
  ProposeNextEpoch :: "Epoch \<Rightarrow> int \<Rightarrow> bytes"
  EpochFromBytes :: "bytes \<Rightarrow> bytes option"
  ValidateNextEpoch :: "Epoch \<Rightarrow> bytes \<Rightarrow> int \<Rightarrow> error option"
  MakeBlock :: "int \<Rightarrow> string \<Rightarrow> bytes list \<Rightarrow> Commit \<Rightarrow> BlockID \<Rightarrow> bytes \<Rightarrow> bytes \<Rightarrow> bytes \<Rightarrow> int
                 \<Rightarrow> Block option \<times> PartSet option"
  ValidatorSet_Hash :: "ValidatorSet \<Rightarrow> bytes"
  ConfigGetInt :: "string \<Rightarrow> int"
  ConfigGetString :: "string \<Rightarrow> string"
  ConfigGetBool :: "string \<Rightarrow> bool"
  Now :: time

subsection \<open>Panics and deferred calls\<close>

text \<open>
  A call either returns a value and the new state, or panics (\<^verbatim>\<open>PanicSanity\<close>,
  \<^verbatim>\<open>PanicConsensus\<close>, \<^verbatim>\<open>panic\<close>, a nil dereference) in some state. Nothing in
  \<^verbatim>\<open>state.go\<close> recovers from a panic.
\<close>

datatype 'a outcome = Return 'a ConsensusState | Panic string ConsensusState

definition state_of :: "'a outcome \<Rightarrow> ConsensusState" where
  "state_of r = (case r of Return _ cs \<Rightarrow> cs | Panic _ cs \<Rightarrow> cs)"

definition and_then :: "'a outcome \<Rightarrow> ('a \<Rightarrow> ConsensusState \<Rightarrow> 'b outcome) \<Rightarrow> 'b outcome" where
  "and_then r f = (case r of Return v cs \<Rightarrow> f v cs | Panic m cs \<Rightarrow> Panic m cs)"

text \<open>\<^verbatim>\<open>defer func() { ... }()\<close>: the deferred call runs when the body returns and also
  when it panics; the panic goes on after it.\<close>

definition with_defer ::
  "(ConsensusState \<Rightarrow> unit outcome) \<Rightarrow> 'a outcome \<Rightarrow> 'a outcome" where
  "with_defer d r =
     (case r of
        Return v cs \<Rightarrow> (case d cs of Return _ cs' \<Rightarrow> Return v cs' | Panic m cs' \<Rightarrow> Panic m cs')
      | Panic m cs \<Rightarrow> (case d cs of Return _ cs' \<Rightarrow> Panic m cs' | Panic m' cs' \<Rightarrow> Panic m' cs'))"

definition emit :: "effect \<Rightarrow> ConsensusState \<Rightarrow> ConsensusState" where
  "emit e cs = cs\<lparr>trace := trace cs @ [e]\<rparr>"

definition nil_deref :: string where
  "nil_deref = ''invalid memory address or nil pointer dereference''"


section \<open>Proposal acceptance\<close>

text \<open>
  \<^verbatim>\<open>newSetProposal\<close> (installed by \<^verbatim>\<open>NewConsensusState\<close>) and
  \<^verbatim>\<open>defaultSetProposal\<close>. The argument is a pointer: reading \<^verbatim>\<open>proposal.Height\<close>
  from the nil pointer panics, and so does reading the public key of a nil proposer or
  the chain id of a nil \<^verbatim>\<open>cs.state\<close>.
\<close>

definition verifyProposalSignature ::
  "Env \<Rightarrow> Proposal \<Rightarrow> ConsensusState \<Rightarrow> (bool \<Rightarrow> ConsensusState \<Rightarrow> 'a outcome) \<Rightarrow> 'a outcome" where
  "verifyProposalSignature env proposal cs k =
     (case GetProposer (Validators cs) of
        None \<Rightarrow> Panic nil_deref cs
      | Some proposer \<Rightarrow>
          (case state cs of
             None \<Rightarrow> Panic nil_deref cs
           | Some st \<Rightarrow>
               k (VerifyBytes env (val_PubKey proposer)
                    (SignBytes_Proposal env (st_ChainID st) proposal) (p_Signature proposal)) cs))"

definition newSetProposal :: "Env \<Rightarrow> Proposal option \<Rightarrow> ConsensusState \<Rightarrow> error option outcome" where
  "newSetProposal env proposal cs =
     (if Proposal cs \<noteq> None \<and> proposal \<noteq> None then Return None cs
      else if Proposal cs \<noteq> None then Return None cs
      else case proposal of
        None \<Rightarrow> Panic nil_deref cs
      | Some p \<Rightarrow>
          if p_Height p \<noteq> Height cs \<or> p_Round p \<noteq> Round cs then Return None cs
          else if RoundStepCommit \<le> Step cs then Return None cs
          else if p_POLRound p \<noteq> -1 \<and> (p_POLRound p < 0 \<or> p_Round p \<le> p_POLRound p)
            then Return (Some ErrInvalidProposalPOLRound) cs
          else verifyProposalSignature env p cs (\<lambda>ok cs.
            if \<not> ok then Return (Some ErrInvalidProposalSignature) cs
            else Return None
              (cs\<lparr>Proposal := Some p,
                  ProposalBlockParts := Some (NewPartSetFromHeader (p_BlockPartsHeader p)),
                  ProposerNetAddr := p_ProposerNetAddr p,
                  ProposerPeerKey := p_ProposerPeerKey p\<rparr>)))"

definition defaultSetProposal :: "Env \<Rightarrow> Proposal option \<Rightarrow> ConsensusState \<Rightarrow> error option outcome" where
  "defaultSetProposal env proposal cs =
     (if Proposal cs \<noteq> None then Return None cs
      else case proposal of
        None \<Rightarrow> Panic nil_deref cs
      | Some p \<Rightarrow>
          if p_Height p \<noteq> Height cs \<or> p_Round p \<noteq> Round cs then Return None cs
          else if RoundStepCommit \<le> Step cs then Return None cs
          else if p_POLRound p \<noteq> -1 \<and> (p_POLRound p < 0 \<or> p_Round p \<le> p_POLRound p)
            then Return (Some ErrInvalidProposalPOLRound) cs
          else verifyProposalSignature env p cs (\<lambda>ok cs.
            if \<not> ok then Return (Some ErrInvalidProposalSignature) cs
            else Return None
              (cs\<lparr>Proposal := Some p,
                  ProposalBlockParts := Some (NewPartSetFromHeader (p_BlockPartsHeader p)),
                  ProposerPeerKey := p_ProposerPeerKey p\<rparr>)))"

text \<open>The call \<^verbatim>\<open>cs.setProposal(proposal)\<close> through the function-valued field.\<close>

definition call_setProposal :: "Env \<Rightarrow> Proposal option \<Rightarrow> ConsensusState \<Rightarrow> error option outcome" where
  "call_setProposal env proposal cs =
     (case setProposal cs of
        NewSetProposal \<Rightarrow> newSetProposal env proposal cs
      | DefaultSetProposal \<Rightarrow> defaultSetProposal env proposal cs)"

text \<open>The signature check of \<^verbatim>\<open>setProposal\<close>, as a predicate: the proposer and
  \<^verbatim>\<open>cs.state\<close> are there and the proposer's key verifies the signature.\<close>

definition proposal_signature_ok :: "Env \<Rightarrow> ConsensusState \<Rightarrow> Proposal \<Rightarrow> bool" where
  "proposal_signature_ok env cs p =
     (case GetProposer (Validators cs) of
        None \<Rightarrow> False
      | Some proposer \<Rightarrow>
          (case state cs of
             None \<Rightarrow> False
           | Some st \<Rightarrow> VerifyBytes env (val_PubKey proposer)
                         (SignBytes_Proposal env (st_ChainID st) p) (p_Signature p)))"

section \<open>Verification of a sign-aggregate\<close>

definition BLSVerifySignAggr :: "Env \<Rightarrow> ConsensusState \<Rightarrow> SignAggr option \<Rightarrow> error + bool" where
  "BLSVerifySignAggr env cs signAggr =
     (case signAggr of
        None \<Rightarrow> Inl (ErrOther ''Invalid SignAggr(nil)'')
      | Some sa \<Rightarrow>
          (case sa_SignAggr sa of
             None \<Rightarrow> Inl (ErrOther ''Invalid BLSSignature(nil)'')
           | Some sig \<Rightarrow>
               let bitMap = sa_BitArray sa;
                   validators = Validators cs;
                   quorum = int64 (int64 (TotalVotingPower (Validators cs) * 2) sdiv 3 + 1)
               in if ValidatorSet_Size validators \<noteq> length bitMap
                  then Inl (ErrOther ''validators are not matched'')
                  else (case TalliedVotingPower validators bitMap of
                    Inl err \<Rightarrow> Inl err
                  | Inr powerSum \<Rightarrow>
                      (case AggrPubKey env validators bitMap of
                         None \<Rightarrow> Inl (ErrOther ''can not aggregate pubkeys'')
                       | Some aggrPubKey \<Rightarrow>
                           (let vote = \<lparr>v_ValidatorAddress = [], v_ValidatorIndex = 0,
                                       v_Height = sa_Height sa, v_Round = sa_Round sa,
                                       v_Type = sa_Type sa, v_BlockID = sa_BlockID sa,
                                       v_Signature = [], v_SignBytes = []\<rparr>
                            in (if \<not> VerifyBytes env aggrPubKey
                                     (SignBytes_Vote env (sa_ChainID sa) vote) sig
                                then Inl (ErrOther ''Invalid aggregate signature'')
                                else Inr (quorum \<le> powerSum)))))))"

definition verifyMaj23SignAggr :: "Env \<Rightarrow> ConsensusState \<Rightarrow> SignAggr option \<Rightarrow> error + bool" where
  "verifyMaj23SignAggr env cs signAggr =
     (case BLSVerifySignAggr env cs signAggr of
        Inl err \<Rightarrow> Inl err
      | Inr maj23 \<Rightarrow> Inr maj23)"





section \<open>The round state machine\<close>

subsection \<open>Internal functions for managing the state\<close>

definition msgQueueSize :: nat where
  "msgQueueSize = 1000"

definition updateHeight :: "int \<Rightarrow> ConsensusState \<Rightarrow> ConsensusState" where
  "updateHeight height cs = cs\<lparr>Height := height\<rparr>"

definition updateRoundStep :: "int \<Rightarrow> RoundStepType \<Rightarrow> ConsensusState \<Rightarrow> ConsensusState" where
  "updateRoundStep round step cs = cs\<lparr>Round := round, Step := step\<rparr>"

definition RoundStepType_String :: "RoundStepType \<Rightarrow> string" where
  "RoundStepType_String rs =
     (if rs = RoundStepNewHeight then ''RoundStepNewHeight''
      else if rs = RoundStepNewRound then ''RoundStepNewRound''
      else if rs = RoundStepPropose then ''RoundStepPropose''
      else if rs = RoundStepPrevote then ''RoundStepPrevote''
      else if rs = RoundStepPrevoteWait then ''RoundStepPrevoteWait''
      else if rs = RoundStepPrecommit then ''RoundStepPrecommit''
      else if rs = RoundStepPrecommitWait then ''RoundStepPrecommitWait''
      else if rs = RoundStepCommit then ''RoundStepCommit''
      else if rs = RoundStepTest then ''RoundStepTest''
      else ''RoundStepUnknown'')"

definition RoundStateEvent :: "ConsensusState \<Rightarrow> EventDataRoundState" where
  "RoundStateEvent cs =
     \<lparr>ev_Height = Height cs, ev_Round = Round cs, ev_Step = RoundStepType_String (Step cs)\<rparr>"

text \<open>Modelled from the spec: the write-ahead log (\<^verbatim>\<open>WAL.Save\<close>,
  \<^verbatim>\<open>WAL.writeEndHeight\<close>) is an append-only record of what it is given. \<^verbatim>\<open>Save\<close> is
  called on \<^verbatim>\<open>cs.wal\<close> before \<^verbatim>\<open>OpenWAL\<close> has set it (by \<^verbatim>\<open>newStep\<close>, from
  \<^verbatim>\<open>NewConsensusState\<close>), so on the nil log it does nothing.\<close>

definition wal_Save :: "WALMessage \<Rightarrow> ConsensusState \<Rightarrow> ConsensusState" where
  "wal_Save m cs = (case wal cs of None \<Rightarrow> cs | Some w \<Rightarrow> emit (EffWalSave m) cs)"

definition wal_writeEndHeight :: "int \<Rightarrow> ConsensusState \<Rightarrow> ConsensusState" where
  "wal_writeEndHeight height cs = emit (EffWalEndHeight height) cs"

text \<open>\<^verbatim>\<open>types.FireEvent...(cs.evsw, ...)\<close>: nothing is fired on the nil event switch.\<close>

definition fire :: "string \<Rightarrow> ConsensusState \<Rightarrow> ConsensusState" where
  "fire name cs = (if evsw cs then emit (EffFireEvent name) cs else cs)"

definition newStep :: "ConsensusState \<Rightarrow> ConsensusState" where
  "newStep cs =
     (let rs = RoundStateEvent cs;
          cs = wal_Save (WalRoundState rs) cs;
          cs = cs\<lparr>nSteps := int64 (nSteps cs + 1)\<rparr>
      in if evsw cs then emit (EffFireEvent ''NewRoundStep'') cs else cs)"

definition scheduleTimeout ::
  "int \<Rightarrow> int \<Rightarrow> int \<Rightarrow> RoundStepType \<Rightarrow> ConsensusState \<Rightarrow> ConsensusState" where
  "scheduleTimeout duration height round step cs =
     emit (EffScheduleTimeout
             \<lparr>ti_Duration = duration, ti_Height = height, ti_Round = round, ti_Step = step\<rparr>) cs"

definition scheduleRound0 :: "Env \<Rightarrow> ConsensusState \<Rightarrow> ConsensusState \<Rightarrow> ConsensusState" where
  "scheduleRound0 env rs cs =
     (let sleepDuration = Time_Sub (StartTime rs) (Now env)
      in scheduleTimeout sleepDuration (Height rs) 0 RoundStepNewHeight cs)"

text \<open>\<^verbatim>\<open>sendInternalMessage\<close>: the message goes on the internal queue; when the queue
  is full a goroutine is left to send it later (\<open>pendingSends\<close>).\<close>

definition sendInternalMessage :: "msgInfo \<Rightarrow> ConsensusState \<Rightarrow> ConsensusState" where
  "sendInternalMessage mi cs =
     (if length (internalMsgQueue cs) < msgQueueSize
      then cs\<lparr>internalMsgQueue := internalMsgQueue cs @ [mi]\<rparr>
      else cs\<lparr>pendingSends := pendingSends cs @ [mi]\<rparr>)"

definition IsProposer :: "ConsensusState \<Rightarrow> bool outcome" where
  "IsProposer cs =
     (case GetProposer (Validators cs) of
        None \<Rightarrow> Panic nil_deref cs
      | Some proposer \<Rightarrow>
          (case privValidator cs of
             None \<Rightarrow> Panic nil_deref cs
           | Some pv \<Rightarrow> Return (val_Address proposer = pv_Address pv) cs))"

subsection \<open>Signing votes\<close>

definition signVote ::
  "Env \<Rightarrow> VoteType \<Rightarrow> bytes \<Rightarrow> PartSetHeader \<Rightarrow> ConsensusState \<Rightarrow> (Vote \<times> error option) outcome" where
  "signVote env type hash header cs =
     (case privValidator cs of
        None \<Rightarrow> Panic nil_deref cs
      | Some pv \<Rightarrow>
          (let addr = pv_Address pv;
               valIndex = GetByAddress (Validators cs) addr;
               vote = \<lparr>v_ValidatorAddress = BytesToHash160 env addr,
                       v_ValidatorIndex = valIndex,
                       v_Height = Height cs,
                       v_Round = Round cs,
                       v_Type = type,
                       v_BlockID = \<lparr>bid_Hash = BytesToHash160 env hash, bid_PartsHeader = header\<rparr>,
                       v_Signature = [], v_SignBytes = []\<rparr>
           in case state cs of
                None \<Rightarrow> Panic nil_deref cs
              | Some st \<Rightarrow>
                  (case SignVote env pv (st_ChainID st) vote of
                     (err, vote', pv') \<Rightarrow> Return (vote', err) (cs\<lparr>privValidator := Some pv'\<rparr>))))"

text \<open>\<^verbatim>\<open>signAddVote\<close>: sign the vote and publish it on the internal queue; nothing is
  done without a key or outside the validator set.\<close>

definition signAddVote ::
  "Env \<Rightarrow> VoteType \<Rightarrow> bytes \<Rightarrow> PartSetHeader \<Rightarrow> ConsensusState \<Rightarrow> Vote option outcome" where
  "signAddVote env type hash header cs =
     (case privValidator cs of
        None \<Rightarrow> Return None cs
      | Some pv \<Rightarrow>
          if \<not> HasAddress (Validators cs) (pv_Address pv) then Return None cs
          else and_then (signVote env type hash header cs) (\<lambda>(vote, err) cs.
            if err = None then
              (let cs = sendInternalMessage \<lparr>mi_Msg = VoteMessage (Some vote), mi_PeerKey = []\<rparr> cs
               in and_then (IsProposer cs) (\<lambda>isProposer cs.
                    Return (Some vote)
                      (if \<not> isProposer \<and> ProposerPeerKey cs \<noteq> []
                       then fire ''Vote2Proposer'' cs else cs)))
            else Return None cs))"

subsection \<open>Prevote\<close>

definition BlockHeaderHash :: "Proposal \<Rightarrow> bytes" where
  "BlockHeaderHash p = p_Hash p"

definition newDoPrevote :: "Env \<Rightarrow> int \<Rightarrow> int \<Rightarrow> ConsensusState \<Rightarrow> unit outcome" where
  "newDoPrevote env height round cs =
     (if LockedBlock cs \<noteq> None then
        and_then (signAddVote env VoteTypePrevote (Block_Hash (LockedBlock cs))
                    (PartSet_Header (LockedBlockParts cs)) cs)
          (\<lambda>_ cs. Return () cs)
      else case Proposal cs of
        None \<Rightarrow>
          and_then (signAddVote env VoteTypePrevote [] PartSetHeader_zero cs)
            (\<lambda>_ cs. Return () cs)
      | Some proposal \<Rightarrow>
          and_then (signAddVote env VoteTypePrevote (BlockHeaderHash proposal)
                      (p_BlockPartsHeader proposal) cs)
            (\<lambda>_ cs. Return () cs))"

definition defaultDoPrevote :: "Env \<Rightarrow> int \<Rightarrow> int \<Rightarrow> ConsensusState \<Rightarrow> unit outcome" where
  "defaultDoPrevote env height round cs =
     (if LockedBlock cs \<noteq> None then
        and_then (signAddVote env VoteTypePrevote (Block_Hash (LockedBlock cs))
                    (PartSet_Header (LockedBlockParts cs)) cs)
          (\<lambda>_ cs. Return () cs)
      else case ProposalBlock cs of
        None \<Rightarrow>
          and_then (signAddVote env VoteTypePrevote [] PartSetHeader_zero cs)
            (\<lambda>_ cs. Return () cs)
      | Some block \<Rightarrow>
          (case state cs of
             None \<Rightarrow> Panic nil_deref cs
           | Some st \<Rightarrow>
               if ValidateBlock env st block \<noteq> None then
                 and_then (signAddVote env VoteTypePrevote [] PartSetHeader_zero cs)
                   (\<lambda>_ cs. Return () cs)
               else if (case EpochFromBytes env (b_ExData block) of
                          None \<Rightarrow> False
                        | Some proposedNextEpoch \<Rightarrow>
                            ValidateNextEpoch env (Epoch cs) proposedNextEpoch height \<noteq> None) then
                 and_then (signAddVote env VoteTypePrevote [] PartSetHeader_zero cs)
                   (\<lambda>_ cs. Return () cs)
               else (case Proposal cs of
                  None \<Rightarrow> Panic nil_deref cs
                | Some proposal \<Rightarrow>
                    and_then (signAddVote env VoteTypePrevote (BlockHeaderHash proposal)
                                (p_BlockPartsHeader proposal) cs)
                      (\<lambda>_ cs. Return () cs))))"

text \<open>The call \<^verbatim>\<open>cs.doPrevote(height, round)\<close> through the function-valued field.\<close>

definition call_doPrevote :: "Env \<Rightarrow> int \<Rightarrow> int \<Rightarrow> ConsensusState \<Rightarrow> unit outcome" where
  "call_doPrevote env height round cs =
     (case doPrevote cs of
        NewDoPrevote \<Rightarrow> newDoPrevote env height round cs
      | DefaultDoPrevote \<Rightarrow> defaultDoPrevote env height round cs)"

definition enterPrevote :: "Env \<Rightarrow> int \<Rightarrow> int \<Rightarrow> ConsensusState \<Rightarrow> unit outcome" where
  "enterPrevote env height round cs =
     (if Height cs \<noteq> height \<or> round < Round cs
         \<or> (Round cs = round \<and> RoundStepPrevote \<le> Step cs) then Return () cs
      else with_defer (\<lambda>cs. Return () (newStep (updateRoundStep round RoundStepPrevote cs)))
        (let cs = (if Proposal cs = None then fire ''CompleteProposal'' cs else cs)
         in call_doPrevote env height round cs))"

subsection \<open>Propose\<close>

definition Commit_zero :: Commit where
  "Commit_zero = \<lparr>c_BlockID = BlockID_zero, c_Height = 0, c_Round = 0, c_BitArray = [],
                  c_SignAggr = None\<rparr>"

text \<open>\<^verbatim>\<open>isProposalComplete\<close>: the proposal block is complete and, if a POL round was
  proposed, there are +2/3 prevotes from it.\<close>

definition isProposalComplete :: "Env \<Rightarrow> ConsensusState \<Rightarrow> bool outcome" where
  "isProposalComplete env cs =
     (case Proposal cs of
        None \<Rightarrow> Return False cs
      | Some proposal \<Rightarrow>
          if ProposalBlock cs = None then Return False cs
          else if p_POLRound proposal < 0 then Return True cs
          else (case VoteSignAggr cs of
             None \<Rightarrow> Panic nil_deref cs
           | Some h \<Rightarrow>
               Return (SignAggr_HasTwoThirdsMajority env
                         (hvsa_Prevotes env h (p_POLRound proposal)) (Validators cs)) cs))"

text \<open>\<^verbatim>\<open>createProposalBlock\<close>. \<^verbatim>\<open>cs.Epoch\<close> and \<^verbatim>\<open>cs.epoch\<close> are set from one pointer by
  \<^verbatim>\<open>updateToStateAndEpoch\<close>, so \<^verbatim>\<open>SetNextEpoch\<close> shows in both.\<close>

definition createProposalBlock :: "Env \<Rightarrow> ConsensusState \<Rightarrow> (Block option \<times> PartSet option) outcome" where
  "createProposalBlock env cs =
     (case (if Height cs = 1 then Some Commit_zero
            else if SignAggr_HasTwoThirdsMajority env (LastCommit cs) (Validators cs)
              then Some (SignAggr_MakeCommit env (LastCommit cs))
            else None) of
        None \<Rightarrow> Return (None, None) cs
      | Some commit \<Rightarrow>
          (let txs = MempoolReap env (ConfigGetInt env ''block_size'')
           in case ProposeTransactions env (Epoch cs) ''proposer'' (Height cs) of
                (Some err, epTxs) \<Rightarrow> Return (None, None) cs
              | (None, epTxs) \<Rightarrow>
                  (let txs = txs @ epTxs;
                       shouldProposeEpoch = ShouldProposeNextEpoch env (Epoch cs) (Height cs);
                       next = ProposeNextEpoch env (Epoch cs) (Height cs);
                       cs = (if shouldProposeEpoch
                             then cs\<lparr>Epoch := (Epoch cs)\<lparr>ep_NextEpoch := Some next\<rparr>,
                                     epoch := (Epoch cs)\<lparr>ep_NextEpoch := Some next\<rparr>\<rparr>
                             else cs);
                       epochBytes = (if shouldProposeEpoch then next else [])
                   in case state cs of
                        None \<Rightarrow> Panic nil_deref cs
                      | Some st \<Rightarrow>
                          Return (MakeBlock env (Height cs) (st_ChainID st) txs commit
                                    (st_LastBlockID st)
                                    (ValidatorSet_Hash env (snd (GetValidators env st)))
                                    (st_AppHash st) epochBytes
                                    (ConfigGetInt env ''block_part_size'')) cs)))"

definition NewProposal ::
  "int \<Rightarrow> int \<Rightarrow> bytes \<Rightarrow> PartSetHeader \<Rightarrow> int \<Rightarrow> BlockID \<Rightarrow> string \<Rightarrow> string \<Rightarrow> Proposal" where
  "NewProposal height round hash blockPartsHeader polRound polBlockID netAddr peerKey =
     \<lparr>p_Height = height, p_Round = round, p_Hash = hash, p_BlockPartsHeader = blockPartsHeader,
      p_POLRound = polRound, p_POLBlockID = polBlockID, p_ProposerNetAddr = netAddr,
      p_ProposerPeerKey = peerKey, p_Signature = []\<rparr>"

definition PartSet_Parts :: "PartSet option \<Rightarrow> Part option list" where
  "PartSet_Parts ps = (case ps of None \<Rightarrow> [] | Some p \<Rightarrow> ps_Parts p)"

text \<open>The second half of \<^verbatim>\<open>defaultDecideProposal\<close>, once the block is decided.\<close>

definition proposeBlock ::
  "Env \<Rightarrow> int \<Rightarrow> int \<Rightarrow> Block option \<Rightarrow> PartSet option \<Rightarrow> ConsensusState \<Rightarrow> unit outcome" where
  "proposeBlock env height round block blockParts cs =
     (case nodeInfo cs of
        None \<Rightarrow> Panic ''cs.nodeInfo is nil when decide the next block'' cs
      | Some ni \<Rightarrow>
          (case VoteSignAggr cs of
             None \<Rightarrow> Panic nil_deref cs
           | Some h \<Rightarrow>
               (case hvsa_POLInfo env h of
                  (polRound, polBlockID) \<Rightarrow>
                    (let proposal = NewProposal height round (Block_Hash block)
                           (PartSet_Header blockParts) polRound polBlockID
                           (ni_ListenAddr ni) (ni_PubKey ni)
                     in case privValidator cs of
                          None \<Rightarrow> Panic nil_deref cs
                        | Some pv \<Rightarrow>
                            (case state cs of
                               None \<Rightarrow> Panic nil_deref cs
                             | Some st \<Rightarrow>
                                 (case SignProposal env pv (st_ChainID st) proposal of
                                    (Some err, proposal', pv') \<Rightarrow>
                                      Return () (cs\<lparr>privValidator := Some pv'\<rparr>)
                                  | (None, proposal', pv') \<Rightarrow>
                                      (let cs = cs\<lparr>privValidator := Some pv'\<rparr>;
                                           cs = fire ''ProposalBlockParts'' cs;
                                           cs = sendInternalMessage
                                                  \<lparr>mi_Msg = ProposalMessage (Some proposal'),
                                                   mi_PeerKey = []\<rparr> cs
                                       in Return ()
                                            (foldl (\<lambda>cs part. sendInternalMessage
                                                      \<lparr>mi_Msg = BlockPartMessage (Height cs) (Round cs) part,
                                                       mi_PeerKey = []\<rparr> cs)
                                               cs (PartSet_Parts blockParts)))))))))"

definition defaultDecideProposal :: "Env \<Rightarrow> int \<Rightarrow> int \<Rightarrow> ConsensusState \<Rightarrow> unit outcome" where
  "defaultDecideProposal env height round cs =
     (if LockedBlock cs \<noteq> None
      then proposeBlock env height round (LockedBlock cs) (LockedBlockParts cs) cs
      else and_then (createProposalBlock env cs) (\<lambda>(block, blockParts) cs.
        if block = None then Return () cs
        else proposeBlock env height round block blockParts cs))"

definition enterPropose :: "Env \<Rightarrow> int \<Rightarrow> int \<Rightarrow> ConsensusState \<Rightarrow> unit outcome" where
  "enterPropose env height round cs =
     (if Height cs \<noteq> height \<or> round < Round cs
         \<or> (Round cs = round \<and> RoundStepPropose \<le> Step cs) then Return () cs
      else with_defer
        (\<lambda>cs. let cs = newStep (updateRoundStep round RoundStepPropose cs)
              in if Proposal cs \<noteq> None then enterPrevote env height (Round cs) cs
                 else Return () cs)
        (let cs = scheduleTimeout (TimeoutParams_Propose (timeoutParams cs) round)
                    height round RoundStepPropose cs
         in case privValidator cs of
              None \<Rightarrow> Return () cs
            | Some pv \<Rightarrow>
                (case GetProposer (Validators cs) of
                   None \<Rightarrow> Panic nil_deref cs
                 | Some proposer \<Rightarrow>
                     if val_Address proposer \<noteq> pv_Address pv then Return () cs
                     else defaultDecideProposal env height round cs)))"

subsection \<open>New round\<close>

definition enterNewRound :: "Env \<Rightarrow> int \<Rightarrow> int \<Rightarrow> ConsensusState \<Rightarrow> unit outcome" where
  "enterNewRound env height round cs =
     (if Height cs \<noteq> height \<or> round < Round cs
         \<or> (Round cs = round \<and> Step cs \<noteq> RoundStepNewHeight) then Return () cs
      else
        (let validators = (if Round cs < round
                           then IncrementAccum env (Validators cs) (int64 (round - Round cs))
                           else Validators cs);
             cs = updateRoundStep round RoundStepNewRound cs;
             cs = cs\<lparr>Validators := validators\<rparr>;
             cs = (if round = 0 then cs
                   else cs\<lparr>Proposal := None, ProposalBlock := None, ProposalBlockParts := None,
                           PrevoteMaj23SignAggr := None, PrecommitMaj23SignAggr := None\<rparr>)
         in case VoteSignAggr cs of
              None \<Rightarrow> Panic nil_deref cs
            | Some h \<Rightarrow>
                (let cs = cs\<lparr>VoteSignAggr := Some (hvsa_SetRound env h (int64 (round + 1)))\<rparr>;
                     cs = fire ''NewRound'' cs
                 in enterPropose env height round cs)))"

subsection \<open>Prevote wait, precommit, precommit wait\<close>

definition enterPrevoteWait :: "Env \<Rightarrow> int \<Rightarrow> int \<Rightarrow> ConsensusState \<Rightarrow> unit outcome" where
  "enterPrevoteWait env height round cs =
     (if Height cs \<noteq> height \<or> round < Round cs
         \<or> (Round cs = round \<and> RoundStepPrevoteWait \<le> Step cs) then Return () cs
      else if \<not> vset_any23 (hvs_Prevotes env (Votes cs) round)
        then Panic ''enterPrevoteWait, but Prevotes does not have any +2/3 votes'' cs
      else with_defer (\<lambda>cs. Return () (newStep (updateRoundStep round RoundStepPrevoteWait cs)))
        (Return () (scheduleTimeout (TimeoutParams_Prevote (timeoutParams cs) round)
                      height round RoundStepPrevoteWait cs)))"

definition precommit_nil :: "Env \<Rightarrow> ConsensusState \<Rightarrow> unit outcome" where
  "precommit_nil env cs =
     and_then (signAddVote env VoteTypePrecommit [] PartSetHeader_zero cs) (\<lambda>_ cs. Return () cs)"

definition enterPrecommit :: "Env \<Rightarrow> int \<Rightarrow> int \<Rightarrow> ConsensusState \<Rightarrow> unit outcome" where
  "enterPrecommit env height round cs =
     (if Height cs \<noteq> height \<or> round < Round cs
         \<or> (Round cs = round \<and> RoundStepPrecommit \<le> Step cs) then Return () cs
      else with_defer (\<lambda>cs. Return () (newStep (updateRoundStep round RoundStepPrecommit cs)))
        (case VoteSignAggr cs of
           None \<Rightarrow> Panic nil_deref cs
         | Some h \<Rightarrow>
             (case SignAggr_TwoThirdsMajority env (hvsa_Prevotes env h round) of
                (blockID, ok) \<Rightarrow>
                  if hvsa_Prevotes env h round = None then Panic nil_deref cs
                  else if \<not> ok then precommit_nil env cs
                  else
                    (let cs = fire ''Polka'' cs
                     in if fst (hvsa_POLInfo env h) < round
                        then Panic ''This POLRound should be the round'' cs
                        else if bid_Hash blockID = [] then
                          (if LockedBlock cs = None then precommit_nil env cs
                           else precommit_nil env
                                  (fire ''Unlock''
                                     (cs\<lparr>LockedRound := 0, LockedBlock := None,
                                         LockedBlockParts := None\<rparr>)))
                        else if HashesTo (LockedBlock cs) (bid_Hash blockID) then
                          and_then (signAddVote env VoteTypePrecommit (bid_Hash blockID)
                                      (bid_PartsHeader blockID)
                                      (fire ''Relock'' (cs\<lparr>LockedRound := round\<rparr>)))
                            (\<lambda>_ cs. Return () cs)
                        else if HashesTo (ProposalBlock cs) (bid_Hash blockID) then
                          (case state cs of
                             None \<Rightarrow> Panic nil_deref cs
                           | Some st \<Rightarrow>
                               if (case ProposalBlock cs of
                                     None \<Rightarrow> False
                                   | Some block \<Rightarrow> ValidateBlock env st block \<noteq> None)
                               then Panic ''enterPrecommit: +2/3 prevoted for an invalid block'' cs
                               else and_then
                                 (signAddVote env VoteTypePrecommit (bid_Hash blockID)
                                    (bid_PartsHeader blockID)
                                    (fire ''Lock''
                                       (cs\<lparr>LockedRound := round,
                                           LockedBlock := ProposalBlock cs,
                                           LockedBlockParts := ProposalBlockParts cs\<rparr>)))
                                 (\<lambda>_ cs. Return () cs))
                        else
                          (let cs = cs\<lparr>LockedRound := 0, LockedBlock := None,
                                       LockedBlockParts := None\<rparr>;
                               cs = (if \<not> HasHeader (ProposalBlockParts cs) (bid_PartsHeader blockID)
                                     then cs\<lparr>ProposalBlock := None,
                                             ProposalBlockParts :=
                                               Some (NewPartSetFromHeader (bid_PartsHeader blockID))\<rparr>
                                     else cs)
                           in precommit_nil env (fire ''Unlock'' cs))))))"

definition enterPrecommitWait :: "Env \<Rightarrow> int \<Rightarrow> int \<Rightarrow> ConsensusState \<Rightarrow> unit outcome" where
  "enterPrecommitWait env height round cs =
     (if Height cs \<noteq> height \<or> round < Round cs
         \<or> (Round cs = round \<and> RoundStepPrecommitWait \<le> Step cs) then Return () cs
      else if \<not> vset_any23 (hvs_Precommits env (Votes cs) round)
        then Panic ''enterPrecommitWait, but Precommits does not have any +2/3 votes'' cs
      else with_defer (\<lambda>cs. Return () (newStep (updateRoundStep round RoundStepPrecommitWait cs)))
        (Return () (scheduleTimeout (TimeoutParams_Precommit (timeoutParams cs) round)
                      height round RoundStepPrecommitWait cs)))"

subsection \<open>Commit\<close>

definition newHeightChangeSleepDuration :: int where
  "newHeightChangeSleepDuration = 2000 * Millisecond"

definition sendPrecommitSleepDuration :: int where
  "sendPrecommitSleepDuration = 100 * Millisecond"

text \<open>\<^verbatim>\<open>updateToStateAndEpoch\<close>: the round state of the next height. A zero
  \<^verbatim>\<open>CommitTime\<close> is the time 0.\<close>

definition updateToStateAndEpoch :: "Env \<Rightarrow> State \<Rightarrow> Epoch \<Rightarrow> ConsensusState \<Rightarrow> unit outcome" where
  "updateToStateAndEpoch env st ep cs =
     (if CommitRound cs > -1 \<and> 0 < Height cs \<and> Height cs \<noteq> st_LastBlockHeight st
      then Panic ''updateToState() expected state height of cs.Height'' cs
      else if (case state cs of None \<Rightarrow> False
               | Some s \<Rightarrow> int64 (st_LastBlockHeight s + 1) \<noteq> Height cs)
      then Panic ''Inconsistent cs.state.LastBlockHeight+1 vs cs.Height'' cs
      else if (case state cs of None \<Rightarrow> False
               | Some s \<Rightarrow> st_LastBlockHeight st \<le> st_LastBlockHeight s)
      then Return () cs
      else
        (let validators = snd (GetValidators env st);
             lastPrecommits =
               (if CommitRound cs > -1
                then (case VoteSignAggr cs of
                        None \<Rightarrow> None
                      | Some h \<Rightarrow> hvsa_Precommits env h (CommitRound cs))
                else None);
             height = int64 (st_LastBlockHeight st + 1);
             cs = updateHeight height cs;
             cs = updateRoundStep 0 RoundStepNewHeight cs;
             cs = cs\<lparr>StartTime :=
                       (if CommitTime cs = 0
                        then TimeoutParams_Commit (timeoutParams cs) (Now env)
                        else TimeoutParams_Commit (timeoutParams cs) (CommitTime cs))\<rparr>;
             cs = cs\<lparr>Validators := validators,
                     Proposal := None,
                     ProposalBlock := None,
                     ProposalBlockParts := None,
                     PrevoteMaj23SignAggr := None,
                     PrecommitMaj23SignAggr := None,
                     LockedRound := 0,
                     LockedBlock := None,
                     LockedBlockParts := None,
                     Votes := NewHeightVoteSet env (ConfigGetString env ''chain_id'') height validators,
                     VoteSignAggr := Some (NewHeightVoteSignAggr env
                                             (ConfigGetString env ''chain_id'') height validators),
                     CommitRound := -1,
                     LastCommit := lastPrecommits,
                     Epoch := ep,
                     LastValidators := fst (GetValidators env st),
                     state := Some st,
                     epoch := ep\<rparr>
         in Return () (newStep cs)))"

text \<open>Modelled from the spec: \<^verbatim>\<open>BlockStore.SaveBlock\<close> persists the block, its parts and
  the seen commit; the height of the store is then the height of the block.\<close>

definition SaveBlock :: "Block \<Rightarrow> PartSet option \<Rightarrow> Commit \<Rightarrow> ConsensusState \<Rightarrow> ConsensusState" where
  "SaveBlock block blockParts seenCommit cs =
     emit (EffSaveBlock block blockParts seenCommit)
       (cs\<lparr>blockStore := \<lparr>bs_Height = b_Height block,
                              bs_Blocks = bs_Blocks (blockStore cs) @ [(block, blockParts, seenCommit)]\<rparr>\<rparr>)"

text \<open>The part of \<^verbatim>\<open>finalizeCommit\<close> after the sanity checks: save the block, end the
  height in the write-ahead log, apply the block, move to the new height.\<close>

definition commitBlock ::
  "Env \<Rightarrow> int \<Rightarrow> HeightVoteSignAggr \<Rightarrow> State \<Rightarrow> Block \<Rightarrow> ConsensusState \<Rightarrow> unit outcome" where
  "commitBlock env height h st block cs =
     (let blockParts = ProposalBlockParts cs;
          cs = emit (EffSleep newHeightChangeSleepDuration) cs;
          cs = (if bs_Height (blockStore cs) < b_Height block
                then (let precommits = hvsa_Precommits env h (CommitRound cs);
                          seenCommit = SignAggr_MakeCommit env precommits;
                          cs = emit (EffMakeCommit (CommitRound cs) precommits seenCommit) cs
                      in SaveBlock block blockParts seenCommit cs)
                else cs);
          cs = (if wal cs \<noteq> None then wal_writeEndHeight height cs else cs);
          cs = emit (EffApplyBlock block (PartSet_Header blockParts)) cs
      in case ApplyBlock env st block (PartSet_Header blockParts) of
           (Some err, stateCopy) \<Rightarrow> Return () cs
         | (None, stateCopy) \<Rightarrow>
             (let cs = fire ''NewBlock'' cs;
                  cs = fire ''NewBlockHeader'' cs
              in and_then (updateToStateAndEpoch env stateCopy (st_Epoch stateCopy) cs)
                   (\<lambda>_ cs. Return () (scheduleRound0 env cs cs))))"

definition finalizeCommit :: "Env \<Rightarrow> int \<Rightarrow> ConsensusState \<Rightarrow> unit outcome" where
  "finalizeCommit env height cs =
     (if Height cs \<noteq> height \<or> Step cs \<noteq> RoundStepCommit then Return () cs
      else case VoteSignAggr cs of
        None \<Rightarrow> Panic nil_deref cs
      | Some h \<Rightarrow>
          (case SignAggr_TwoThirdsMajority env (hvsa_Precommits env h (CommitRound cs)) of
             (blockID, ok) \<Rightarrow>
               if \<not> ok
               then Panic ''Cannot finalizeCommit, commit does not have two thirds majority'' cs
               else if \<not> HasHeader (ProposalBlockParts cs) (bid_PartsHeader blockID)
               then Panic ''Expected ProposalBlockParts header to be commit header'' cs
               else if \<not> HashesTo (ProposalBlock cs) (bid_Hash blockID)
               then Panic ''Cannot finalizeCommit, ProposalBlock does not hash to commit hash'' cs
               else (case ProposalBlock cs of
                  None \<Rightarrow> Panic nil_deref cs
                | Some block \<Rightarrow>
                    (case state cs of
                       None \<Rightarrow> Panic nil_deref cs
                     | Some st \<Rightarrow>
                         if ValidateBlock env st block \<noteq> None
                         then Panic ''+2/3 committed an invalid block'' cs
                         else commitBlock env height h st block cs))))"

definition tryFinalizeCommit :: "Env \<Rightarrow> int \<Rightarrow> ConsensusState \<Rightarrow> unit outcome" where
  "tryFinalizeCommit env height cs =
     (if Height cs \<noteq> height then Panic ''tryFinalizeCommit() cs.Height vs height'' cs
      else case VoteSignAggr cs of
        None \<Rightarrow> Panic nil_deref cs
      | Some h \<Rightarrow>
          (case SignAggr_TwoThirdsMajority env (hvsa_Precommits env h (CommitRound cs)) of
             (blockID, ok) \<Rightarrow>
               if \<not> ok \<or> bid_Hash blockID = [] then Return () cs
               else if \<not> HashesTo (ProposalBlock cs) (bid_Hash blockID) then Return () cs
               else finalizeCommit env height cs))"

definition enterCommit :: "Env \<Rightarrow> int \<Rightarrow> int \<Rightarrow> ConsensusState \<Rightarrow> unit outcome" where
  "enterCommit env height commitRound cs =
     (if Height cs \<noteq> height \<or> RoundStepCommit \<le> Step cs then Return () cs
      else with_defer
        (\<lambda>cs. let cs = updateRoundStep (Round cs) RoundStepCommit cs;
                  cs = cs\<lparr>CommitRound := commitRound, CommitTime := Now env\<rparr>;
                  cs = newStep cs
              in tryFinalizeCommit env height cs)
        (case VoteSignAggr cs of
           None \<Rightarrow> Panic nil_deref cs
         | Some h \<Rightarrow>
             (case SignAggr_TwoThirdsMajority env (hvsa_Precommits env h commitRound) of
                (blockID, ok) \<Rightarrow>
                  if \<not> ok then Panic ''RunActionCommit() expects +2/3 precommits'' cs
                  else
                    (let cs = (if HashesTo (LockedBlock cs) (bid_Hash blockID)
                               then cs\<lparr>ProposalBlock := LockedBlock cs,
                                       ProposalBlockParts := LockedBlockParts cs\<rparr>
                               else cs);
                         cs = (if \<not> HashesTo (ProposalBlock cs) (bid_Hash blockID)
                                  \<and> \<not> HasHeader (ProposalBlockParts cs) (bid_PartsHeader blockID)
                               then cs\<lparr>ProposalBlock := None,
                                       ProposalBlockParts :=
                                         Some (NewPartSetFromHeader (bid_PartsHeader blockID))\<rparr>
                               else cs)
                     in Return () cs))))"

subsection \<open>Block parts\<close>

definition addProposalBlockPart ::
  "Env \<Rightarrow> int \<Rightarrow> Part option \<Rightarrow> bool \<Rightarrow> ConsensusState \<Rightarrow> (bool \<times> error option) outcome" where
  "addProposalBlockPart env height part verify cs =
     (if Height cs \<noteq> height then Return (False, None) cs
      else case ProposalBlockParts cs of
        None \<Rightarrow> Return (False, None) cs
      | Some ps \<Rightarrow>
          (case PartSet_AddPart env ps part verify of
             (added, err, ps') \<Rightarrow>
               (let cs = cs\<lparr>ProposalBlockParts := Some ps'\<rparr>
                in if err \<noteq> None then Return (added, err) cs
                   else if added \<and> PartSet_IsComplete ps' then
                     (case ReadBlock env ps' of
                        (block, err') \<Rightarrow>
                          and_then (isProposalComplete env (cs\<lparr>ProposalBlock := Some block\<rparr>))
                            (\<lambda>_ cs. Return (True, err') cs))
                   else Return (added, None) cs)))"

subsection \<open>Sign-aggregate acceptance\<close>

definition setMaj23SignAggr ::
  "Env \<Rightarrow> SignAggr option \<Rightarrow> ConsensusState \<Rightarrow> (error option \<times> bool) outcome" where
  "setMaj23SignAggr env signAggr cs =
     (case signAggr of
        None \<Rightarrow> Panic nil_deref cs
      | Some sa \<Rightarrow>
          if sa_Height sa \<noteq> Height cs \<or> sa_Round sa \<noteq> Round cs then Return (None, False) cs
          else if (case verifyMaj23SignAggr env cs signAggr of
                     Inl err \<Rightarrow> True
                   | Inr maj23 \<Rightarrow> maj23 = False)
          then Return (Some ErrInvalidSignatureAggr, False) cs
          else if sa_Type sa = VoteTypePrevote then
            (if PrevoteMaj23SignAggr cs \<noteq> None then Return (Some ErrDuplicateSignatureAggr, False) cs
             else case VoteSignAggr cs of
               None \<Rightarrow> Panic nil_deref cs
             | Some h \<Rightarrow>
                 (let cs = cs\<lparr>VoteSignAggr := Some (hvsa_AddSignAggr env h sa),
                              PrevoteMaj23SignAggr := signAggr\<rparr>
                  in and_then (isProposalComplete env cs) (\<lambda>complete cs.
                       if complete
                       then and_then (enterPrecommit env (Height cs) (Round cs) cs)
                              (\<lambda>_ cs. Return (None, True) cs)
                       else Return (None, False) cs)))
          else if sa_Type sa = VoteTypePrecommit then
            (if PrecommitMaj23SignAggr cs \<noteq> None then Return (Some ErrDuplicateSignatureAggr, False) cs
             else case VoteSignAggr cs of
               None \<Rightarrow> Panic nil_deref cs
             | Some h \<Rightarrow>
                 (let cs = cs\<lparr>VoteSignAggr := Some (hvsa_AddSignAggr env h sa),
                              PrecommitMaj23SignAggr := signAggr\<rparr>
                  in and_then (isProposalComplete env cs) (\<lambda>complete cs.
                       if complete
                       then and_then (enterCommit env (Height cs) (Round cs) cs)
                              (\<lambda>_ cs. Return (None, True) cs)
                       else Return (None, False) cs)))
          else Return (Some ErrInvalidSignatureAggr, False) cs)"

subsection \<open>Votes\<close>

text \<open>The loop of \<^verbatim>\<open>sendMaj23SignAggr\<close> over \<^verbatim>\<open>votes\<close>, from index \<open>i\<close> on: the block
  id and the sign bytes of the last vote seen, the bitmap and the signatures.\<close>

fun collectVotes ::
  "Vote option list \<Rightarrow> nat \<Rightarrow> BlockID \<times> bytes \<times> BitArray \<times> bytes list
     \<Rightarrow> BlockID \<times> bytes \<times> BitArray \<times> bytes list" where
  "collectVotes [] i acc = acc"
| "collectVotes (None # votes) i acc = collectVotes votes (i + 1) acc"
| "collectVotes (Some vote # votes) i (blockID, ss, signBitArray, sigs) =
     collectVotes votes (i + 1)
       (v_BlockID vote, v_SignBytes vote, SetIndex signBitArray i True, sigs @ [v_Signature vote])"

text \<open>\<^verbatim>\<open>sendMaj23SignAggr\<close>. \<^verbatim>\<open>logger.Fatal\<close> is taken as a log call, after which the
  function goes on.\<close>

definition sendMaj23SignAggr :: "Env \<Rightarrow> VoteType \<Rightarrow> ConsensusState \<Rightarrow> unit outcome" where
  "sendMaj23SignAggr env voteType cs =
     (case (if voteType = VoteTypePrevote
            then (vset_Votes (hvs_Prevotes env (Votes cs) (Round cs)),
                  VoteSet_TwoThirdsMajority (hvs_Prevotes env (Votes cs) (Round cs)))
            else if voteType = VoteTypePrecommit
            then (vset_Votes (hvs_Precommits env (Votes cs) (Round cs)),
                  VoteSet_TwoThirdsMajority (hvs_Prevotes env (Votes cs) (Round cs)))
            else ([], BlockID_zero, False)) of
        (votes, maj23, ok) \<Rightarrow>
          (let cs = (if ok = False then emit (EffLogFatal ''Votset does not have +2/3 voting'') cs
                     else cs);
               numValidators = ValidatorSet_Size (Validators cs)
           in case collectVotes votes 0 (BlockID_zero, [], NewBitArray numValidators, []) of
                (blockID, ss, signBitArray, sigs) \<Rightarrow>
                  (case BLSSignatureAggregate env sigs of
                     None \<Rightarrow> Return () (emit (EffLogFatal ''Can not aggregate signature'') cs)
                   | Some signature \<Rightarrow>
                       (let signAggr = (MakeSignAggr (Height cs) (Round cs) voteType
                                          (int numValidators) blockID (hvs_chainID (Votes cs))
                                          signBitArray (Some signature))
                                       \<lparr>sa_SignBytes := ss\<rparr>
                        in if BlockID_IsZero maj23 then Panic ''Invalid maj23'' cs
                           else
                             (let signAggr = signAggr\<lparr>sa_Maj23 := maj23\<rparr>;
                                  cs = fire ''SignAggr'' cs
                              in Return ()
                                   (sendInternalMessage
                                      \<lparr>mi_Msg = Maj23SignAggrMessage (Some signAggr),
                                       mi_PeerKey = []\<rparr> cs))))))"

definition addVote ::
  "Env \<Rightarrow> Vote option \<Rightarrow> string \<Rightarrow> ConsensusState \<Rightarrow> (bool \<times> error option) outcome" where
  "addVote env vote peerKey cs =
     (case vote of
        None \<Rightarrow> Panic nil_deref cs
      | Some v \<Rightarrow>
          if v_Height v = Height cs then
            (case hvs_AddVote env (Votes cs) v peerKey of
               (added, err, votes') \<Rightarrow>
                 (let cs = cs\<lparr>Votes := votes'\<rparr>
                  in if added then
                       (if v_Type v = VoteTypePrevote then
                          (if VoteSet_HasTwoThirdsMajority (hvs_Prevotes env (Votes cs) (Round cs))
                           then and_then (sendMaj23SignAggr env (v_Type v) cs)
                                  (\<lambda>_ cs. Return (added, err) cs)
                           else Return (added, err) cs)
                        else if v_Type v = VoteTypePrecommit then
                          (if VoteSet_HasTwoThirdsMajority (hvs_Precommits env (Votes cs) (Round cs))
                           then and_then (sendMaj23SignAggr env (v_Type v) cs)
                                  (\<lambda>_ cs. Return (added, err) cs)
                           else Return (added, err) cs)
                        else Return (added, err) cs)
                     else Return (added, err) cs))
          else Return (False, Some ErrVoteHeightMismatch) cs)"

definition tryAddVote :: "Env \<Rightarrow> Vote option \<Rightarrow> string \<Rightarrow> ConsensusState \<Rightarrow> error option outcome" where
  "tryAddVote env vote peerKey cs =
     and_then (addVote env vote peerKey cs) (\<lambda>(added, err) cs.
       case err of
         None \<Rightarrow> Return None cs
       | Some e \<Rightarrow>
           if e = ErrVoteHeightMismatch then Return (Some e) cs
           else if e = ErrVoteConflictingVotes then Return (Some e) cs
           else Return (Some ErrAddingVote) cs)"

subsection \<open>The receive routine\<close>

definition handleMsg :: "Env \<Rightarrow> msgInfo \<Rightarrow> ConsensusState \<Rightarrow> ConsensusState \<Rightarrow> unit outcome" where
  "handleMsg env mi rs cs =
     (case mi_Msg mi of
        ProposalMessage proposal \<Rightarrow>
          and_then (call_setProposal env proposal cs) (\<lambda>err cs.
            if err = None then enterPrevote env (Height cs) (Round cs) cs else Return () cs)
      | BlockPartMessage height round part \<Rightarrow>
          and_then (addProposalBlockPart env height part (mi_PeerKey mi \<noteq> []) cs)
            (\<lambda>(added, err) cs.
               if (if err \<noteq> None \<and> round \<noteq> Round cs then None else err) \<noteq> None
               then Return () cs
               else and_then (isProposalComplete env cs) (\<lambda>complete cs.
                 if complete \<and> Step cs = RoundStepPrevote then
                   (case VoteSignAggr cs of
                      None \<Rightarrow> Panic nil_deref cs
                    | Some h \<Rightarrow>
                        if hvsa_getSignAggr env h (Round cs) VoteTypePrevote \<noteq> None
                           \<and> SignAggr_HasTwoThirdsMajority env
                               (hvsa_getSignAggr env h (Round cs) VoteTypePrevote) (Validators cs)
                        then enterPrecommit env (Height cs) (Round cs) cs
                        else Return () cs)
                 else Return () cs))
      | Maj23SignAggrMessage signAggr \<Rightarrow>
          (case signAggr of
             None \<Rightarrow> Panic nil_deref cs
           | Some sa \<Rightarrow>
               and_then (setMaj23SignAggr env signAggr cs) (\<lambda>_ cs. Return () cs))
      | VoteMessage vote \<Rightarrow>
          and_then (tryAddVote env vote (mi_PeerKey mi) cs) (\<lambda>err cs.
            Return () (if PrecommitMaj23SignAggr cs \<noteq> None
                       then emit (EffSleep sendPrecommitSleepDuration) cs else cs))
      | UnknownMessage \<Rightarrow> Return () cs)"

definition handleTimeout :: "Env \<Rightarrow> timeoutInfo \<Rightarrow> ConsensusState \<Rightarrow> ConsensusState \<Rightarrow> unit outcome" where
  "handleTimeout env ti rs cs =
     (if ti_Height ti \<noteq> Height rs \<or> ti_Round ti < Round rs
         \<or> (ti_Round ti = Round rs \<and> ti_Step ti < Step rs) then Return () cs
      else if ti_Step ti = RoundStepNewHeight then enterNewRound env (ti_Height ti) 0 cs
      else if ti_Step ti = RoundStepPropose
        then enterPrevote env (ti_Height ti) (ti_Round ti) (fire ''TimeoutPropose'' cs)
      else if ti_Step ti = RoundStepPrevoteWait
        then enterPrecommit env (ti_Height ti) (ti_Round ti) (fire ''TimeoutWait'' cs)
      else if ti_Step ti = RoundStepPrecommitWait
        then enterNewRound env (ti_Height ti) (int64 (ti_Round ti + 1)) (fire ''TimeoutWait'' cs)
      else Panic ''Invalid timeout step'' cs)"

text \<open>
  What the \<^verbatim>\<open>select\<close> of \<^verbatim>\<open>receiveRoutine\<close> takes: a message from the peer queue, the
  next message of the internal queue, a timeout from the ticker, or the quit signal. The
  routine is run on the list of what its selects take, in order; when the list ends, the
  routine is blocked in the \<^verbatim>\<open>select\<close>.
\<close>

datatype event = PeerMsg msgInfo | InternalMsg | TimeoutTick timeoutInfo | Quit

datatype routine_end = Exited | Blocked

text \<open>Taking the head of the internal queue lets a waiting goroutine of
  \<^verbatim>\<open>sendInternalMessage\<close> put its message on the queue.\<close>

definition takeInternal :: "ConsensusState \<Rightarrow> (msgInfo \<times> ConsensusState) option" where
  "takeInternal cs =
     (case internalMsgQueue cs of
        [] \<Rightarrow> None
      | mi # q \<Rightarrow>
          Some (mi, (case pendingSends cs of
                       [] \<Rightarrow> cs\<lparr>internalMsgQueue := q\<rparr>
                     | p # ps \<Rightarrow> cs\<lparr>internalMsgQueue := q @ [p], pendingSends := ps\<rparr>)))"

text \<open>One round of the loop of \<^verbatim>\<open>receiveRoutine\<close> for an event other than quit:
  \<^verbatim>\<open>rs := cs.RoundState\<close>, then the case of the \<^verbatim>\<open>select\<close>.\<close>

definition receiveEvent :: "Env \<Rightarrow> event \<Rightarrow> ConsensusState \<Rightarrow> unit outcome" where
  "receiveEvent env ev cs =
     (let rs = cs
      in case ev of
           PeerMsg mi \<Rightarrow> handleMsg env mi rs (wal_Save (WalMsgInfo mi) cs)
         | InternalMsg \<Rightarrow>
             (case takeInternal cs of
                None \<Rightarrow> Return () cs
              | Some (mi, cs) \<Rightarrow> handleMsg env mi rs (wal_Save (WalMsgInfo mi) cs))
         | TimeoutTick ti \<Rightarrow> handleTimeout env ti rs (wal_Save (WalTimeoutInfo ti) cs)
         | Quit \<Rightarrow> Return () cs)"

fun receiveRoutine :: "Env \<Rightarrow> int \<Rightarrow> event list \<Rightarrow> ConsensusState \<Rightarrow> routine_end outcome" where
  "receiveRoutine env maxSteps [] cs =
     (if maxSteps > 0 \<and> nSteps cs \<ge> maxSteps then Return Exited (cs\<lparr>nSteps := 0\<rparr>)
      else Return Blocked cs)"
| "receiveRoutine env maxSteps (ev # evs) cs =
     (if maxSteps > 0 \<and> nSteps cs \<ge> maxSteps then Return Exited (cs\<lparr>nSteps := 0\<rparr>)
      else if ev = Quit
        then Return Exited
               (emit EffCloseDone (if wal cs \<noteq> None then emit EffWalStop cs else cs))
      else and_then (receiveEvent env ev cs) (\<lambda>_ cs. receiveRoutine env maxSteps evs cs))"

subsection \<open>Construction\<close>

definition InitTimeoutParamsFromConfig :: "Env \<Rightarrow> TimeoutParams" where
  "InitTimeoutParamsFromConfig env =
     \<lparr>Propose0 = ConfigGetInt env ''timeout_propose'',
      ProposeDelta = ConfigGetInt env ''timeout_propose_delta'',
      Prevote0 = ConfigGetInt env ''timeout_prevote'',
      PrevoteDelta = ConfigGetInt env ''timeout_prevote_delta'',
      Precommit0 = ConfigGetInt env ''timeout_precommit'',
      PrecommitDelta = ConfigGetInt env ''timeout_precommit_delta'',
      Commit0 = ConfigGetInt env ''timeout_commit'',
      SkipTimeoutCommit = ConfigGetBool env ''skip_timeout_commit''\<rparr>"

text \<open>Modelled from the spec: \<^verbatim>\<open>BlockStore.LoadSeenCommit\<close> gives the commit that was saved
  with the block of the height, nil if there is none; \<^verbatim>\<open>Commit.Size\<close> is the length of the
  bitmap of the commit.\<close>

definition LoadSeenCommit :: "BlockStore \<Rightarrow> int \<Rightarrow> Commit option" where
  "LoadSeenCommit bs height =
     map_option (\<lambda>(block, blockParts, seenCommit). seenCommit)
       (find (\<lambda>(block, blockParts, seenCommit). b_Height block = height) (rev (bs_Blocks bs)))"

definition Commit_Size :: "Commit \<Rightarrow> nat" where
  "Commit_Size commit = length (c_BitArray commit)"

definition reconstructLastCommit :: "Env \<Rightarrow> State \<Rightarrow> ConsensusState \<Rightarrow> unit outcome" where
  "reconstructLastCommit env st cs =
     (if st_LastBlockHeight st = 0 then Return () cs
      else
        (case LoadSeenCommit (blockStore cs) (st_LastBlockHeight st) of
           None \<Rightarrow> Panic nil_deref cs
         | Some seenCommit \<Rightarrow>
             (let lastValidators = fst (GetValidators env st) in
              if Commit_Size seenCommit \<noteq> ValidatorSet_Size lastValidators
              then Panic ''size of lastValidators is not equal to that saved in last commit'' cs
              else
                (let lastPrecommits =
                       MakeSignAggr (c_Height seenCommit) (c_Round seenCommit) VoteTypePrecommit
                         (int (Commit_Size seenCommit)) (c_BlockID seenCommit) (st_ChainID st)
                         (c_BitArray seenCommit) (c_SignAggr seenCommit)
                 in Return () (cs\<lparr>LastCommit := Some lastPrecommits\<rparr>)))))"

text \<open>\<^verbatim>\<open>NewConsensusState\<close>: every field that the struct literal does not name has the zero
  value of its type, the two function fields are set to \<^verbatim>\<open>newDoPrevote\<close> and
  \<^verbatim>\<open>newSetProposal\<close>, and the round state is that of the height after \<open>st\<close>. The nil
  \<^verbatim>\<open>Epoch\<close> pointers are written as the epoch 0; \<^verbatim>\<open>updateToStateAndEpoch\<close> overwrites
  them before anything reads them.\<close>

definition NewConsensusState :: "Env \<Rightarrow> State \<Rightarrow> BlockStore \<Rightarrow> Epoch \<Rightarrow> unit outcome" where
  "NewConsensusState env st store ep =
     (let cs = \<lparr>Height = 0, Round = 0, Step = 0, StartTime = 0, CommitTime = 0,
                Epoch = \<lparr>ep_Number = 0, ep_NextEpoch = None\<rparr>,
                Validators = \<lparr>vs_Validators = [], vs_Proposer = None\<rparr>,
                Proposal = None, ProposalBlock = None, ProposalBlockParts = None,
                ProposerNetAddr = [], ProposerPeerKey = [],
                LockedRound = 0, LockedBlock = None, LockedBlockParts = None,
                Votes = \<lparr>hvs_chainID = [], hvs_height = 0, hvs_sets = []\<rparr>,
                VoteSignAggr = None, CommitRound = 0, LastCommit = None,
                LastValidators = \<lparr>vs_Validators = [], vs_Proposer = None\<rparr>,
                PrevoteMaj23SignAggr = None, PrecommitMaj23SignAggr = None,
                privValidator = None, nodeInfo = None,
                epoch = \<lparr>ep_Number = 0, ep_NextEpoch = None\<rparr>,
                state = None, blockStore = store,
                internalMsgQueue = [], pendingSends = [],
                timeoutParams = InitTimeoutParamsFromConfig env,
                wal = None, replayMode = False, nSteps = 0, evsw = False,
                doPrevote = NewDoPrevote, setProposal = NewSetProposal, trace = []\<rparr>
      in and_then (updateToStateAndEpoch env st ep cs)
           (\<lambda>_. reconstructLastCommit env st))"

section \<open>Predicates used in the statements\<close>

text \<open>The node can sign the vote of the given kind for the given hash and parts header:
  it has a key, its address is in the validator set, and the signing device signs this
  one vote: \<^verbatim>\<open>signVote\<close> returns it without an error and with what it says (kind,
  height, round, block id) as it was built. Nothing is asked of the device about any
  other vote.\<close>

definition can_vote :: "Env \<Rightarrow> ConsensusState \<Rightarrow> VoteType \<Rightarrow> bytes \<Rightarrow> PartSetHeader \<Rightarrow> bool" where
  "can_vote env cs type hash header \<longleftrightarrow>
     (case privValidator cs of
        None \<Rightarrow> False
      | Some pv \<Rightarrow>
          HasAddress (Validators cs) (pv_Address pv)
          \<and> (case signVote env type hash header cs of
                Return (vote, err) cs' \<Rightarrow>
                  err = None \<and> v_Type vote = type \<and> v_Height vote = Height cs
                  \<and> v_Round vote = Round cs
                  \<and> v_BlockID vote =
                      \<lparr>bid_Hash = BytesToHash160 env hash, bid_PartsHeader = header\<rparr>
              | Panic m cs' \<Rightarrow> False))"

text \<open>The hash and the parts header that the prevote is for: those of the locked block if
  there is one, otherwise nil if there is no proposal, otherwise those of the proposal.\<close>

definition prevote_choice :: "ConsensusState \<Rightarrow> bytes \<times> PartSetHeader" where
  "prevote_choice cs =
     (case LockedBlock cs of
        Some block \<Rightarrow> (b_Hash block, PartSet_Header (LockedBlockParts cs))
      | None \<Rightarrow>
          (case Proposal cs of
             None \<Rightarrow> ([], PartSetHeader_zero)
           | Some p \<Rightarrow> (p_Hash p, p_BlockPartsHeader p)))"

text \<open>\<^verbatim>\<open>signAddVote\<close> has sent a vote of the given kind for the given block id, at the
  height and round of the state, to the internal queue: the vote message is the last on
  the queue or, when the queue was full, the last of those left to a goroutine.\<close>

definition sent_vote :: "ConsensusState \<Rightarrow> ConsensusState \<Rightarrow> VoteType \<Rightarrow> BlockID \<Rightarrow> bool" where
  "sent_vote cs cs' type blockID \<longleftrightarrow>
     (\<exists>vote. v_Type vote = type \<and> v_Height vote = Height cs \<and> v_Round vote = Round cs
        \<and> v_BlockID vote = blockID
        \<and> (if length (internalMsgQueue cs) < msgQueueSize
           then internalMsgQueue cs' =
                  internalMsgQueue cs @ [\<lparr>mi_Msg = VoteMessage (Some vote), mi_PeerKey = []\<rparr>]
                \<and> pendingSends cs' = pendingSends cs
           else internalMsgQueue cs' = internalMsgQueue cs
                \<and> pendingSends cs' =
                    pendingSends cs @ [\<lparr>mi_Msg = VoteMessage (Some vote), mi_PeerKey = []\<rparr>]))"

text \<open>A relation between the state before a call and the state in which the call ends,
  whether it returns or panics.\<close>

definition rel :: "(ConsensusState \<Rightarrow> ConsensusState \<Rightarrow> bool) \<Rightarrow> ConsensusState \<Rightarrow> 'a outcome \<Rightarrow> bool" where
  "rel R cs0 r \<longleftrightarrow> R cs0 (state_of r)"

text \<open>The trace only grows, and the write-ahead log stays the one it was.\<close>

definition grows :: "ConsensusState \<Rightarrow> ConsensusState \<Rightarrow> bool" where
  "grows cs cs' \<longleftrightarrow> prefix (trace cs) (trace cs') \<and> wal cs' = wal cs"

text \<open>The height, the lock, the votes and what is proposed: the fields of the round state
  that entering a round may or may not reset.\<close>

definition core_of ::
  "ConsensusState \<Rightarrow> int \<times> int \<times> Block option \<times> PartSet option \<times> HeightVoteSet
     \<times> Proposal option \<times> Block option \<times> PartSet option \<times> SignAggr option \<times> SignAggr option
     \<times> HeightVoteSignAggr option" where
  "core_of cs = (Height cs, LockedRound cs, LockedBlock cs, LockedBlockParts cs, Votes cs,
                 Proposal cs, ProposalBlock cs, ProposalBlockParts cs,
                 PrevoteMaj23SignAggr cs, PrecommitMaj23SignAggr cs, VoteSignAggr cs)"

definition same :: "(ConsensusState \<Rightarrow> 'b) \<Rightarrow> ConsensusState \<Rightarrow> ConsensusState \<Rightarrow> bool" where
  "same f cs cs' \<longleftrightarrow> f cs' = f cs"

text \<open>The state in which \<^verbatim>\<open>enterPrecommit\<close> precommits nil after a polka for nil while
  it is locked.\<close>

definition unlocked :: "ConsensusState \<Rightarrow> ConsensusState" where
  "unlocked cs = fire ''Unlock''
     ((fire ''Polka'' cs)\<lparr>LockedRound := 0, LockedBlock := None, LockedBlockParts := None\<rparr>)"


text \<open>The effects of finalizing a commit whose order matters for crash recovery: building
  the seen commit, saving the block, ending the height in the write-ahead log, applying
  the block.\<close>

fun is_commit_effect :: "effect \<Rightarrow> bool" where
  "is_commit_effect (EffMakeCommit r sa c) = True"
| "is_commit_effect (EffSaveBlock b ps c) = True"
| "is_commit_effect (EffWalEndHeight h) = True"
| "is_commit_effect (EffApplyBlock b h) = True"
| "is_commit_effect _ = False"

definition commit_effects :: "ConsensusState \<Rightarrow> effect list" where
  "commit_effects cs = filter is_commit_effect (trace cs)"

text \<open>The bitmap among what the loop of \<^verbatim>\<open>sendMaj23SignAggr\<close> collects.\<close>

definition bits_of :: "BlockID \<times> bytes \<times> BitArray \<times> bytes list \<Rightarrow> BitArray" where
  "bits_of acc = fst (snd (snd acc))"

text \<open>The functions held by the two function-valued fields.\<close>

definition hooks_of :: "ConsensusState \<Rightarrow> doPrevoteFn \<times> setProposalFn" where
  "hooks_of cs = (doPrevote cs, setProposal cs)"

section \<open>Concrete instances\<close>

text \<open>
  A small implementation of the collaborators and a state with four validators of voting
  power 1, on which the theorems below are exercised. The toy signature scheme has the
  algebra of an aggregating scheme: a key and a message digest are bytes, a signature is
  their product, keys and signatures aggregate by addition, so that an aggregate of
  signatures on one message verifies under the aggregated key.
\<close>

definition val_A :: Validator where
  "val_A = \<lparr>val_Address = [0xA], val_PubKey = [0x1A], val_VotingPower = 1, val_Accum = 0\<rparr>"
definition val_B :: Validator where
  "val_B = \<lparr>val_Address = [0xB], val_PubKey = [0x1B], val_VotingPower = 1, val_Accum = 0\<rparr>"
definition val_C :: Validator where
  "val_C = \<lparr>val_Address = [0xC], val_PubKey = [0x1C], val_VotingPower = 1, val_Accum = 0\<rparr>"
definition val_D :: Validator where
  "val_D = \<lparr>val_Address = [0xD], val_PubKey = [0x1D], val_VotingPower = 1, val_Accum = 0\<rparr>"

definition vals4 :: ValidatorSet where
  "vals4 = \<lparr>vs_Validators = [val_A, val_B, val_C, val_D], vs_Proposer = Some val_A\<rparr>"

fun selected :: "'a list \<Rightarrow> bool list \<Rightarrow> 'a list" where
  "selected (x # xs) (b # bs) = (if b then x # selected xs bs else selected xs bs)"
| "selected _ _ = []"

definition digest :: "bytes \<Rightarrow> 8 word" where
  "digest msg = 1 + sum_list msg"

definition toy_sign :: "bytes \<Rightarrow> bytes \<Rightarrow> bytes" where
  "toy_sign key msg = [sum_list key * digest msg]"

text \<open>\<^verbatim>\<open>POLInfo\<close>: the latest round, from the round of the set downwards, whose prevote
  aggregate has a +2/3 majority that \<open>counts\<close>, with the block id of the majority;
  \<open>-1\<close> and the nil block id when there is none.\<close>

fun pol_scan :: "(SignAggr \<Rightarrow> bool) \<Rightarrow> HeightVoteSignAggr \<Rightarrow> nat \<Rightarrow> int \<times> BlockID" where
  "pol_scan counts h 0 =
     (case map_of (hvsa_aggrs h) (0, VoteTypePrevote) of
        None \<Rightarrow> (-1, BlockID_zero)
      | Some a \<Rightarrow> if counts a then (0, sa_Maj23 a) else (-1, BlockID_zero))"
| "pol_scan counts h (Suc r) =
     (case map_of (hvsa_aggrs h) (int (Suc r), VoteTypePrevote) of
        None \<Rightarrow> pol_scan counts h r
      | Some a \<Rightarrow> if counts a then (int (Suc r), sa_Maj23 a) else pol_scan counts h r)"

text \<open>The collaborators. The signing device refuses a vote of a height below the last
  height it signed; \<^verbatim>\<open>POLInfo\<close> counts every +2/3 majority, also one for nil.\<close>

definition test_env :: Env where
  "test_env = \<lparr>
     VerifyBytes = (\<lambda>pk msg sig. sig = toy_sign pk msg),
     SignBytes_Proposal = (\<lambda>chainID p. p_Hash p),
     SignBytes_Vote = (\<lambda>chainID v. bid_Hash (v_BlockID v)),
     AggrPubKey = (\<lambda>vs bm.
        Some [sum_list (concat (selected (map val_PubKey (vs_Validators vs)) bm))]),
     BLSSignatureAggregate = (\<lambda>sigs. if sigs = [] then None else Some [sum_list (concat sigs)]),
     BytesToHash160 = (\<lambda>b. b),
     SignVote = (\<lambda>pv chainID v.
        if v_Height v < pv_LastHeight pv
        then (Some (ErrOther ''Height regression''), v, pv)
        else (None, v\<lparr>v_Signature := toy_sign (pv_PubKey pv) (bid_Hash (v_BlockID v))\<rparr>,
              pv\<lparr>pv_LastHeight := v_Height v\<rparr>)),
     SignProposal = (\<lambda>pv chainID p.
        (None, p\<lparr>p_Signature := toy_sign (pv_PubKey pv) (p_Hash p)\<rparr>, pv)),
     IncrementAccum = (\<lambda>vs n. vs),
     GetValidators = (\<lambda>st. (vals4, vals4)),
     ValidateBlock = (\<lambda>st b. None),
     ApplyBlock = (\<lambda>st b h. (None, st\<lparr>st_LastBlockHeight := b_Height b\<rparr>)),
     SignAggr_TwoThirdsMajority = (\<lambda>sa. case sa of None \<Rightarrow> (BlockID_zero, False)
                                          | Some a \<Rightarrow> (sa_Maj23 a, True)),
     SignAggr_HasTwoThirdsMajority = (\<lambda>sa vs. sa \<noteq> None),
     SignAggr_MakeCommit = (\<lambda>sa. case sa of
        None \<Rightarrow> \<lparr>c_BlockID = BlockID_zero, c_Height = 0, c_Round = 0, c_BitArray = [],
                  c_SignAggr = None\<rparr>
      | Some a \<Rightarrow> \<lparr>c_BlockID = sa_BlockID a, c_Height = sa_Height a, c_Round = sa_Round a,
                    c_BitArray = sa_BitArray a, c_SignAggr = sa_SignAggr a\<rparr>),
     hvsa_Prevotes = (\<lambda>h r. map_of (hvsa_aggrs h) (r, VoteTypePrevote)),
     hvsa_Precommits = (\<lambda>h r. map_of (hvsa_aggrs h) (r, VoteTypePrecommit)),
     hvsa_SetRound = (\<lambda>h r. h\<lparr>hvsa_round := r\<rparr>),
     hvsa_AddSignAggr = (\<lambda>h sa. h\<lparr>hvsa_aggrs := hvsa_aggrs h @ [((sa_Round sa, sa_Type sa), sa)]\<rparr>),
     hvsa_POLInfo = (\<lambda>h. pol_scan (\<lambda>a. True) h (nat (hvsa_round h))),
     hvsa_getSignAggr = (\<lambda>h r t. map_of (hvsa_aggrs h) (r, t)),
     NewHeightVoteSignAggr = (\<lambda>chainID h vs.
        \<lparr>hvsa_chainID = chainID, hvsa_height = h, hvsa_round = 0, hvsa_aggrs = []\<rparr>),
     NewHeightVoteSet = (\<lambda>chainID h vs. \<lparr>hvs_chainID = chainID, hvs_height = h, hvs_sets = []\<rparr>),
     hvs_AddVote = (\<lambda>h v peer. (False, None, h)),
     hvs_Prevotes = (\<lambda>h r. case map_of (hvs_sets h) (r, VoteTypePrevote) of
        None \<Rightarrow> \<lparr>vset_Votes = [], vset_maj23 = None, vset_any23 = False\<rparr> | Some s \<Rightarrow> s),
     hvs_Precommits = (\<lambda>h r. case map_of (hvs_sets h) (r, VoteTypePrecommit) of
        None \<Rightarrow> \<lparr>vset_Votes = [], vset_maj23 = None, vset_any23 = False\<rparr> | Some s \<Rightarrow> s),
     PartSet_AddPart = (\<lambda>ps part verify. (False, None, ps)),
     ReadBlock = (\<lambda>ps. (\<lparr>b_Height = 5, b_Hash = psh_Hash (ps_Header ps), b_NumTxs = 0, b_ExData = []\<rparr>, None)),
     MempoolReap = (\<lambda>n. []),
     ProposeTransactions = (\<lambda>ep role h. (None, [])),
     ShouldProposeNextEpoch = (\<lambda>ep h. False),
     ProposeNextEpoch = (\<lambda>ep h. []),
     EpochFromBytes = (\<lambda>b. None),
     ValidateNextEpoch = (\<lambda>ep b h. None),
     MakeBlock = (\<lambda>h chainID txs commit lastID valHash appHash ex partSize. (None, None)),
     ValidatorSet_Hash = (\<lambda>vs. []),
     ConfigGetInt = (\<lambda>k. 0),
     ConfigGetString = (\<lambda>k. ''pchain''),
     ConfigGetBool = (\<lambda>k. False),
     Now = 0\<rparr>"

text \<open>The same collaborators with a \<^verbatim>\<open>POLInfo\<close> that counts only the majorities for a
  block, not those for nil.\<close>

definition block_pol_env :: Env where
  "block_pol_env =
     test_env\<lparr>hvsa_POLInfo := (\<lambda>h. pol_scan (\<lambda>a. bid_Hash (sa_Maj23 a) \<noteq> []) h
                                       (nat (hvsa_round h)))\<rparr>"

definition test_state :: State where
  "test_state = \<lparr>st_ChainID = ''pchain'', st_LastBlockHeight = 4, st_LastBlockID = BlockID_zero,
             st_AppHash = [], st_Epoch = \<lparr>ep_Number = 0, ep_NextEpoch = None\<rparr>\<rparr>"

text \<open>Height 5, round 1, step Propose, nothing proposed or locked; the write-ahead log
  is open and the node is validator A.\<close>

definition test_cs :: ConsensusState where
  "test_cs = \<lparr>Height = 5, Round = 1, Step = RoundStepPropose, StartTime = 0, CommitTime = 0,
          Epoch = \<lparr>ep_Number = 0, ep_NextEpoch = None\<rparr>,
          Validators = vals4, Proposal = None, ProposalBlock = None,
          ProposalBlockParts = None, ProposerNetAddr = [], ProposerPeerKey = [],
          LockedRound = 0, LockedBlock = None, LockedBlockParts = None,
          Votes = \<lparr>hvs_chainID = ''pchain'', hvs_height = 5, hvs_sets = []\<rparr>,
          VoteSignAggr = Some \<lparr>hvsa_chainID = ''pchain'', hvsa_height = 5, hvsa_round = 1,
                                hvsa_aggrs = []\<rparr>,
          CommitRound = -1, LastCommit = None, LastValidators = vals4,
          PrevoteMaj23SignAggr = None, PrecommitMaj23SignAggr = None,
          privValidator = Some \<lparr>pv_Address = [0xA], pv_PubKey = [0x1A], pv_LastHeight = 4, pv_LastSign = []\<rparr>,
          nodeInfo = Some \<lparr>ni_ListenAddr = ''10.0.0.1:46656'', ni_PubKey = ''A''\<rparr>,
          epoch = \<lparr>ep_Number = 0, ep_NextEpoch = None\<rparr>,
          state = Some test_state,
          blockStore = \<lparr>bs_Height = 4, bs_Blocks = []\<rparr>,
          internalMsgQueue = [], pendingSends = [],
          timeoutParams = \<lparr>Propose0 = 3000, ProposeDelta = 500, Prevote0 = 1000,
            PrevoteDelta = 500, Precommit0 = 1000, PrecommitDelta = 500, Commit0 = 1000,
            SkipTimeoutCommit = False\<rparr>,
          wal = Some \<lparr>wal_light = False\<rparr>, replayMode = False, nSteps = 0, evsw = True,
          doPrevote = NewDoPrevote, setProposal = NewSetProposal, trace = []\<rparr>"

definition header_B :: PartSetHeader where
  "header_B = \<lparr>psh_Total = 1, psh_Hash = [0xB0]\<rparr>"

definition blockID_B :: BlockID where
  "blockID_B = \<lparr>bid_Hash = [0xBB], bid_PartsHeader = header_B\<rparr>"

definition block_B :: Block where
  "block_B = \<lparr>b_Height = 5, b_Hash = [0xBB], b_NumTxs = 0, b_ExData = []\<rparr>"

text \<open>A proposal for block B at height 5, round 1, signed by the proposer A.\<close>

definition proposal_B :: Proposal where
  "proposal_B = \<lparr>p_Height = 5, p_Round = 1, p_Hash = [0xBB], p_BlockPartsHeader = header_B,
                  p_POLRound = -1, p_POLBlockID = BlockID_zero,
                  p_ProposerNetAddr = ''10.0.0.1:46656'', p_ProposerPeerKey = ''A'',
                  p_Signature = toy_sign [0x1A] [0xBB]\<rparr>"

text \<open>A prevote aggregate for block B at height 5, round 1, with the given bitmap and
  signature.\<close>

definition aggr_B :: "VoteType \<Rightarrow> BitArray \<Rightarrow> bytes option \<Rightarrow> SignAggr" where
  "aggr_B type bm sig =
     \<lparr>sa_ChainID = ''pchain'', sa_Height = 5, sa_Round = 1, sa_Type = type,
      sa_NumValidators = 4, sa_BlockID = blockID_B, sa_Maj23 = blockID_B,
      sa_BitArray = bm, sa_SignAggr = sig, sa_SignBytes = []\<rparr>"

text \<open>Round 2 of height 5: the node is locked on block B since round 1, and the prevote
  aggregate of round 2 has +2/3 for nil.\<close>

definition nil_aggr :: SignAggr where
  "nil_aggr = \<lparr>sa_ChainID = ''pchain'', sa_Height = 5, sa_Round = 2, sa_Type = VoteTypePrevote,
                sa_NumValidators = 4, sa_BlockID = BlockID_zero, sa_Maj23 = BlockID_zero,
                sa_BitArray = [True, True, True, True],
                sa_SignAggr = Some (toy_sign [0x1A, 0x1B, 0x1C, 0x1D] []), sa_SignBytes = []\<rparr>"

definition vsa_nil_polka :: HeightVoteSignAggr where
  "vsa_nil_polka = \<lparr>hvsa_chainID = ''pchain'', hvsa_height = 5, hvsa_round = 2,
                     hvsa_aggrs = [((2, VoteTypePrevote), nil_aggr)]\<rparr>"

definition cs_nil_polka :: ConsensusState where
  "cs_nil_polka = test_cs\<lparr>Round := 2, Step := RoundStepPrevote, LockedRound := 1,
                     LockedBlock := Some block_B,
                     LockedBlockParts := Some (NewPartSetFromHeader header_B),
                     VoteSignAggr := Some vsa_nil_polka\<rparr>"

text \<open>Prevote aggregates for block B at height 5, round 1: from A, B and C (power 3 of 4),
  and from A and B only (power 2 of 4), each with the signature that verifies.\<close>

definition aggr_1110 :: SignAggr where
  "aggr_1110 = aggr_B VoteTypePrevote [True, True, True, False]
                 (Some (toy_sign [0x1A, 0x1B, 0x1C] [0xBB]))"

definition aggr_1100 :: SignAggr where
  "aggr_1100 = aggr_B VoteTypePrevote [True, True, False, False]
                 (Some (toy_sign [0x1A, 0x1B] [0xBB]))"

text \<open>Round 1 of height 5 is over (step PrecommitWait): the node, validator B, is locked on
  block B since round 1 and holds the proposal and the prevote aggregate of round 1.\<close>

definition cs_locked :: ConsensusState where
  "cs_locked = test_cs\<lparr>Step := RoundStepPrecommitWait, LockedRound := 1,
                  LockedBlock := Some block_B,
                  LockedBlockParts := Some (NewPartSetFromHeader header_B),
                  Proposal := Some proposal_B, ProposalBlock := Some block_B,
                  ProposalBlockParts := Some (NewPartSetFromHeader header_B),
                  PrevoteMaj23SignAggr := Some aggr_1110,
                  privValidator := Some \<lparr>pv_Address = [0xB], pv_PubKey = [0x1B],
                                          pv_LastHeight = 4, pv_LastSign = []\<rparr>\<rparr>"

text \<open>A new height: round 0, step NewHeight, and the proposal of round 0 has already
  arrived.\<close>

definition cs_new_height :: ConsensusState where
  "cs_new_height = test_cs\<lparr>Round := 0, Step := RoundStepNewHeight,
                      Proposal := Some (proposal_B\<lparr>p_Round := 0\<rparr>),
                      ProposalBlockParts := Some (NewPartSetFromHeader header_B)\<rparr>"

text \<open>Height 5 in step Commit: block B is complete and the precommit aggregate of round 1
  has +2/3 for it; the block store is at height 4.\<close>

definition precommit_aggr_B :: SignAggr where
  "precommit_aggr_B =
     aggr_B VoteTypePrecommit [True, True, True, False] (Some (toy_sign [0x1A, 0x1B, 0x1C] [0xBB]))"

definition vsa_commit :: HeightVoteSignAggr where
  "vsa_commit = \<lparr>hvsa_chainID = ''pchain'', hvsa_height = 5, hvsa_round = 1,
                  hvsa_aggrs = [((1, VoteTypePrecommit), precommit_aggr_B)]\<rparr>"

definition cs_commit :: ConsensusState where
  "cs_commit = test_cs\<lparr>Step := RoundStepCommit, CommitRound := 1,
                  ProposalBlock := Some block_B,
                  ProposalBlockParts := Some (NewPartSetFromHeader header_B),
                  VoteSignAggr := Some vsa_commit\<rparr>"

definition seen_commit_B :: Commit where
  "seen_commit_B = \<lparr>c_BlockID = blockID_B, c_Height = 5, c_Round = 1,
                     c_BitArray = [True, True, True, False],
                     c_SignAggr = Some (toy_sign [0x1A, 0x1B, 0x1C] [0xBB])\<rparr>"

text \<open>The prevotes of round 1: A, B and C prevote block B, and D either has not voted or
  has prevoted nil.\<close>

definition prevote :: "int \<Rightarrow> bytes \<Rightarrow> bytes \<Rightarrow> BlockID \<Rightarrow> Vote" where
  "prevote i addr key blockID =
     \<lparr>v_ValidatorAddress = addr, v_ValidatorIndex = i, v_Height = 5, v_Round = 1,
      v_Type = VoteTypePrevote, v_BlockID = blockID,
      v_Signature = toy_sign key (bid_Hash blockID), v_SignBytes = bid_Hash blockID\<rparr>"

definition votes_B3 :: "Vote option list" where
  "votes_B3 = [Some (prevote 0 [0xA] [0x1A] blockID_B), Some (prevote 1 [0xB] [0x1B] blockID_B),
               Some (prevote 2 [0xC] [0x1C] blockID_B), None]"

definition votes_B3_nil :: "Vote option list" where
  "votes_B3_nil = [Some (prevote 0 [0xA] [0x1A] blockID_B), Some (prevote 1 [0xB] [0x1B] blockID_B),
                   Some (prevote 2 [0xC] [0x1C] blockID_B), Some (prevote 3 [0xD] [0x1D] BlockID_zero)]"

definition cs_votes :: "Vote option list \<Rightarrow> ConsensusState" where
  "cs_votes votes =
     test_cs\<lparr>Step := RoundStepPrevote,
             Votes := \<lparr>hvs_chainID = ''pchain'', hvs_height = 5,
                        hvs_sets = [((1, VoteTypePrevote),
                                     \<lparr>vset_Votes = votes, vset_maj23 = Some blockID_B,
                                      vset_any23 = True\<rparr>)]\<rparr>\<rparr>"

text \<open>The aggregates that \<^verbatim>\<open>sendMaj23SignAggr\<close> builds from the two vote sets.\<close>

definition sent_aggr_B3 :: SignAggr where
  "sent_aggr_B3 = \<lparr>sa_ChainID = ''pchain'', sa_Height = 5, sa_Round = 1, sa_Type = VoteTypePrevote,
                    sa_NumValidators = 4, sa_BlockID = blockID_B, sa_Maj23 = blockID_B,
                    sa_BitArray = [True, True, True, False],
                    sa_SignAggr = Some (toy_sign [0x1A, 0x1B, 0x1C] [0xBB]),
                    sa_SignBytes = [0xBB]\<rparr>"

definition sent_aggr_B3_nil :: SignAggr where
  "sent_aggr_B3_nil = \<lparr>sa_ChainID = ''pchain'', sa_Height = 5, sa_Round = 1, sa_Type = VoteTypePrevote,
                    sa_NumValidators = 4, sa_BlockID = BlockID_zero, sa_Maj23 = blockID_B,
                    sa_BitArray = [True, True, True, True],
                    sa_SignAggr = Some [0x99],
                    sa_SignBytes = []\<rparr>"

text \<open>The receive routine. A's own prevote for block B waits on the internal queue; the
  events are the timeout of the step Propose of round 1, a timeout of round 0, which
  round 1 ignores, and a message of a peer. On the timeout of Propose the node, which
  has no proposal, prevotes nil and enters the step Prevote: \<open>cs_after_tick\<close>.\<close>

definition own_vote_msg :: msgInfo where
  "own_vote_msg = \<lparr>mi_Msg = VoteMessage (Some (prevote 0 [0xA] [0x1A] blockID_B)), mi_PeerKey = []\<rparr>"

definition cs_queued :: ConsensusState where
  "cs_queued = test_cs\<lparr>internalMsgQueue := [own_vote_msg]\<rparr>"

definition stale_tick :: timeoutInfo where
  "stale_tick = \<lparr>ti_Duration = 3000 * Millisecond, ti_Height = 5, ti_Round = 0,
                  ti_Step = RoundStepPropose\<rparr>"

definition propose_tick :: timeoutInfo where
  "propose_tick = \<lparr>ti_Duration = 3500 * Millisecond, ti_Height = 5, ti_Round = 1,
                    ti_Step = RoundStepPropose\<rparr>"

definition peer_msg :: msgInfo where
  "peer_msg = \<lparr>mi_Msg = ProposalMessage (Some proposal_B), mi_PeerKey = ''peer''\<rparr>"

definition trace_after_tick :: "effect list" where
  "trace_after_tick =
     [EffWalSave (WalTimeoutInfo propose_tick), EffFireEvent ''TimeoutPropose'',
      EffFireEvent ''CompleteProposal'',
      EffWalSave (WalRoundState \<lparr>ev_Height = 5, ev_Round = 1, ev_Step = ''RoundStepPrevote''\<rparr>),
      EffFireEvent ''NewRoundStep'']"

definition cs_after_tick :: ConsensusState where
  "cs_after_tick =
     cs_queued\<lparr>
       internalMsgQueue :=
         [own_vote_msg,
          \<lparr>mi_Msg = VoteMessage (Some
             \<lparr>v_ValidatorAddress = [0xA], v_ValidatorIndex = 0, v_Height = 5, v_Round = 1,
              v_Type = VoteTypePrevote, v_BlockID = BlockID_zero,
              v_Signature = toy_sign [0x1A] [], v_SignBytes = []\<rparr>), mi_PeerKey = []\<rparr>],
       privValidator := Some \<lparr>pv_Address = [0xA], pv_PubKey = [0x1A], pv_LastHeight = 5,
                               pv_LastSign = []\<rparr>,
       Step := RoundStepPrevote, nSteps := 1,
       trace := trace_after_tick\<rparr>"

section \<open>Helper lemmas\<close>

lemmas RoundStep_defs =
  RoundStepNewHeight_def RoundStepNewRound_def RoundStepPropose_def RoundStepPrevote_def
  RoundStepPrevoteWait_def RoundStepPrecommit_def RoundStepPrecommitWait_def
  RoundStepCommit_def RoundStepTest_def


lemmas fixture_defs = test_cs_def test_env_def vals4_def val_A_def val_B_def val_C_def val_D_def
  test_state_def aggr_B_def blockID_B_def header_B_def proposal_B_def block_B_def

lemmas setProposal_defs = call_setProposal_def newSetProposal_def defaultSetProposal_def
  verifyProposalSignature_def proposal_signature_ok_def





lemma setProposal_installed:
  "call_setProposal env (Some p) cs = Return err cs' \<Longrightarrow> Proposal cs' \<noteq> Proposal cs \<Longrightarrow>
      Proposal cs = None \<and> p_Height p = Height cs \<and> p_Round p = Round cs
      \<and> \<not> RoundStepCommit \<le> Step cs
      \<and> (p_POLRound p = -1 \<or> (0 \<le> p_POLRound p \<and> p_POLRound p \<le> p_Round p - 1))
      \<and> proposal_signature_ok env cs p
      \<and> err = None \<and> Proposal cs' = Some p
      \<and> ProposalBlockParts cs' = Some (NewPartSetFromHeader (p_BlockPartsHeader p))"
  unfolding setProposal_defs
  by (cases "setProposal cs") (auto split: option.splits if_splits)

lemma setProposal_installs:
  "Proposal cs = None \<and> p_Height p = Height cs \<and> p_Round p = Round cs
      \<and> \<not> RoundStepCommit \<le> Step cs
      \<and> (p_POLRound p = -1 \<or> (0 \<le> p_POLRound p \<and> p_POLRound p \<le> p_Round p - 1))
      \<and> proposal_signature_ok env cs p \<Longrightarrow>
      (\<exists>cs'. call_setProposal env (Some p) cs = Return None cs' \<and> Proposal cs' = Some p
         \<and> ProposalBlockParts cs' = Some (NewPartSetFromHeader (p_BlockPartsHeader p)))"
  unfolding setProposal_defs
  by (cases "setProposal cs") (auto split: option.splits if_splits)

lemma setProposal_bad_POLRound:
  "Proposal cs = None \<and> p_Height p = Height cs \<and> p_Round p = Round cs
      \<and> \<not> RoundStepCommit \<le> Step cs
      \<and> \<not> (p_POLRound p = -1 \<or> (0 \<le> p_POLRound p \<and> p_POLRound p < p_Round p)) \<Longrightarrow>
      call_setProposal env (Some p) cs = Return (Some ErrInvalidProposalPOLRound) cs"
  unfolding setProposal_defs
  by (cases "setProposal cs") (auto split: option.splits if_splits)

lemma setProposal_ignored:
  "p_Height p \<noteq> Height cs \<or> p_Round p \<noteq> Round cs \<or> Proposal cs \<noteq> None
      \<or> RoundStepCommit \<le> Step cs \<Longrightarrow>
      call_setProposal env (Some p) cs = Return None cs"
  unfolding setProposal_defs
  by (cases "setProposal cs") (auto split: option.splits if_splits)

text \<open>\<^verbatim>\<open>signVote\<close> changes nothing but the signing device.\<close>

lemma signVote_state:
  "signVote env type hash header cs = Return r cs1 \<Longrightarrow>
   \<exists>pv'. cs1 = cs\<lparr>privValidator := Some pv'\<rparr>"
  unfolding signVote_def Let_def
  by (auto split: option.splits prod.splits)

text \<open>A node that can sign the vote sends it to its internal queue; the call returns when
  the validator set has a proposer.\<close>

lemma signAddVote_sends:
  assumes "can_vote env cs type hash header"
  shows "sent_vote cs (state_of (signAddVote env type hash header cs)) type
           \<lparr>bid_Hash = BytesToHash160 env hash, bid_PartsHeader = header\<rparr>
       \<and> (GetProposer (Validators cs) \<noteq> None \<longrightarrow>
            (\<exists>v cs'. signAddVote env type hash header cs = Return v cs'))"
proof -
  from assms obtain pv vote cs1 where
    pv: "privValidator cs = Some pv" and ha: "HasAddress (Validators cs) (pv_Address pv)"
    and sv: "signVote env type hash header cs = Return (vote, None) cs1"
    and v: "v_Type vote = type" "v_Height vote = Height cs" "v_Round vote = Round cs"
      "v_BlockID vote = \<lparr>bid_Hash = BytesToHash160 env hash, bid_PartsHeader = header\<rparr>"
    unfolding can_vote_def by (auto split: option.splits outcome.splits prod.splits)
  from signVote_state [OF sv] obtain pv' where c: "cs1 = cs\<lparr>privValidator := Some pv'\<rparr>"
    by blast
  show ?thesis
    unfolding signAddVote_def sent_vote_def
    using pv ha sv v
    by (cases "GetProposer (Validators cs)")
       (auto simp: c and_then_def sendInternalMessage_def IsProposer_def fire_def emit_def
             Let_def state_of_def)
qed
section \<open>Relating the state before and after a call\<close>

subsection \<open>Combinators\<close>

lemma rel_Return: "R cs0 cs \<Longrightarrow> rel R cs0 (Return v cs)"
  by (simp add: rel_def state_of_def)

lemma rel_Panic: "R cs0 cs \<Longrightarrow> rel R cs0 (Panic m cs)"
  by (simp add: rel_def state_of_def)

lemma rel_and_then:
  assumes "rel R cs0 r" and "\<And>v cs. R cs0 cs \<Longrightarrow> rel R cs0 (f v cs)"
  shows "rel R cs0 (and_then r f)"
  using assms by (cases r) (simp_all add: rel_def state_of_def and_then_def)

lemma rel_with_defer:
  assumes "rel R cs0 r" and "\<And>cs. R cs0 cs \<Longrightarrow> rel R cs0 (d cs)"
  shows "rel R cs0 (with_defer d r)"
proof (cases r)
  case (Return v cs)
  with assms(1) have "R cs0 cs" by (simp add: rel_def state_of_def)
  from assms(2) [OF this] show ?thesis using Return
    by (cases "d cs") (simp_all add: rel_def state_of_def with_defer_def)
next
  case (Panic m cs)
  with assms(1) have "R cs0 cs" by (simp add: rel_def state_of_def)
  from assms(2) [OF this] show ?thesis using Panic
    by (cases "d cs") (simp_all add: rel_def state_of_def with_defer_def)
qed

lemma rel_if:
  assumes "c \<Longrightarrow> rel R cs0 a" and "\<not> c \<Longrightarrow> rel R cs0 b"
  shows "rel R cs0 (if c then a else b)"
  using assms by simp

lemma rel_case_option:
  assumes "x = None \<Longrightarrow> rel R cs0 a" and "\<And>y. x = Some y \<Longrightarrow> rel R cs0 (f y)"
  shows "rel R cs0 (case x of None \<Rightarrow> a | Some y \<Rightarrow> f y)"
  using assms by (cases x) simp_all

lemma rel_case_prod:
  assumes "\<And>a b. rel R cs0 (f a b)"
  shows "rel R cs0 (case p of (a, b) \<Rightarrow> f a b)"
  using assms by (cases p) simp

lemma rel_case_prod_app:
  assumes "\<And>a b. rel R cs0 (f a b cs)"
  shows "rel R cs0 ((case p of (a, b) \<Rightarrow> f a b) cs)"
  using assms by (cases p) simp

lemma rel_Let_state:
  assumes "R cs0 a" and "\<And>cs. R cs0 cs \<Longrightarrow> rel R cs0 (f cs)"
  shows "rel R cs0 (Let a f)"
  using assms by simp

lemma rel_Let:
  assumes "\<And>x. rel R cs0 (f x)"
  shows "rel R cs0 (Let a f)"
  using assms by simp

lemma rel_case_doPrevoteFn:
  assumes "rel R cs0 a" and "rel R cs0 b"
  shows "rel R cs0 (case x of NewDoPrevote \<Rightarrow> a | DefaultDoPrevote \<Rightarrow> b)"
  using assms by (cases x) simp_all

lemma rel_case_setProposalFn:
  assumes "rel R cs0 a" and "rel R cs0 b"
  shows "rel R cs0 (case x of NewSetProposal \<Rightarrow> a | DefaultSetProposal \<Rightarrow> b)"
  using assms by (cases x) simp_all

lemmas rel_intros = rel_Return rel_Panic rel_and_then rel_with_defer rel_if rel_case_option
  rel_case_prod rel_case_prod_app rel_Let_state rel_Let rel_case_doPrevoteFn
  rel_case_setProposalFn

subsection \<open>The trace of the state updates\<close>

lemma trace_emit [simp]: "trace (emit e cs) = trace cs @ [e]"
  by (simp add: emit_def)

lemma trace_fire: "trace (fire n cs) = trace cs @ (if evsw cs then [EffFireEvent n] else [])"
  by (simp add: fire_def)

lemma grows_refl [simp]: "grows cs cs"
  by (simp add: grows_def)

lemma grows_emit [simp]: "grows cs0 cs \<Longrightarrow> grows cs0 (emit e cs)"
  by (simp add: grows_def emit_def)

lemma grows_fire [simp]: "grows cs0 cs \<Longrightarrow> grows cs0 (fire n cs)"
  by (simp add: fire_def)

lemma grows_wal_Save [simp]: "grows cs0 cs \<Longrightarrow> grows cs0 (wal_Save m cs)"
  by (simp add: wal_Save_def split: option.splits)

lemma grows_update [simp]:
  "grows cs0 (cs\<lparr>Height := h\<rparr>) = grows cs0 cs"
  "grows cs0 (cs\<lparr>Round := r\<rparr>) = grows cs0 cs"
  "grows cs0 (cs\<lparr>Step := s\<rparr>) = grows cs0 cs"
  "grows cs0 (cs\<lparr>StartTime := t\<rparr>) = grows cs0 cs"
  "grows cs0 (cs\<lparr>CommitTime := t\<rparr>) = grows cs0 cs"
  "grows cs0 (cs\<lparr>Epoch := ep\<rparr>) = grows cs0 cs"
  "grows cs0 (cs\<lparr>Validators := vs\<rparr>) = grows cs0 cs"
  "grows cs0 (cs\<lparr>Proposal := p\<rparr>) = grows cs0 cs"
  "grows cs0 (cs\<lparr>ProposalBlock := b\<rparr>) = grows cs0 cs"
  "grows cs0 (cs\<lparr>ProposalBlockParts := ps\<rparr>) = grows cs0 cs"
  "grows cs0 (cs\<lparr>ProposerNetAddr := a\<rparr>) = grows cs0 cs"
  "grows cs0 (cs\<lparr>ProposerPeerKey := k\<rparr>) = grows cs0 cs"
  "grows cs0 (cs\<lparr>LockedRound := r\<rparr>) = grows cs0 cs"
  "grows cs0 (cs\<lparr>LockedBlock := b\<rparr>) = grows cs0 cs"
  "grows cs0 (cs\<lparr>LockedBlockParts := ps\<rparr>) = grows cs0 cs"
  "grows cs0 (cs\<lparr>Votes := hv\<rparr>) = grows cs0 cs"
  "grows cs0 (cs\<lparr>VoteSignAggr := ha\<rparr>) = grows cs0 cs"
  "grows cs0 (cs\<lparr>CommitRound := r\<rparr>) = grows cs0 cs"
  "grows cs0 (cs\<lparr>LastCommit := lc\<rparr>) = grows cs0 cs"
  "grows cs0 (cs\<lparr>LastValidators := vs\<rparr>) = grows cs0 cs"
  "grows cs0 (cs\<lparr>PrevoteMaj23SignAggr := sa\<rparr>) = grows cs0 cs"
  "grows cs0 (cs\<lparr>PrecommitMaj23SignAggr := sa\<rparr>) = grows cs0 cs"
  "grows cs0 (cs\<lparr>privValidator := pv\<rparr>) = grows cs0 cs"
  "grows cs0 (cs\<lparr>epoch := ep\<rparr>) = grows cs0 cs"
  "grows cs0 (cs\<lparr>state := st\<rparr>) = grows cs0 cs"
  "grows cs0 (cs\<lparr>blockStore := bs\<rparr>) = grows cs0 cs"
  "grows cs0 (cs\<lparr>internalMsgQueue := q\<rparr>) = grows cs0 cs"
  "grows cs0 (cs\<lparr>pendingSends := q\<rparr>) = grows cs0 cs"
  "grows cs0 (cs\<lparr>nSteps := n\<rparr>) = grows cs0 cs"
  by (simp_all add: grows_def)

lemma grows_newStep [simp]: "grows cs0 cs \<Longrightarrow> grows cs0 (newStep cs)"
  by (simp add: newStep_def Let_def)

lemma grows_updateRoundStep [simp]:
  "grows cs0 (updateRoundStep r s cs) = grows cs0 cs"
  by (simp add: updateRoundStep_def)

lemma grows_scheduleTimeout [simp]:
  "grows cs0 cs \<Longrightarrow> grows cs0 (scheduleTimeout d h r s cs)"
  by (simp add: scheduleTimeout_def)

lemma grows_sendInternalMessage [simp]:
  "grows cs0 (sendInternalMessage mi cs) = grows cs0 cs"
  by (simp add: sendInternalMessage_def)

lemma grows_IsProposer: "grows cs0 cs \<Longrightarrow> rel grows cs0 (IsProposer cs)"
  unfolding IsProposer_def by (intro rel_intros; simp)

lemma grows_signVote: "grows cs0 cs \<Longrightarrow> rel grows cs0 (signVote env type hash header cs)"
  unfolding signVote_def by (intro rel_intros; simp)

lemma grows_signAddVote: "grows cs0 cs \<Longrightarrow> rel grows cs0 (signAddVote env type hash header cs)"
  unfolding signAddVote_def
  by (intro rel_intros grows_signVote grows_IsProposer; simp)

lemma grows_newDoPrevote: "grows cs0 cs \<Longrightarrow> rel grows cs0 (newDoPrevote env h r cs)"
  unfolding newDoPrevote_def
  by (intro rel_intros grows_signAddVote; simp)

lemma grows_defaultDoPrevote: "grows cs0 cs \<Longrightarrow> rel grows cs0 (defaultDoPrevote env h r cs)"
  unfolding defaultDoPrevote_def
  by (intro rel_intros grows_signAddVote; simp)

lemma grows_call_doPrevote: "grows cs0 cs \<Longrightarrow> rel grows cs0 (call_doPrevote env h r cs)"
  unfolding call_doPrevote_def
  by (intro rel_intros grows_newDoPrevote grows_defaultDoPrevote; simp)

lemma grows_enterPrevote: "grows cs0 cs \<Longrightarrow> rel grows cs0 (enterPrevote env h r cs)"
  unfolding enterPrevote_def
  by (intro rel_intros grows_call_doPrevote; simp)

lemma grows_precommit_nil: "grows cs0 cs \<Longrightarrow> rel grows cs0 (precommit_nil env cs)"
  unfolding precommit_nil_def
  by (intro rel_intros grows_signAddVote; simp)

lemma grows_enterPrecommit: "grows cs0 cs \<Longrightarrow> rel grows cs0 (enterPrecommit env h r cs)"
  unfolding enterPrecommit_def
  by (intro rel_intros grows_signAddVote grows_precommit_nil; simp)


lemma emit_upd: "emit e cs = cs\<lparr>trace := trace cs @ [e]\<rparr>"
  by (simp add: emit_def)

lemma fire_upd:
  "fire n cs = cs\<lparr>trace := trace cs @ (if evsw cs then [EffFireEvent n] else [])\<rparr>"
  by (simp add: fire_def emit_def)

lemma wal_Save_upd:
  "wal_Save m cs =
     cs\<lparr>trace := trace cs @ (case wal cs of None \<Rightarrow> [] | Some w \<Rightarrow> [EffWalSave m])\<rparr>"
  by (simp add: wal_Save_def emit_def split: option.splits)

lemma newStep_upd:
  "newStep cs =
     cs\<lparr>nSteps := int64 (nSteps cs + 1),
        trace := trace cs
          @ (case wal cs of None \<Rightarrow> [] | Some w \<Rightarrow> [EffWalSave (WalRoundState (RoundStateEvent cs))])
          @ (if evsw cs then [EffFireEvent ''NewRoundStep''] else [])\<rparr>"
  by (simp add: newStep_def wal_Save_def emit_def Let_def split: option.splits)

lemma sendInternalMessage_upd:
  "sendInternalMessage mi cs =
     cs\<lparr>internalMsgQueue :=
          (if length (internalMsgQueue cs) < msgQueueSize then internalMsgQueue cs @ [mi]
           else internalMsgQueue cs),
        pendingSends :=
          (if length (internalMsgQueue cs) < msgQueueSize then pendingSends cs
           else pendingSends cs @ [mi])\<rparr>"
  by (simp add: sendInternalMessage_def)

lemma scheduleTimeout_upd:
  "scheduleTimeout d h r s cs =
     cs\<lparr>trace := trace cs @ [EffScheduleTimeout
        \<lparr>ti_Duration = d, ti_Height = h, ti_Round = r, ti_Step = s\<rparr>]\<rparr>"
  by (simp add: scheduleTimeout_def emit_def)

lemmas pure_upds = emit_upd fire_upd wal_Save_upd newStep_upd sendInternalMessage_upd
  scheduleTimeout_upd updateRoundStep_def updateHeight_def

lemmas core_simps = same_def core_of_def pure_upds

lemma core_IsProposer: "same core_of cs0 cs \<Longrightarrow> rel (same core_of) cs0 (IsProposer cs)"
  unfolding IsProposer_def by (intro rel_intros; simp add: core_simps)

lemma core_signVote: "same core_of cs0 cs \<Longrightarrow> rel (same core_of) cs0 (signVote env type hash header cs)"
  unfolding signVote_def by (intro rel_intros; simp add: core_simps)

lemma core_signAddVote:
  "same core_of cs0 cs \<Longrightarrow> rel (same core_of) cs0 (signAddVote env type hash header cs)"
  unfolding signAddVote_def
  by (intro rel_intros core_signVote core_IsProposer; simp add: core_simps)

lemma core_precommit_nil: "same core_of cs0 cs \<Longrightarrow> rel (same core_of) cs0 (precommit_nil env cs)"
  unfolding precommit_nil_def
  by (intro rel_intros core_signAddVote; simp add: core_simps)

text \<open>\<^verbatim>\<open>enterPrecommit\<close> on a +2/3 majority of prevotes for nil while a block is locked.
  When \<^verbatim>\<open>POLInfo\<close> gives this round or a later one, the function unlocks and goes on to
  precommit nil; when it gives an earlier round, the function panics and the lock
  stays.\<close>

lemma enterPrecommit_nil_polka:
  assumes "Height cs = height" and "Round cs \<le> round"
    and "Round cs = round \<longrightarrow> Step cs < RoundStepPrecommit"
    and "VoteSignAggr cs = Some h" and "hvsa_Prevotes env h round = Some sa"
    and "SignAggr_TwoThirdsMajority env (Some sa) = (blockID, True)" and "bid_Hash blockID = []"
    and "LockedBlock cs \<noteq> None"
    and "round \<le> fst (hvsa_POLInfo env h)"
  shows "enterPrecommit env height round cs =
     with_defer (\<lambda>cs. Return () (newStep (updateRoundStep round RoundStepPrecommit cs)))
       (precommit_nil env (unlocked cs))"
  using assms
  by (auto simp add: enterPrecommit_def unlocked_def Let_def fire_upd)

lemma enterPrecommit_nil_polka_panic:
  assumes "Height cs = height" and "Round cs \<le> round"
    and "Round cs = round \<longrightarrow> Step cs < RoundStepPrecommit"
    and "VoteSignAggr cs = Some h" and "hvsa_Prevotes env h round = Some sa"
    and "SignAggr_TwoThirdsMajority env (Some sa) = (blockID, True)" and "bid_Hash blockID = []"
    and "LockedBlock cs \<noteq> None"
    and "fst (hvsa_POLInfo env h) < round"
  shows "enterPrecommit env height round cs =
     Panic ''This POLRound should be the round''
       (newStep (updateRoundStep round RoundStepPrecommit (fire ''Polka'' cs)))"
  using assms
  by (auto simp add: enterPrecommit_def Let_def with_defer_def)

lemma enterPrecommit_unlocks:
  assumes "Height cs = height" and "Round cs \<le> round"
    and "Round cs = round \<longrightarrow> Step cs < RoundStepPrecommit"
    and "VoteSignAggr cs = Some h" and "hvsa_Prevotes env h round = Some sa"
    and "SignAggr_TwoThirdsMajority env (Some sa) = (blockID, True)" and "bid_Hash blockID = []"
    and "LockedBlock cs \<noteq> None"
    and "round \<le> fst (hvsa_POLInfo env h)"
  shows "LockedRound (state_of (enterPrecommit env height round cs)) = 0
       \<and> LockedBlock (state_of (enterPrecommit env height round cs)) = None
       \<and> LockedBlockParts (state_of (enterPrecommit env height round cs)) = None"
proof -
  have "rel (same core_of) (unlocked cs)
     (with_defer (\<lambda>cs. Return () (newStep (updateRoundStep round RoundStepPrecommit cs)))
       (precommit_nil env (unlocked cs)))"
    by (intro rel_intros core_precommit_nil; simp add: core_simps)
  then have "core_of (state_of (enterPrecommit env height round cs)) = core_of (unlocked cs)"
    unfolding enterPrecommit_nil_polka [OF assms] by (simp add: rel_def same_def)
  then show ?thesis
    by (simp add: core_of_def unlocked_def pure_upds)
qed

lemma enterPrecommit_stays_locked:
  assumes "Height cs = height" and "Round cs \<le> round"
    and "Round cs = round \<longrightarrow> Step cs < RoundStepPrecommit"
    and "VoteSignAggr cs = Some h" and "hvsa_Prevotes env h round = Some sa"
    and "SignAggr_TwoThirdsMajority env (Some sa) = (blockID, True)" and "bid_Hash blockID = []"
    and "LockedBlock cs \<noteq> None"
    and "fst (hvsa_POLInfo env h) < round"
  shows "\<exists>cs'. enterPrecommit env height round cs = Panic ''This POLRound should be the round'' cs'
       \<and> LockedRound cs' = LockedRound cs \<and> LockedBlock cs' = LockedBlock cs
       \<and> LockedBlockParts cs' = LockedBlockParts cs
       \<and> internalMsgQueue cs' = internalMsgQueue cs"
  unfolding enterPrecommit_nil_polka_panic [OF assms]
  by (simp add: pure_upds)

lemma can_vote_unlocked:
  "can_vote env cs type hash header \<Longrightarrow> can_vote env (unlocked cs) type hash header"
  by (simp add: can_vote_def signVote_def unlocked_def pure_upds Let_def
           split: option.splits prod.splits)

lemma sent_vote_stepped:
  "sent_vote (unlocked cs) cs2 type blockID \<Longrightarrow>
   sent_vote cs (newStep (updateRoundStep round step cs2)) type blockID"
  unfolding sent_vote_def unlocked_def pure_upds
  by (elim exE, rule_tac x = vote in exI) (simp split: if_splits)

lemma enterPrecommit_precommits_nil:
  assumes "Height cs = height" and "Round cs \<le> round"
    and "Round cs = round \<longrightarrow> Step cs < RoundStepPrecommit"
    and "VoteSignAggr cs = Some h" and "hvsa_Prevotes env h round = Some sa"
    and "SignAggr_TwoThirdsMajority env (Some sa) = (blockID, True)" and "bid_Hash blockID = []"
    and "LockedBlock cs \<noteq> None"
    and "round \<le> fst (hvsa_POLInfo env h)"
    and "can_vote env cs VoteTypePrecommit [] PartSetHeader_zero"
  shows "sent_vote cs (state_of (enterPrecommit env height round cs)) VoteTypePrecommit
           \<lparr>bid_Hash = BytesToHash160 env [], bid_PartsHeader = PartSetHeader_zero\<rparr>
       \<and> (GetProposer (Validators cs) \<noteq> None \<longrightarrow>
            (\<exists>cs'. enterPrecommit env height round cs = Return () cs'))"
proof -
  let ?s = "signAddVote env VoteTypePrecommit [] PartSetHeader_zero (unlocked cs)"
  note sv = signAddVote_sends [OF can_vote_unlocked [OF assms(10)]]
  have v: "Validators (unlocked cs) = Validators cs"
    by (simp add: unlocked_def pure_upds)
  have e: "state_of (enterPrecommit env height round cs) =
             newStep (updateRoundStep round RoundStepPrecommit (state_of ?s))"
    unfolding enterPrecommit_nil_polka [OF assms(1-9)]
    by (cases ?s) (simp_all add: precommit_nil_def and_then_def with_defer_def state_of_def)
  have r: "\<exists>cs'. enterPrecommit env height round cs = Return () cs'"
    if "GetProposer (Validators cs) \<noteq> None"
  proof -
    from sv that v obtain w cs2 where "?s = Return w cs2" by auto
    then show ?thesis
      unfolding enterPrecommit_nil_polka [OF assms(1-9)]
      by (simp add: precommit_nil_def and_then_def with_defer_def)
  qed
  from sv have "sent_vote (unlocked cs) (state_of ?s) VoteTypePrecommit
           \<lparr>bid_Hash = BytesToHash160 env [], bid_PartsHeader = PartSetHeader_zero\<rparr>"
    by blast
  from sent_vote_stepped [OF this] e r show ?thesis by auto
qed


subsection \<open>The trace only grows\<close>

lemma rel_case_ConsensusMessage:
  assumes "\<And>p. rel R cs0 (f1 p)" and "\<And>h r p. rel R cs0 (f2 h r p)"
    and "\<And>v. rel R cs0 (f3 v)" and "\<And>sa. rel R cs0 (f4 sa)" and "rel R cs0 f5"
  shows "rel R cs0 (case m of ProposalMessage p \<Rightarrow> f1 p | BlockPartMessage h r p \<Rightarrow> f2 h r p
                     | VoteMessage v \<Rightarrow> f3 v | Maj23SignAggrMessage sa \<Rightarrow> f4 sa
                     | UnknownMessage \<Rightarrow> f5)"
  using assms by (cases m) simp_all

lemma rel_case_event:
  assumes "\<And>mi. rel R cs0 (f1 mi)" and "rel R cs0 f2" and "\<And>ti. rel R cs0 (f3 ti)"
    and "rel R cs0 f4"
  shows "rel R cs0 (case ev of PeerMsg mi \<Rightarrow> f1 mi | InternalMsg \<Rightarrow> f2 | TimeoutTick ti \<Rightarrow> f3 ti
                      | Quit \<Rightarrow> f4)"
  using assms by (cases ev) simp_all

lemmas rel_rules = rel_intros rel_case_ConsensusMessage rel_case_event

lemma grows_trans: "grows a b \<Longrightarrow> grows b c \<Longrightarrow> grows a c"
  unfolding grows_def by (auto intro: prefix_order.trans)

lemma grows_more_update [simp]:
  "grows cs0 (cs\<lparr>timeoutParams := tp\<rparr>) = grows cs0 cs"
  "grows cs0 (cs\<lparr>nodeInfo := ni\<rparr>) = grows cs0 cs"
  "grows cs0 (cs\<lparr>replayMode := b\<rparr>) = grows cs0 cs"
  "grows cs0 (cs\<lparr>evsw := b\<rparr>) = grows cs0 cs"
  "grows cs0 (cs\<lparr>doPrevote := dp\<rparr>) = grows cs0 cs"
  "grows cs0 (cs\<lparr>setProposal := sp\<rparr>) = grows cs0 cs"
  by (simp_all add: grows_def)

lemma grows_updateHeight [simp]: "grows cs0 (updateHeight h cs) = grows cs0 cs"
  by (simp add: updateHeight_def)

lemma grows_wal_writeEndHeight [simp]: "grows cs0 cs \<Longrightarrow> grows cs0 (wal_writeEndHeight h cs)"
  by (simp add: wal_writeEndHeight_def)

lemma grows_scheduleRound0 [simp]: "grows cs0 cs \<Longrightarrow> grows cs0 (scheduleRound0 env rs cs)"
  by (simp add: scheduleRound0_def)

lemma grows_SaveBlock [simp]: "grows cs0 cs \<Longrightarrow> grows cs0 (SaveBlock b ps c cs)"
  by (simp add: SaveBlock_def)

lemma grows_foldl_send:
  "grows cs0 cs \<Longrightarrow>
   grows cs0 (foldl (\<lambda>cs part. sendInternalMessage (g cs part) cs) cs parts)"
  by (induction parts arbitrary: cs) simp_all

lemma grows_isProposalComplete: "grows cs0 cs \<Longrightarrow> rel grows cs0 (isProposalComplete env cs)"
  unfolding isProposalComplete_def by (intro rel_rules; simp)

lemma grows_createProposalBlock: "grows cs0 cs \<Longrightarrow> rel grows cs0 (createProposalBlock env cs)"
  unfolding createProposalBlock_def by (intro rel_rules; simp)

lemma grows_proposeBlock: "grows cs0 cs \<Longrightarrow> rel grows cs0 (proposeBlock env h r b ps cs)"
  unfolding proposeBlock_def by (intro rel_rules; simp add: grows_foldl_send)

lemma grows_defaultDecideProposal:
  "grows cs0 cs \<Longrightarrow> rel grows cs0 (defaultDecideProposal env h r cs)"
  unfolding defaultDecideProposal_def
  by (intro rel_rules grows_createProposalBlock grows_proposeBlock; simp)

lemma grows_enterPropose: "grows cs0 cs \<Longrightarrow> rel grows cs0 (enterPropose env h r cs)"
  unfolding enterPropose_def
  by (intro rel_rules grows_defaultDecideProposal grows_enterPrevote; simp)

lemma grows_enterNewRound: "grows cs0 cs \<Longrightarrow> rel grows cs0 (enterNewRound env h r cs)"
  unfolding enterNewRound_def
  by (intro rel_rules grows_enterPropose; simp)

lemma grows_enterPrevoteWait: "grows cs0 cs \<Longrightarrow> rel grows cs0 (enterPrevoteWait env h r cs)"
  unfolding enterPrevoteWait_def by (intro rel_rules; simp)

lemma grows_enterPrecommitWait: "grows cs0 cs \<Longrightarrow> rel grows cs0 (enterPrecommitWait env h r cs)"
  unfolding enterPrecommitWait_def by (intro rel_rules; simp)

lemma grows_updateToStateAndEpoch:
  "grows cs0 cs \<Longrightarrow> rel grows cs0 (updateToStateAndEpoch env st ep cs)"
  unfolding updateToStateAndEpoch_def by (intro rel_rules; simp)

lemma grows_commitBlock: "grows cs0 cs \<Longrightarrow> rel grows cs0 (commitBlock env height h st block cs)"
  unfolding commitBlock_def
  by (intro rel_rules grows_updateToStateAndEpoch; simp add: Let_def)

lemma grows_finalizeCommit: "grows cs0 cs \<Longrightarrow> rel grows cs0 (finalizeCommit env height cs)"
  unfolding finalizeCommit_def by (intro rel_rules grows_commitBlock; simp)

lemma grows_tryFinalizeCommit: "grows cs0 cs \<Longrightarrow> rel grows cs0 (tryFinalizeCommit env height cs)"
  unfolding tryFinalizeCommit_def by (intro rel_rules grows_finalizeCommit; simp)

lemma grows_enterCommit: "grows cs0 cs \<Longrightarrow> rel grows cs0 (enterCommit env height r cs)"
  unfolding enterCommit_def by (intro rel_rules grows_tryFinalizeCommit; simp)

lemma grows_addProposalBlockPart:
  "grows cs0 cs \<Longrightarrow> rel grows cs0 (addProposalBlockPart env height part verify cs)"
  unfolding addProposalBlockPart_def by (intro rel_rules grows_isProposalComplete; simp)

lemma grows_setMaj23SignAggr: "grows cs0 cs \<Longrightarrow> rel grows cs0 (setMaj23SignAggr env sa cs)"
  unfolding setMaj23SignAggr_def
  by (intro rel_rules grows_isProposalComplete grows_enterPrecommit grows_enterCommit; simp)

lemma grows_sendMaj23SignAggr: "grows cs0 cs \<Longrightarrow> rel grows cs0 (sendMaj23SignAggr env t cs)"
  unfolding sendMaj23SignAggr_def by (intro rel_rules; simp)

lemma grows_addVote: "grows cs0 cs \<Longrightarrow> rel grows cs0 (addVote env vote peerKey cs)"
  unfolding addVote_def by (intro rel_rules grows_sendMaj23SignAggr; simp)

lemma grows_tryAddVote: "grows cs0 cs \<Longrightarrow> rel grows cs0 (tryAddVote env vote peerKey cs)"
  unfolding tryAddVote_def by (intro rel_rules grows_addVote; simp)

lemma grows_setProposal: "grows cs0 cs \<Longrightarrow> rel grows cs0 (call_setProposal env p cs)"
  unfolding setProposal_defs by (intro rel_rules; simp)

lemma grows_handleMsg: "grows cs0 cs \<Longrightarrow> rel grows cs0 (handleMsg env mi rs cs)"
  unfolding handleMsg_def
  by (intro rel_rules grows_setProposal grows_enterPrevote grows_addProposalBlockPart
        grows_isProposalComplete grows_enterPrecommit grows_setMaj23SignAggr grows_tryAddVote;
      simp)

lemma grows_handleTimeout: "grows cs0 cs \<Longrightarrow> rel grows cs0 (handleTimeout env ti rs cs)"
  unfolding handleTimeout_def
  by (intro rel_rules grows_enterNewRound grows_enterPrevote grows_enterPrecommit; simp)

text \<open>The receive routine: every round of the loop only appends to the trace.\<close>

lemma trace_takeInternal:
  "takeInternal cs = Some (mi, cs1) \<Longrightarrow> trace cs1 = trace cs \<and> wal cs1 = wal cs"
  by (auto simp: takeInternal_def split: list.splits)

lemma grows_receiveEvent: "grows cs0 cs \<Longrightarrow> rel grows cs0 (receiveEvent env ev cs)"
  unfolding receiveEvent_def Let_def
  by (cases ev; cases "takeInternal cs")
     (auto intro!: grows_handleMsg grows_handleTimeout rel_Return
           simp: grows_def wal_Save_def emit_def trace_takeInternal split: option.splits)

lemma grows_receiveRoutine:
  "grows cs0 cs \<Longrightarrow> rel grows cs0 (receiveRoutine env maxSteps evs cs)"
proof (induction evs arbitrary: cs)
  case Nil
  then show ?case by (simp add: rel_def grows_def state_of_def)
next
  case (Cons ev evs)
  have "rel grows cs0 (and_then (receiveEvent env ev cs)
                         (\<lambda>_ cs. receiveRoutine env maxSteps evs cs))"
    using Cons.prems by (intro rel_and_then grows_receiveEvent Cons.IH)
  then show ?case
    using Cons.prems by (simp add: rel_def grows_def state_of_def emit_def)
qed

text \<open>A run of the routine that has taken in the events \<open>pre\<close> and waits for the next one
  goes on from the state it has reached; the log is still the one it started with.\<close>

lemma receiveRoutine_append:
  "receiveRoutine env maxSteps pre cs = Return Blocked cs1 \<Longrightarrow>
   receiveRoutine env maxSteps (pre @ rest) cs = receiveRoutine env maxSteps rest cs1"
proof (induction pre arbitrary: cs)
  case Nil
  then show ?case by (cases rest) (auto split: if_splits)
next
  case (Cons ev pre)
  from Cons.prems have g: "\<not> (maxSteps > 0 \<and> nSteps cs \<ge> maxSteps)" "ev \<noteq> Quit"
    by (auto split: if_splits)
  with Cons.prems have a: "and_then (receiveEvent env ev cs)
      (\<lambda>_ cs. receiveRoutine env maxSteps pre cs) = Return Blocked cs1"
    by simp
  then obtain cs' where r: "receiveEvent env ev cs = Return () cs'"
    by (cases "receiveEvent env ev cs") (auto simp: and_then_def)
  with a have "receiveRoutine env maxSteps pre cs' = Return Blocked cs1"
    by (simp add: and_then_def)
  from Cons.IH [OF this] show ?case
    using g r by (auto simp: and_then_def)
qed

lemma receiveRoutine_Blocked:
  assumes "receiveRoutine env maxSteps pre cs = Return Blocked cs1"
  shows "wal cs1 = wal cs \<and> prefix (trace cs) (trace cs1)
       \<and> \<not> (maxSteps > 0 \<and> nSteps cs1 \<ge> maxSteps)"
proof -
  from grows_receiveRoutine [of cs cs env maxSteps pre] assms
  have "wal cs1 = wal cs \<and> prefix (trace cs) (trace cs1)"
    by (simp add: rel_def grows_def state_of_def)
  moreover from receiveRoutine_append [OF assms, of "[]"] assms
  have "receiveRoutine env maxSteps [] cs1 = Return Blocked cs1" by simp
  then have "\<not> (maxSteps > 0 \<and> nSteps cs1 \<ge> maxSteps)"
    by (auto split: if_splits)
  ultimately show ?thesis by blast
qed

text \<open>One round of the loop with the log open: the handler starts in the state in which
  nothing but the log record has happened, and the rest of the run only adds to it.\<close>

lemma receiveRoutine_peer:
  assumes "wal cs \<noteq> None" and "\<not> (maxSteps > 0 \<and> nSteps cs \<ge> maxSteps)"
  shows "receiveRoutine env maxSteps (PeerMsg mi # post) cs =
           and_then (handleMsg env mi cs (cs\<lparr>trace := trace cs @ [EffWalSave (WalMsgInfo mi)]\<rparr>))
             (\<lambda>_ cs. receiveRoutine env maxSteps post cs)
       \<and> prefix (trace cs @ [EffWalSave (WalMsgInfo mi)])
           (trace (state_of (receiveRoutine env maxSteps (PeerMsg mi # post) cs)))"
proof -
  let ?c = "cs\<lparr>trace := trace cs @ [EffWalSave (WalMsgInfo mi)]\<rparr>"
  have e: "receiveRoutine env maxSteps (PeerMsg mi # post) cs =
           and_then (handleMsg env mi cs ?c) (\<lambda>_ cs. receiveRoutine env maxSteps post cs)"
    using assms by (auto simp: receiveEvent_def wal_Save_upd)
  have "rel grows ?c (and_then (handleMsg env mi cs ?c)
                        (\<lambda>_ cs. receiveRoutine env maxSteps post cs))"
    by (intro rel_and_then grows_handleMsg grows_receiveRoutine) simp_all
  with e show ?thesis by (simp add: rel_def grows_def)
qed

lemma receiveRoutine_timeout:
  assumes "wal cs \<noteq> None" and "\<not> (maxSteps > 0 \<and> nSteps cs \<ge> maxSteps)"
  shows "receiveRoutine env maxSteps (TimeoutTick ti # post) cs =
           and_then (handleTimeout env ti cs
                       (cs\<lparr>trace := trace cs @ [EffWalSave (WalTimeoutInfo ti)]\<rparr>))
             (\<lambda>_ cs. receiveRoutine env maxSteps post cs)
       \<and> prefix (trace cs @ [EffWalSave (WalTimeoutInfo ti)])
           (trace (state_of (receiveRoutine env maxSteps (TimeoutTick ti # post) cs)))"
proof -
  let ?c = "cs\<lparr>trace := trace cs @ [EffWalSave (WalTimeoutInfo ti)]\<rparr>"
  have e: "receiveRoutine env maxSteps (TimeoutTick ti # post) cs =
           and_then (handleTimeout env ti cs ?c) (\<lambda>_ cs. receiveRoutine env maxSteps post cs)"
    using assms by (auto simp: receiveEvent_def wal_Save_upd)
  have "rel grows ?c (and_then (handleTimeout env ti cs ?c)
                        (\<lambda>_ cs. receiveRoutine env maxSteps post cs))"
    by (intro rel_and_then grows_handleTimeout grows_receiveRoutine) simp_all
  with e show ?thesis by (simp add: rel_def grows_def)
qed

lemma receiveRoutine_internal:
  assumes "wal cs \<noteq> None" and "\<not> (maxSteps > 0 \<and> nSteps cs \<ge> maxSteps)"
    and "takeInternal cs = Some (mi, cs2)"
  shows "receiveRoutine env maxSteps (InternalMsg # post) cs =
           and_then (handleMsg env mi cs (cs2\<lparr>trace := trace cs @ [EffWalSave (WalMsgInfo mi)]\<rparr>))
             (\<lambda>_ cs. receiveRoutine env maxSteps post cs)
       \<and> prefix (trace cs @ [EffWalSave (WalMsgInfo mi)])
           (trace (state_of (receiveRoutine env maxSteps (InternalMsg # post) cs)))"
proof -
  let ?c = "cs2\<lparr>trace := trace cs @ [EffWalSave (WalMsgInfo mi)]\<rparr>"
  have e: "receiveRoutine env maxSteps (InternalMsg # post) cs =
           and_then (handleMsg env mi cs ?c) (\<lambda>_ cs. receiveRoutine env maxSteps post cs)"
    using assms trace_takeInternal [OF assms(3)]
    by (auto simp: receiveEvent_def wal_Save_upd)
  have "rel grows ?c (and_then (handleMsg env mi cs ?c)
                        (\<lambda>_ cs. receiveRoutine env maxSteps post cs))"
    by (intro rel_and_then grows_handleMsg grows_receiveRoutine) simp_all
  with e show ?thesis by (simp add: rel_def grows_def)
qed

subsection \<open>What entering a round keeps\<close>

lemma core_foldl_send:
  "same core_of cs0 cs \<Longrightarrow>
   same core_of cs0 (foldl (\<lambda>cs part. sendInternalMessage (g cs part) cs) cs parts)"
  by (induction parts arbitrary: cs) (simp_all add: core_simps)

lemma core_newDoPrevote: "same core_of cs0 cs \<Longrightarrow> rel (same core_of) cs0 (newDoPrevote env h r cs)"
  unfolding newDoPrevote_def by (intro rel_rules core_signAddVote; simp add: core_simps)

lemma core_defaultDoPrevote:
  "same core_of cs0 cs \<Longrightarrow> rel (same core_of) cs0 (defaultDoPrevote env h r cs)"
  unfolding defaultDoPrevote_def by (intro rel_rules core_signAddVote; simp add: core_simps)

lemma core_call_doPrevote:
  "same core_of cs0 cs \<Longrightarrow> rel (same core_of) cs0 (call_doPrevote env h r cs)"
  unfolding call_doPrevote_def
  by (intro rel_rules core_newDoPrevote core_defaultDoPrevote; simp add: core_simps)

lemma core_enterPrevote: "same core_of cs0 cs \<Longrightarrow> rel (same core_of) cs0 (enterPrevote env h r cs)"
  unfolding enterPrevote_def by (intro rel_rules core_call_doPrevote; simp add: core_simps)

lemma core_createProposalBlock:
  "same core_of cs0 cs \<Longrightarrow> rel (same core_of) cs0 (createProposalBlock env cs)"
  unfolding createProposalBlock_def by (intro rel_rules; simp add: core_simps)

lemma core_proposeBlock:
  "same core_of cs0 cs \<Longrightarrow> rel (same core_of) cs0 (proposeBlock env h r b ps cs)"
  unfolding proposeBlock_def
  by (intro rel_rules; (rule core_foldl_send)?; simp add: core_simps)

lemma core_defaultDecideProposal:
  "same core_of cs0 cs \<Longrightarrow> rel (same core_of) cs0 (defaultDecideProposal env h r cs)"
  unfolding defaultDecideProposal_def
  by (intro rel_rules core_createProposalBlock core_proposeBlock; simp add: core_simps)

lemma core_enterPropose: "same core_of cs0 cs \<Longrightarrow> rel (same core_of) cs0 (enterPropose env h r cs)"
  unfolding enterPropose_def
  by (intro rel_rules core_defaultDecideProposal core_enterPrevote; simp add: core_simps)

lemma state_of_simps [simp]:
  "state_of (Return v cs) = cs" "state_of (Panic m cs) = cs"
  by (simp_all add: state_of_def)

lemma core_enterPropose_eq:
  "core_of (state_of (enterPropose env h r cs)) = core_of cs"
  using core_enterPropose [of cs cs env h r] by (simp add: rel_def same_def)

lemmas enterPropose_fields = core_enterPropose_eq [unfolded core_of_def prod.inject]

lemma enterNewRound_core:
  assumes "Height cs = height" and "Round cs \<le> round"
    and "Round cs = round \<longrightarrow> Step cs = RoundStepNewHeight"
  shows "core_of (state_of (enterNewRound env height round cs)) =
           (Height cs, LockedRound cs, LockedBlock cs, LockedBlockParts cs, Votes cs,
            if round = 0 then Proposal cs else None,
            if round = 0 then ProposalBlock cs else None,
            if round = 0 then ProposalBlockParts cs else None,
            if round = 0 then PrevoteMaj23SignAggr cs else None,
            if round = 0 then PrecommitMaj23SignAggr cs else None,
            map_option (\<lambda>h. hvsa_SetRound env h (int64 (round + 1))) (VoteSignAggr cs))"
  using assms unfolding enterNewRound_def Let_def
  by (auto split: option.splits simp: enterPropose_fields core_of_def pure_upds)

subsection \<open>The effects of finalizing a commit\<close>

lemma commit_effects_upds:
  "commit_effects (fire n cs) = commit_effects cs"
  "commit_effects (newStep cs) = commit_effects cs"
  "commit_effects (wal_Save m cs) = commit_effects cs"
  "commit_effects (scheduleTimeout d h r s cs) = commit_effects cs"
  "commit_effects (scheduleRound0 env rs cs) = commit_effects cs"
  "commit_effects (updateRoundStep r s cs) = commit_effects cs"
  "commit_effects (updateHeight h cs) = commit_effects cs"
  by (simp_all add: commit_effects_def pure_upds scheduleRound0_def split: option.splits)

lemma quiet_updateToStateAndEpoch:
  "same commit_effects cs0 cs \<Longrightarrow>
   rel (same commit_effects) cs0 (updateToStateAndEpoch env st ep cs)"
  unfolding updateToStateAndEpoch_def
  by (intro rel_rules;
      simp add: same_def commit_effects_def pure_upds Let_def split: option.split)

lemma quiet_new_height:
  "commit_effects (state_of (and_then (updateToStateAndEpoch env st ep cs)
                               (\<lambda>_ cs. Return () (scheduleRound0 env cs cs))))
     = commit_effects cs"
proof -
  have "rel (same commit_effects) cs
          (and_then (updateToStateAndEpoch env st ep cs)
             (\<lambda>_ cs. Return () (scheduleRound0 env cs cs)))"
    by (intro rel_rules quiet_updateToStateAndEpoch; simp add: same_def commit_effects_upds)
  then show ?thesis by (simp add: rel_def same_def)
qed

lemma commitBlock_effects:
  "commit_effects (state_of (commitBlock env height h st block cs)) =
     commit_effects cs
     @ (if bs_Height (blockStore cs) < b_Height block
        then [EffMakeCommit (CommitRound cs) (hvsa_Precommits env h (CommitRound cs))
                (SignAggr_MakeCommit env (hvsa_Precommits env h (CommitRound cs))),
              EffSaveBlock block (ProposalBlockParts cs)
                (SignAggr_MakeCommit env (hvsa_Precommits env h (CommitRound cs)))]
        else [])
     @ (if wal cs \<noteq> None then [EffWalEndHeight height] else [])
     @ [EffApplyBlock block (PartSet_Header (ProposalBlockParts cs))]"
proof (cases "ApplyBlock env st block (PartSet_Header (ProposalBlockParts cs))")
  case (Pair err stateCopy)
  show ?thesis
  proof (cases err)
    case None
    with Pair show ?thesis
      unfolding commitBlock_def Let_def
      by (simp add: quiet_new_height commit_effects_upds)
         (simp add: commit_effects_def SaveBlock_def wal_writeEndHeight_def emit_upd)
  next
    case (Some e)
    with Pair show ?thesis
      unfolding commitBlock_def Let_def
      by (simp add: commit_effects_def SaveBlock_def wal_writeEndHeight_def emit_upd)
  qed
qed

subsection \<open>Sign-aggregates\<close>

lemma setMaj23SignAggr_invalid:
  assumes "sa_Height sa = Height cs" and "sa_Round sa = Round cs"
    and "BLSVerifySignAggr env cs (Some sa) = Inr False \<or> isl (BLSVerifySignAggr env cs (Some sa))"
  shows "setMaj23SignAggr env (Some sa) cs = Return (Some ErrInvalidSignatureAggr, False) cs"
  using assms
  by (auto simp: setMaj23SignAggr_def verifyMaj23SignAggr_def isl_def split: sum.splits)

lemma setMaj23SignAggr_duplicate:
  assumes "sa_Height sa = Height cs" and "sa_Round sa = Round cs"
    and "BLSVerifySignAggr env cs (Some sa) = Inr True"
    and "(sa_Type sa = VoteTypePrevote \<and> PrevoteMaj23SignAggr cs \<noteq> None)
         \<or> (sa_Type sa = VoteTypePrecommit \<and> PrecommitMaj23SignAggr cs \<noteq> None)"
  shows "setMaj23SignAggr env (Some sa) cs = Return (Some ErrDuplicateSignatureAggr, False) cs"
  using assms
  by (auto simp: setMaj23SignAggr_def verifyMaj23SignAggr_def split: sum.splits)

lemma verify_aggr_1110:
  "Validators cs = vals4 \<Longrightarrow> BLSVerifySignAggr test_env cs (Some aggr_1110) = Inr True"
  by (simp add: BLSVerifySignAggr_def aggr_1110_def aggr_B_def test_env_def vals4_def val_A_def
        val_B_def val_C_def val_D_def toy_sign_def digest_def blockID_B_def
        TalliedVotingPower_def TotalVotingPower_def ValidatorSet_Size_def
        signed_divide_int_def int64_def)

lemma verify_aggr_1100:
  "Validators cs = vals4 \<Longrightarrow> BLSVerifySignAggr test_env cs (Some aggr_1100) = Inr False"
  by (simp add: BLSVerifySignAggr_def aggr_1100_def aggr_B_def test_env_def vals4_def val_A_def
        val_B_def val_C_def val_D_def toy_sign_def digest_def blockID_B_def
        TalliedVotingPower_def TotalVotingPower_def ValidatorSet_Size_def
        signed_divide_int_def int64_def)

lemma sendMaj23SignAggr_B3:
  "sendMaj23SignAggr test_env VoteTypePrevote (cs_votes votes_B3) =
     Return () ((cs_votes votes_B3)
       \<lparr>internalMsgQueue := [\<lparr>mi_Msg = Maj23SignAggrMessage (Some sent_aggr_B3), mi_PeerKey = []\<rparr>],
        trace := [EffFireEvent ''SignAggr'']\<rparr>)"
  by (simp add: sendMaj23SignAggr_def cs_votes_def votes_B3_def prevote_def test_cs_def
        test_env_def VoteSet_TwoThirdsMajority_def blockID_B_def header_B_def BlockID_zero_def
        PartSetHeader_zero_def BlockID_IsZero_def ValidatorSet_Size_def vals4_def NewBitArray_def
        SetIndex_def MakeSignAggr_def sent_aggr_B3_def toy_sign_def digest_def fire_def emit_def sendInternalMessage_def Let_def
        msgQueueSize_def)


lemma collectVotes_bits:
  "length (bits_of (collectVotes votes i (b, s, ba, sigs))) = length ba \<and>
   (\<forall>j < length ba.
      bits_of (collectVotes votes i (b, s, ba, sigs)) ! j =
        ((i \<le> j \<and> j < i + length votes \<and> votes ! (j - i) \<noteq> None) \<or> ba ! j))"
proof (induction votes arbitrary: i b s ba sigs)
  case Nil
  show ?case by (auto simp: bits_of_def)
next
  case (Cons v votes)
  show ?case
  proof (cases v)
    case None
    have e: "collectVotes (v # votes) i (b, s, ba, sigs) = collectVotes votes (i + 1) (b, s, ba, sigs)"
      using None by simp
    have n: "(i \<le> j \<and> j < i + length (v # votes) \<and> (v # votes) ! (j - i) \<noteq> None)
           = (i + 1 \<le> j \<and> j < i + 1 + length votes \<and> votes ! (j - (i + 1)) \<noteq> None)" for j
      using None by (cases "j \<le> i") (auto simp: nth_Cons' not_le)
    show ?thesis unfolding e n using Cons.IH [of "i + 1" b s ba sigs] by simp
  next
    case (Some vote)
    have e: "collectVotes (v # votes) i (b, s, ba, sigs)
            = collectVotes votes (i + 1)
                 (v_BlockID vote, v_SignBytes vote, SetIndex ba i True, sigs @ [v_Signature vote])"
      using Some by simp
    have l: "length (SetIndex ba i True) = length ba"
      by (simp add: SetIndex_def)
    have n: "j < length ba \<Longrightarrow>
           ((i \<le> j \<and> j < i + length (v # votes) \<and> (v # votes) ! (j - i) \<noteq> None) \<or> ba ! j)
           = ((i + 1 \<le> j \<and> j < i + 1 + length votes \<and> votes ! (j - (i + 1)) \<noteq> None)
               \<or> SetIndex ba i True ! j)" for j
      using Some by (cases "j \<le> i") (auto simp: nth_Cons' not_le SetIndex_def nth_list_update)
    show ?thesis unfolding e
      using Cons.IH [of "i + 1" "v_BlockID vote" "v_SignBytes vote" "SetIndex ba i True"
                        "sigs @ [v_Signature vote]"] n
      by (simp add: l)
  qed
qed


text \<open>The bitmap that \<^verbatim>\<open>sendMaj23SignAggr\<close> builds has its bit set at the index of
  every vote that is present, whatever block the vote is for.\<close>

lemma collectVotes_bitmap:
  "bits_of (collectVotes votes 0 (b, s, NewBitArray n, sigs)) =
     map (\<lambda>j. j < length votes \<and> votes ! j \<noteq> None) [0 ..< n]"
  using collectVotes_bits [of votes 0 b s "NewBitArray n" sigs]
  by (auto simp: NewBitArray_def intro!: nth_equalityI)

lemma sendMaj23SignAggr_B3_nil:
  "sendMaj23SignAggr test_env VoteTypePrevote (cs_votes votes_B3_nil) =
     Return () ((cs_votes votes_B3_nil)
       \<lparr>internalMsgQueue := [\<lparr>mi_Msg = Maj23SignAggrMessage (Some sent_aggr_B3_nil), mi_PeerKey = []\<rparr>],
        trace := [EffFireEvent ''SignAggr'']\<rparr>)"
  by (simp add: sendMaj23SignAggr_def cs_votes_def votes_B3_nil_def prevote_def test_cs_def
        test_env_def VoteSet_TwoThirdsMajority_def blockID_B_def header_B_def BlockID_zero_def
        PartSetHeader_zero_def BlockID_IsZero_def ValidatorSet_Size_def vals4_def NewBitArray_def
        SetIndex_def MakeSignAggr_def sent_aggr_B3_nil_def toy_sign_def digest_def
        fire_def emit_def sendInternalMessage_def Let_def msgQueueSize_def)

lemma verify_sent_aggr_B3:
  "BLSVerifySignAggr test_env (cs_votes votes_B3) (Some sent_aggr_B3) = Inr True"
  by (simp add: BLSVerifySignAggr_def sent_aggr_B3_def cs_votes_def test_cs_def test_env_def
        vals4_def val_A_def val_B_def val_C_def val_D_def toy_sign_def digest_def blockID_B_def
        TalliedVotingPower_def TotalVotingPower_def ValidatorSet_Size_def
        signed_divide_int_def int64_def)

lemma verify_sent_aggr_B3_nil:
  "BLSVerifySignAggr test_env (cs_votes votes_B3_nil) (Some sent_aggr_B3_nil)
     = Inl (ErrOther ''Invalid aggregate signature'')"
  by (simp add: BLSVerifySignAggr_def sent_aggr_B3_nil_def cs_votes_def test_cs_def test_env_def
        vals4_def val_A_def val_B_def val_C_def val_D_def toy_sign_def digest_def
        BlockID_zero_def TalliedVotingPower_def TotalVotingPower_def ValidatorSet_Size_def
        signed_divide_int_def int64_def)

subsection \<open>The function fields\<close>

text \<open>\<^verbatim>\<open>NewConsensusState\<close> is the only place of \<^verbatim>\<open>state.go\<close> that assigns
  \<^verbatim>\<open>cs.doPrevote\<close> and \<^verbatim>\<open>cs.setProposal\<close>: the state it returns holds
  \<^verbatim>\<open>newDoPrevote\<close> and \<^verbatim>\<open>newSetProposal\<close>.\<close>

lemma hooks_updateToStateAndEpoch:
  "same hooks_of cs0 cs \<Longrightarrow> rel (same hooks_of) cs0 (updateToStateAndEpoch env st ep cs)"
  unfolding updateToStateAndEpoch_def
  by (intro rel_rules;
      simp add: same_def hooks_of_def pure_upds Let_def updateHeight_def updateRoundStep_def
           split: option.split)

lemma hooks_reconstructLastCommit:
  "same hooks_of cs0 cs \<Longrightarrow> rel (same hooks_of) cs0 (reconstructLastCommit env st cs)"
  unfolding reconstructLastCommit_def
  by (intro rel_rules; simp add: same_def hooks_of_def Let_def)

lemma NewConsensusState_hooks:
  "doPrevote (state_of (NewConsensusState env st store ep)) = NewDoPrevote
   \<and> setProposal (state_of (NewConsensusState env st store ep)) = NewSetProposal"
proof -
  have "rel (same hooks_of) cs (and_then (updateToStateAndEpoch env st ep cs)
                                  (\<lambda>_. reconstructLastCommit env st))" for cs
    by (intro rel_rules hooks_updateToStateAndEpoch hooks_reconstructLastCommit;
        simp add: same_def)
  then show ?thesis
    unfolding NewConsensusState_def Let_def
    by (simp add: rel_def same_def hooks_of_def)
qed

text \<open>The other function, \<^verbatim>\<open>defaultDoPrevote\<close>, looks at \<^verbatim>\<open>ProposalBlock\<close>: with a
  proposal whose block is not yet complete it prevotes nil.\<close>

lemma defaultDoPrevote_incomplete_block:
  assumes "can_vote env cs VoteTypePrevote [] PartSetHeader_zero"
    and "LockedBlock cs = None" and "ProposalBlock cs = None"
  shows "sent_vote cs (state_of (defaultDoPrevote env height round cs)) VoteTypePrevote
           \<lparr>bid_Hash = BytesToHash160 env [], bid_PartsHeader = PartSetHeader_zero\<rparr>"
proof -
  let ?s = "signAddVote env VoteTypePrevote [] PartSetHeader_zero cs"
  have "state_of (defaultDoPrevote env height round cs) = state_of ?s"
    using assms(2,3) by (cases ?s) (simp_all add: defaultDoPrevote_def and_then_def)
  with signAddVote_sends [OF assms(1)] show ?thesis by simp
qed

subsection \<open>A run of the receive routine\<close>

lemma run_propose_tick:
  "receiveRoutine test_env 0 [TimeoutTick propose_tick] cs_queued = Return Blocked cs_after_tick"
  by (simp add: receiveEvent_def handleTimeout_def enterPrevote_def call_doPrevote_def
        newDoPrevote_def signAddVote_def signVote_def IsProposer_def and_then_def with_defer_def
        emit_def fire_def wal_Save_def newStep_def sendInternalMessage_def updateRoundStep_def
        cs_after_tick_def trace_after_tick_def cs_queued_def fixture_defs propose_tick_def
        HasAddress_def GetProposer_def GetByAddress_def msgQueueSize_def RoundStep_defs
        RoundStateEvent_def RoundStepType_String_def Let_def BlockID_zero_def int64_def)

section \<open>The claims\<close>



text \<open>
  C5. \<^verbatim>\<open>setProposal\<close> (either of the two functions the field can hold) installs a
  proposal \<open>p\<close>, setting \<^verbatim>\<open>cs.Proposal\<close> and a fresh \<^verbatim>\<open>ProposalBlockParts\<close> made from
  the parts header of \<open>p\<close>, exactly when there is no current proposal, the height and
  round of \<open>p\<close> are the current ones, the step is below Commit, the POL round of \<open>p\<close>
  is \<open>-1\<close> or lies in \<open>[0, p.Round - 1]\<close>, and the signature verifies under the key of
  the current proposer. So every accepted proposal has POL round \<open>-1\<close> or
  \<open>0 \<le> POLRound < Round\<close>, and a proposal that reaches the POL round check with a POL
  round outside these bounds is rejected with \<^verbatim>\<open>ErrInvalidProposalPOLRound\<close>, the state
  unchanged.
\<close>

theorem setProposal_accepts_only_valid:
  "(call_setProposal env (Some p) cs = Return err cs' \<and> Proposal cs' \<noteq> Proposal cs \<longrightarrow>
      Proposal cs = None \<and> p_Height p = Height cs \<and> p_Round p = Round cs
      \<and> Step cs < RoundStepCommit
      \<and> (p_POLRound p = -1 \<or> (0 \<le> p_POLRound p \<and> p_POLRound p \<le> p_Round p - 1))
      \<and> (p_POLRound p = -1 \<or> (0 \<le> p_POLRound p \<and> p_POLRound p < p_Round p))
      \<and> proposal_signature_ok env cs p
      \<and> err = None \<and> Proposal cs' = Some p
      \<and> ProposalBlockParts cs' = Some (NewPartSetFromHeader (p_BlockPartsHeader p)))
   \<and> (Proposal cs = None \<and> p_Height p = Height cs \<and> p_Round p = Round cs
      \<and> Step cs < RoundStepCommit
      \<and> (p_POLRound p = -1 \<or> (0 \<le> p_POLRound p \<and> p_POLRound p \<le> p_Round p - 1))
      \<and> proposal_signature_ok env cs p \<longrightarrow>
      (\<exists>cs'. call_setProposal env (Some p) cs = Return None cs' \<and> Proposal cs' = Some p
         \<and> ProposalBlockParts cs' = Some (NewPartSetFromHeader (p_BlockPartsHeader p))))
   \<and> (Proposal cs = None \<and> p_Height p = Height cs \<and> p_Round p = Round cs
      \<and> Step cs < RoundStepCommit
      \<and> \<not> (p_POLRound p = -1 \<or> (0 \<le> p_POLRound p \<and> p_POLRound p < p_Round p)) \<longrightarrow>
      call_setProposal env (Some p) cs = Return (Some ErrInvalidProposalPOLRound) cs)"
proof (intro conjI impI)
  assume a: "call_setProposal env (Some p) cs = Return err cs' \<and> Proposal cs' \<noteq> Proposal cs"
  note r = setProposal_installed [of env p cs err cs']
  from a r show "Proposal cs = None" by blast
  from a r show "p_Height p = Height cs" by blast
  from a r show "p_Round p = Round cs" by blast
  from a r show "Step cs < RoundStepCommit" by (simp add: not_le)
  from a r show "p_POLRound p = -1 \<or> (0 \<le> p_POLRound p \<and> p_POLRound p \<le> p_Round p - 1)" by blast
  from a r show "p_POLRound p = -1 \<or> (0 \<le> p_POLRound p \<and> p_POLRound p < p_Round p)" by auto
  from a r show "proposal_signature_ok env cs p" by blast
  from a r show "err = None" by blast
  from a r show "Proposal cs' = Some p" by blast
  from a r show "ProposalBlockParts cs' = Some (NewPartSetFromHeader (p_BlockPartsHeader p))" by blast
next
  assume "Proposal cs = None \<and> p_Height p = Height cs \<and> p_Round p = Round cs
      \<and> Step cs < RoundStepCommit
      \<and> (p_POLRound p = -1 \<or> (0 \<le> p_POLRound p \<and> p_POLRound p \<le> p_Round p - 1))
      \<and> proposal_signature_ok env cs p"
  then show "\<exists>cs'. call_setProposal env (Some p) cs = Return None cs' \<and> Proposal cs' = Some p
         \<and> ProposalBlockParts cs' = Some (NewPartSetFromHeader (p_BlockPartsHeader p))"
    by (intro setProposal_installs) (auto simp: not_le)
next
  assume "Proposal cs = None \<and> p_Height p = Height cs \<and> p_Round p = Round cs
      \<and> Step cs < RoundStepCommit
      \<and> \<not> (p_POLRound p = -1 \<or> (0 \<le> p_POLRound p \<and> p_POLRound p < p_Round p))"
  then show "call_setProposal env (Some p) cs = Return (Some ErrInvalidProposalPOLRound) cs"
    by (intro setProposal_bad_POLRound) (auto simp: not_le)
qed

theorem setProposal_accepts_only_valid_witness:
  "call_setProposal test_env (Some proposal_B) test_cs =
      Return None (test_cs\<lparr>Proposal := Some proposal_B,
                       ProposalBlockParts := Some (NewPartSetFromHeader header_B),
                       ProposerNetAddr := ''10.0.0.1:46656'', ProposerPeerKey := ''A''\<rparr>)
   \<and> proposal_signature_ok test_env test_cs proposal_B
   \<and> call_setProposal test_env (Some (proposal_B\<lparr>p_POLRound := 1\<rparr>)) test_cs =
      Return (Some ErrInvalidProposalPOLRound) test_cs
   \<and> call_setProposal test_env (Some (proposal_B\<lparr>p_POLRound := -2\<rparr>)) test_cs =
      Return (Some ErrInvalidProposalPOLRound) test_cs"
proof -
  let ?cs' = "test_cs\<lparr>Proposal := Some proposal_B,
                       ProposalBlockParts := Some (NewPartSetFromHeader header_B),
                       ProposerNetAddr := ''10.0.0.1:46656'', ProposerPeerKey := ''A''\<rparr>"
  have e: "call_setProposal test_env (Some proposal_B) test_cs = Return None ?cs'"
    by (simp add: setProposal_defs fixture_defs GetProposer_def RoundStep_defs toy_sign_def digest_def)
  have ne: "Proposal ?cs' \<noteq> Proposal test_cs"
    by (simp add: test_cs_def)
  have s: "proposal_signature_ok test_env test_cs proposal_B"
    using setProposal_accepts_only_valid [of test_env proposal_B test_cs None ?cs'] e ne by blast
  have g: "Proposal test_cs = None \<and> p_Height (proposal_B\<lparr>p_POLRound := x\<rparr>) = Height test_cs
      \<and> p_Round (proposal_B\<lparr>p_POLRound := x\<rparr>) = Round test_cs \<and> Step test_cs < RoundStepCommit" for x
    by (simp add: fixture_defs RoundStep_defs)
  have r1: "call_setProposal test_env (Some (proposal_B\<lparr>p_POLRound := 1\<rparr>)) test_cs =
      Return (Some ErrInvalidProposalPOLRound) test_cs"
    using setProposal_accepts_only_valid [of test_env "proposal_B\<lparr>p_POLRound := 1\<rparr>" test_cs] g [of 1]
    by (simp add: proposal_B_def)
  have r2: "call_setProposal test_env (Some (proposal_B\<lparr>p_POLRound := -2\<rparr>)) test_cs =
      Return (Some ErrInvalidProposalPOLRound) test_cs"
    using setProposal_accepts_only_valid [of test_env "proposal_B\<lparr>p_POLRound := -2\<rparr>" test_cs] g [of "-2"]
    by (simp add: proposal_B_def)
  show ?thesis using e s r1 r2 by simp
qed

text \<open>
  C10. A proposal whose height or round differs from the current ones, or that arrives
  when \<^verbatim>\<open>cs.Proposal\<close> is already set, or when the step is at or past Commit, makes
  \<^verbatim>\<open>setProposal\<close> return the nil error and leave the state, and so every field of the
  round state, unchanged. An accepted proposal returns the nil error too, so the return
  value alone does not tell the two apart.
\<close>

theorem setProposal_ignored_silently:
  "(p_Height p \<noteq> Height cs \<or> p_Round p \<noteq> Round cs \<or> Proposal cs \<noteq> None
      \<or> RoundStepCommit \<le> Step cs \<longrightarrow>
      call_setProposal env (Some p) cs = Return None cs)
   \<and> (call_setProposal env (Some p) cs = Return err cs' \<and> Proposal cs' \<noteq> Proposal cs \<longrightarrow>
      err = None)"
  using setProposal_ignored [of p cs env] setProposal_installed [of env p cs err cs']
  by blast

theorem setProposal_ignored_silently_witness:
  "call_setProposal test_env (Some (proposal_B\<lparr>p_Round := 0\<rparr>)) test_cs = Return None test_cs
   \<and> call_setProposal test_env (Some proposal_B) (test_cs\<lparr>Step := RoundStepCommit\<rparr>) =
       Return None (test_cs\<lparr>Step := RoundStepCommit\<rparr>)
   \<and> call_setProposal test_env (Some (proposal_B\<lparr>p_POLRound := 7\<rparr>))
         (test_cs\<lparr>Proposal := Some proposal_B\<rparr>) =
       Return None (test_cs\<lparr>Proposal := Some proposal_B\<rparr>)"
proof -
  have a: "call_setProposal test_env (Some (proposal_B\<lparr>p_Round := 0\<rparr>)) test_cs = Return None test_cs"
    using setProposal_ignored_silently [of "proposal_B\<lparr>p_Round := 0\<rparr>" test_cs test_env]
    by (simp add: fixture_defs)
  have b: "call_setProposal test_env (Some proposal_B) (test_cs\<lparr>Step := RoundStepCommit\<rparr>) =
       Return None (test_cs\<lparr>Step := RoundStepCommit\<rparr>)"
    using setProposal_ignored_silently [of proposal_B "test_cs\<lparr>Step := RoundStepCommit\<rparr>" test_env]
    by simp
  have c: "call_setProposal test_env (Some (proposal_B\<lparr>p_POLRound := 7\<rparr>))
         (test_cs\<lparr>Proposal := Some proposal_B\<rparr>) =
       Return None (test_cs\<lparr>Proposal := Some proposal_B\<rparr>)"
    using setProposal_ignored_silently
      [of "proposal_B\<lparr>p_POLRound := 7\<rparr>" "test_cs\<lparr>Proposal := Some proposal_B\<rparr>" test_env]
    by simp
  show ?thesis using a b c by simp
qed

text \<open>
  C7. Deciding the prevote (\<^verbatim>\<open>cs.doPrevote\<close>, which is \<^verbatim>\<open>newDoPrevote\<close> in every
  state that \<^verbatim>\<open>NewConsensusState\<close> makes): if \<^verbatim>\<open>LockedBlock\<close> is not nil the node
  prevotes the hash of the locked block; otherwise, if \<^verbatim>\<open>Proposal\<close> is nil, it prevotes
  nil; otherwise it prevotes the block hash of the proposal. Whatever the signing device
  does, the call is the one call of \<^verbatim>\<open>signAddVote\<close> for a prevote with this hash and
  parts header; when the node has a key of the validator set and the device signs this
  one vote, the prevote for it is sent to the internal queue, and the call returns when
  the validator set has a proposer.
\<close>

theorem doPrevote_choice:
  assumes "doPrevote cs = NewDoPrevote"
  shows "prevote_choice cs =
           (case LockedBlock cs of
              Some b \<Rightarrow> (b_Hash b, PartSet_Header (LockedBlockParts cs))
            | None \<Rightarrow>
                (case Proposal cs of
                   None \<Rightarrow> ([], PartSetHeader_zero)
                 | Some p \<Rightarrow> (p_Hash p, p_BlockPartsHeader p)))
       \<and> call_doPrevote env height round cs =
           and_then (signAddVote env VoteTypePrevote (fst (prevote_choice cs))
                       (snd (prevote_choice cs)) cs)
             (\<lambda>_ cs. Return () cs)
       \<and> (can_vote env cs VoteTypePrevote (fst (prevote_choice cs)) (snd (prevote_choice cs)) \<longrightarrow>
            sent_vote cs (state_of (call_doPrevote env height round cs)) VoteTypePrevote
              \<lparr>bid_Hash = BytesToHash160 env (fst (prevote_choice cs)),
               bid_PartsHeader = snd (prevote_choice cs)\<rparr>
            \<and> (GetProposer (Validators cs) \<noteq> None \<longrightarrow>
                 (\<exists>cs'. call_doPrevote env height round cs = Return () cs')))
       \<and> doPrevote (state_of (NewConsensusState env st store ep)) = NewDoPrevote"
proof -
  have e: "call_doPrevote env height round cs =
           and_then (signAddVote env VoteTypePrevote (fst (prevote_choice cs))
                       (snd (prevote_choice cs)) cs)
             (\<lambda>_ cs. Return () cs)"
    using assms
    by (auto simp: call_doPrevote_def newDoPrevote_def prevote_choice_def Block_Hash_def
          BlockHeaderHash_def split: option.splits)
  let ?s = "signAddVote env VoteTypePrevote (fst (prevote_choice cs)) (snd (prevote_choice cs)) cs"
  have "sent_vote cs (state_of (call_doPrevote env height round cs)) VoteTypePrevote
              \<lparr>bid_Hash = BytesToHash160 env (fst (prevote_choice cs)),
               bid_PartsHeader = snd (prevote_choice cs)\<rparr>
            \<and> (GetProposer (Validators cs) \<noteq> None \<longrightarrow>
                 (\<exists>cs'. call_doPrevote env height round cs = Return () cs'))"
    if "can_vote env cs VoteTypePrevote (fst (prevote_choice cs)) (snd (prevote_choice cs))"
    using signAddVote_sends [OF that] unfolding e
    by (cases ?s) (auto simp: and_then_def state_of_def)
  with e NewConsensusState_hooks [of env st store ep] show ?thesis
    by (simp add: prevote_choice_def)
qed

theorem doPrevote_choice_witness:
  "can_vote test_env test_cs VoteTypePrevote [] PartSetHeader_zero
   \<and> sent_vote test_cs (state_of (call_doPrevote test_env 5 1 test_cs)) VoteTypePrevote BlockID_zero
   \<and> sent_vote (test_cs\<lparr>Proposal := Some proposal_B\<rparr>)
        (state_of (call_doPrevote test_env 5 1 (test_cs\<lparr>Proposal := Some proposal_B\<rparr>)))
        VoteTypePrevote blockID_B
   \<and> sent_vote (test_cs\<lparr>LockedBlock := Some block_B, LockedBlockParts := Some (NewPartSetFromHeader header_B)\<rparr>)
        (state_of (call_doPrevote test_env 5 1
           (test_cs\<lparr>LockedBlock := Some block_B, LockedBlockParts := Some (NewPartSetFromHeader header_B)\<rparr>)))
        VoteTypePrevote blockID_B"
proof -
  let ?p = "test_cs\<lparr>Proposal := Some proposal_B\<rparr>"
  let ?l = "test_cs\<lparr>LockedBlock := Some block_B,
                     LockedBlockParts := Some (NewPartSetFromHeader header_B)\<rparr>"
  have c0: "prevote_choice test_cs = ([], PartSetHeader_zero)"
    by (simp add: prevote_choice_def test_cs_def)
  have c1: "prevote_choice ?p = ([0xBB], header_B)"
    by (simp add: prevote_choice_def test_cs_def proposal_B_def)
  have c2: "prevote_choice ?l = ([0xBB], header_B)"
    by (simp add: prevote_choice_def test_cs_def block_B_def PartSet_Header_def
          NewPartSetFromHeader_def)
  have cv: "can_vote test_env test_cs VoteTypePrevote [] PartSetHeader_zero"
    by (simp add: can_vote_def signVote_def fixture_defs HasAddress_def Let_def)
  have cv1: "can_vote test_env ?p VoteTypePrevote [0xBB] header_B"
    by (simp add: can_vote_def signVote_def fixture_defs HasAddress_def Let_def)
  have cv2: "can_vote test_env ?l VoteTypePrevote [0xBB] header_B"
    by (simp add: can_vote_def signVote_def fixture_defs HasAddress_def Let_def)
  have d: "doPrevote test_cs = NewDoPrevote" "doPrevote ?p = NewDoPrevote"
    "doPrevote ?l = NewDoPrevote"
    by (simp_all add: test_cs_def)
  have b: "BytesToHash160 test_env x = x" for x
    by (simp add: test_env_def)
  from doPrevote_choice [OF d(1), of test_env 5 1, unfolded c0 fst_conv snd_conv b] cv
  have a: "sent_vote test_cs (state_of (call_doPrevote test_env 5 1 test_cs))
             VoteTypePrevote BlockID_zero"
    unfolding BlockID_zero_def by blast
  from doPrevote_choice [OF d(2), of test_env 5 1, unfolded c1 fst_conv snd_conv b] cv1
  have a1: "sent_vote ?p (state_of (call_doPrevote test_env 5 1 ?p)) VoteTypePrevote blockID_B"
    unfolding blockID_B_def by blast
  from doPrevote_choice [OF d(3), of test_env 5 1, unfolded c2 fst_conv snd_conv b] cv2
  have a2: "sent_vote ?l (state_of (call_doPrevote test_env 5 1 ?l)) VoteTypePrevote blockID_B"
    unfolding blockID_B_def by blast
  show ?thesis using cv a a1 a2 by simp
qed

text \<open>
  C1. In \<^verbatim>\<open>enterPrecommit\<close> at round \<open>r\<close>, when the prevote aggregate for \<open>r\<close> has a
  +2/3 majority for nil and a block is locked, what happens rests on the sanity check of
  the POL round. If \<^verbatim>\<open>VoteSignAggr.POLInfo()\<close> gives a round that is not below \<open>r\<close>,
  the node unlocks by setting \<^verbatim>\<open>LockedRound\<close> to 0 (not to \<open>-1\<close>) and \<^verbatim>\<open>LockedBlock\<close>
  and \<^verbatim>\<open>LockedBlockParts\<close> to nil, and then calls \<^verbatim>\<open>signAddVote\<close> for a precommit of
  nil: when the node has a key of the validator set and the signing device signs this one
  vote, the precommit for the nil block id is sent to the internal queue, and the call
  returns when the validator set has a proposer. If \<^verbatim>\<open>POLInfo()\<close> gives a round below
  \<open>r\<close>, the function panics, and the lock and the internal queue stay as they were.
\<close>

theorem enterPrecommit_nil_polka_unlocks:
  assumes "Height cs = height" and "Round cs \<le> round"
    and "Round cs = round \<longrightarrow> Step cs < RoundStepPrecommit"
    and "VoteSignAggr cs = Some h" and "hvsa_Prevotes env h round = Some sa"
    and "SignAggr_TwoThirdsMajority env (Some sa) = (blockID, True)" and "bid_Hash blockID = []"
    and "LockedBlock cs \<noteq> None"
  shows "(round \<le> fst (hvsa_POLInfo env h) \<longrightarrow>
            LockedRound (state_of (enterPrecommit env height round cs)) = 0
            \<and> LockedBlock (state_of (enterPrecommit env height round cs)) = None
            \<and> LockedBlockParts (state_of (enterPrecommit env height round cs)) = None
            \<and> enterPrecommit env height round cs =
                with_defer (\<lambda>cs. Return () (newStep (updateRoundStep round RoundStepPrecommit cs)))
                  (and_then (signAddVote env VoteTypePrecommit [] PartSetHeader_zero (unlocked cs))
                     (\<lambda>_ cs. Return () cs))
            \<and> (can_vote env cs VoteTypePrecommit [] PartSetHeader_zero \<longrightarrow>
                 sent_vote cs (state_of (enterPrecommit env height round cs)) VoteTypePrecommit
                   \<lparr>bid_Hash = BytesToHash160 env [], bid_PartsHeader = PartSetHeader_zero\<rparr>
                 \<and> (GetProposer (Validators cs) \<noteq> None \<longrightarrow>
                      (\<exists>cs'. enterPrecommit env height round cs = Return () cs'))))
       \<and> (fst (hvsa_POLInfo env h) < round \<longrightarrow>
            (\<exists>cs'. enterPrecommit env height round cs
                      = Panic ''This POLRound should be the round'' cs'
               \<and> LockedRound cs' = LockedRound cs \<and> LockedBlock cs' = LockedBlock cs
               \<and> LockedBlockParts cs' = LockedBlockParts cs
               \<and> internalMsgQueue cs' = internalMsgQueue cs))"
proof (intro conjI impI)
  assume p: "round \<le> fst (hvsa_POLInfo env h)"
  note u = enterPrecommit_unlocks [OF assms p]
  from u show "LockedRound (state_of (enterPrecommit env height round cs)) = 0" by blast
  from u show "LockedBlock (state_of (enterPrecommit env height round cs)) = None" by blast
  from u show "LockedBlockParts (state_of (enterPrecommit env height round cs)) = None" by blast
  from enterPrecommit_nil_polka [OF assms p]
  show "enterPrecommit env height round cs =
                with_defer (\<lambda>cs. Return () (newStep (updateRoundStep round RoundStepPrecommit cs)))
                  (and_then (signAddVote env VoteTypePrecommit [] PartSetHeader_zero (unlocked cs))
                     (\<lambda>_ cs. Return () cs))"
    by (simp add: precommit_nil_def)
  assume c: "can_vote env cs VoteTypePrecommit [] PartSetHeader_zero"
  from enterPrecommit_precommits_nil [OF assms p c]
  show "sent_vote cs (state_of (enterPrecommit env height round cs)) VoteTypePrecommit
          \<lparr>bid_Hash = BytesToHash160 env [], bid_PartsHeader = PartSetHeader_zero\<rparr>"
    by blast
  assume "GetProposer (Validators cs) \<noteq> None"
  with enterPrecommit_precommits_nil [OF assms p c]
  show "\<exists>cs'. enterPrecommit env height round cs = Return () cs'" by blast
next
  assume "fst (hvsa_POLInfo env h) < round"
  from enterPrecommit_stays_locked [OF assms this]
  show "\<exists>cs'. enterPrecommit env height round cs
                      = Panic ''This POLRound should be the round'' cs'
               \<and> LockedRound cs' = LockedRound cs \<and> LockedBlock cs' = LockedBlock cs
               \<and> LockedBlockParts cs' = LockedBlockParts cs
               \<and> internalMsgQueue cs' = internalMsgQueue cs" .
qed

theorem enterPrecommit_nil_polka_unlocks_witness:
  "LockedRound cs_nil_polka = 1 \<and> LockedBlock cs_nil_polka = Some block_B
   \<and> hvsa_POLInfo test_env vsa_nil_polka = (2, BlockID_zero)
   \<and> LockedRound (state_of (enterPrecommit test_env 5 2 cs_nil_polka)) = 0
   \<and> LockedBlock (state_of (enterPrecommit test_env 5 2 cs_nil_polka)) = None
   \<and> LockedBlockParts (state_of (enterPrecommit test_env 5 2 cs_nil_polka)) = None
   \<and> sent_vote cs_nil_polka (state_of (enterPrecommit test_env 5 2 cs_nil_polka))
        VoteTypePrecommit BlockID_zero
   \<and> hvsa_POLInfo block_pol_env vsa_nil_polka = (-1, BlockID_zero)
   \<and> LockedRound (state_of (enterPrecommit block_pol_env 5 2 cs_nil_polka)) = 1
   \<and> LockedBlock (state_of (enterPrecommit block_pol_env 5 2 cs_nil_polka)) = Some block_B"
proof -
  have cv: "can_vote test_env cs_nil_polka VoteTypePrecommit [] PartSetHeader_zero"
    by (simp add: can_vote_def signVote_def fixture_defs cs_nil_polka_def HasAddress_def Let_def)
  have h: "Height cs_nil_polka = 5" "Round cs_nil_polka \<le> 2"
    "Round cs_nil_polka = 2 \<longrightarrow> Step cs_nil_polka < RoundStepPrecommit"
    "VoteSignAggr cs_nil_polka = Some vsa_nil_polka"
    "hvsa_Prevotes test_env vsa_nil_polka 2 = Some nil_aggr"
    "SignAggr_TwoThirdsMajority test_env (Some nil_aggr) = (BlockID_zero, True)"
    "bid_Hash BlockID_zero = []"
    "LockedBlock cs_nil_polka \<noteq> None"
    by (simp_all add: cs_nil_polka_def test_cs_def test_env_def vsa_nil_polka_def nil_aggr_def
          BlockID_zero_def RoundStep_defs)
  have h': "hvsa_Prevotes block_pol_env vsa_nil_polka 2 = Some nil_aggr"
    "SignAggr_TwoThirdsMajority block_pol_env (Some nil_aggr) = (BlockID_zero, True)"
    by (simp_all add: block_pol_env_def test_env_def vsa_nil_polka_def nil_aggr_def)
  have l: "LockedRound cs_nil_polka = 1 \<and> LockedBlock cs_nil_polka = Some block_B"
    by (simp add: cs_nil_polka_def)
  have p: "hvsa_POLInfo test_env vsa_nil_polka = (2, BlockID_zero)"
    by (simp add: test_env_def vsa_nil_polka_def nil_aggr_def eval_nat_numeral)
  have p': "hvsa_POLInfo block_pol_env vsa_nil_polka = (-1, BlockID_zero)"
    by (simp add: block_pol_env_def test_env_def vsa_nil_polka_def nil_aggr_def
          BlockID_zero_def eval_nat_numeral)
  have b: "\<lparr>bid_Hash = BytesToHash160 test_env [], bid_PartsHeader = PartSetHeader_zero\<rparr>
             = BlockID_zero"
    by (simp add: test_env_def BlockID_zero_def)
  have q: "2 \<le> fst (hvsa_POLInfo test_env vsa_nil_polka)"
    "fst (hvsa_POLInfo block_pol_env vsa_nil_polka) < 2"
    by (simp_all add: p p')
  note th = enterPrecommit_nil_polka_unlocks [OF h, unfolded b]
  from th q(1) have u: "LockedRound (state_of (enterPrecommit test_env 5 2 cs_nil_polka)) = 0
     \<and> LockedBlock (state_of (enterPrecommit test_env 5 2 cs_nil_polka)) = None
     \<and> LockedBlockParts (state_of (enterPrecommit test_env 5 2 cs_nil_polka)) = None"
    by blast
  from th q(1) cv
  have v: "sent_vote cs_nil_polka (state_of (enterPrecommit test_env 5 2 cs_nil_polka))
          VoteTypePrecommit BlockID_zero"
    by blast
  from enterPrecommit_nil_polka_unlocks [OF h(1-4) h' h(7,8)] q(2) obtain cs'' where
    "enterPrecommit block_pol_env 5 2 cs_nil_polka
       = Panic ''This POLRound should be the round'' cs''"
    "LockedRound cs'' = LockedRound cs_nil_polka" "LockedBlock cs'' = LockedBlock cs_nil_polka"
    by blast
  then have k: "LockedRound (state_of (enterPrecommit block_pol_env 5 2 cs_nil_polka)) = 1
     \<and> LockedBlock (state_of (enterPrecommit block_pol_env 5 2 cs_nil_polka)) = Some block_B"
    using l by (simp add: state_of_def)
  show ?thesis using l p p' u v k by simp
qed

theorem enterPrecommit_unlock_counterexample:
  "LockedRound cs_nil_polka = 1 \<and> LockedBlock cs_nil_polka = Some block_B
   \<and> VoteSignAggr cs_nil_polka = Some vsa_nil_polka
   \<and> SignAggr_TwoThirdsMajority test_env (hvsa_Prevotes test_env vsa_nil_polka 2)
        = (BlockID_zero, True)
   \<and> LockedRound (state_of (enterPrecommit test_env 5 2 cs_nil_polka)) = 0
   \<and> (\<forall>polInfo. LockedRound (state_of
          (enterPrecommit (test_env\<lparr>hvsa_POLInfo := polInfo\<rparr>) 5 2 cs_nil_polka)) \<noteq> -1)"
proof -
  have h: "Height cs_nil_polka = 5" "Round cs_nil_polka \<le> 2"
    "Round cs_nil_polka = 2 \<longrightarrow> Step cs_nil_polka < RoundStepPrecommit"
    "VoteSignAggr cs_nil_polka = Some vsa_nil_polka"
    "hvsa_Prevotes (test_env\<lparr>hvsa_POLInfo := f\<rparr>) vsa_nil_polka 2 = Some nil_aggr"
    "SignAggr_TwoThirdsMajority (test_env\<lparr>hvsa_POLInfo := f\<rparr>) (Some nil_aggr)
       = (BlockID_zero, True)"
    "bid_Hash BlockID_zero = []"
    "LockedBlock cs_nil_polka \<noteq> None" for f
    by (simp_all add: cs_nil_polka_def test_cs_def test_env_def vsa_nil_polka_def nil_aggr_def
          BlockID_zero_def RoundStep_defs)
  have l: "LockedRound cs_nil_polka = 1 \<and> LockedBlock cs_nil_polka = Some block_B"
    by (simp add: cs_nil_polka_def)
  have t: "test_env\<lparr>hvsa_POLInfo := hvsa_POLInfo test_env\<rparr> = test_env"
    by simp
  have m: "SignAggr_TwoThirdsMajority test_env (hvsa_Prevotes test_env vsa_nil_polka 2)
        = (BlockID_zero, True)"
    using h(5,6) [of "hvsa_POLInfo test_env"] unfolding t by simp
  have p: "2 \<le> fst (hvsa_POLInfo test_env vsa_nil_polka)"
    by (simp add: test_env_def vsa_nil_polka_def nil_aggr_def eval_nat_numeral)
  have z: "LockedRound (state_of (enterPrecommit test_env 5 2 cs_nil_polka)) = 0"
    using enterPrecommit_unlocks [OF h(1-4) h(5,6) [of "hvsa_POLInfo test_env"] h(7,8)] p
    unfolding t by simp
  have a: "LockedRound (state_of
          (enterPrecommit (test_env\<lparr>hvsa_POLInfo := f\<rparr>) 5 2 cs_nil_polka)) \<noteq> -1" for f
  proof (cases "2 \<le> fst (f vsa_nil_polka)")
    case True
    then have "2 \<le> fst (hvsa_POLInfo (test_env\<lparr>hvsa_POLInfo := f\<rparr>) vsa_nil_polka)" by simp
    from enterPrecommit_unlocks [OF h this] show ?thesis by simp
  next
    case False
    then have "fst (hvsa_POLInfo (test_env\<lparr>hvsa_POLInfo := f\<rparr>) vsa_nil_polka) < 2" by simp
    from enterPrecommit_stays_locked [OF h this] l show ?thesis by auto
  qed
  from l h(4) m z a show ?thesis by simp
qed

text \<open>
  C9. Entering a new round \<open>r \<noteq> 0\<close> at the same height (\<^verbatim>\<open>enterNewRound\<close>
  with a height and round that it accepts) clears \<^verbatim>\<open>Proposal\<close>, \<^verbatim>\<open>ProposalBlock\<close>,
  \<^verbatim>\<open>ProposalBlockParts\<close> and the two aggregates \<^verbatim>\<open>PrevoteMaj23SignAggr\<close> and
  \<^verbatim>\<open>PrecommitMaj23SignAggr\<close>, and keeps the lock (\<^verbatim>\<open>LockedRound\<close>, \<^verbatim>\<open>LockedBlock\<close>,
  \<^verbatim>\<open>LockedBlockParts\<close>); entering round 0 leaves the proposal fields, the two aggregates
  and the lock as they are. The height and the votes \<^verbatim>\<open>cs.Votes\<close> are not changed by
  the round change, and of \<^verbatim>\<open>cs.VoteSignAggr\<close> only its round is set, to \<open>r + 1\<close>.
\<close>

theorem enterNewRound_clears_proposal_keeps_lock:
  assumes "Height cs = height" and "Round cs \<le> round"
    and "Round cs = round \<longrightarrow> Step cs = RoundStepNewHeight"
  shows "Height (state_of (enterNewRound env height round cs)) = Height cs
       \<and> Votes (state_of (enterNewRound env height round cs)) = Votes cs
       \<and> VoteSignAggr (state_of (enterNewRound env height round cs))
           = map_option (\<lambda>h. hvsa_SetRound env h (int64 (round + 1))) (VoteSignAggr cs)
       \<and> LockedRound (state_of (enterNewRound env height round cs)) = LockedRound cs
       \<and> LockedBlock (state_of (enterNewRound env height round cs)) = LockedBlock cs
       \<and> LockedBlockParts (state_of (enterNewRound env height round cs)) = LockedBlockParts cs
       \<and> (round \<noteq> 0 \<longrightarrow>
            Proposal (state_of (enterNewRound env height round cs)) = None
            \<and> ProposalBlock (state_of (enterNewRound env height round cs)) = None
            \<and> ProposalBlockParts (state_of (enterNewRound env height round cs)) = None
            \<and> PrevoteMaj23SignAggr (state_of (enterNewRound env height round cs)) = None
            \<and> PrecommitMaj23SignAggr (state_of (enterNewRound env height round cs)) = None)
       \<and> (round = 0 \<longrightarrow>
            Proposal (state_of (enterNewRound env height round cs)) = Proposal cs
            \<and> ProposalBlock (state_of (enterNewRound env height round cs)) = ProposalBlock cs
            \<and> ProposalBlockParts (state_of (enterNewRound env height round cs))
                = ProposalBlockParts cs
            \<and> PrevoteMaj23SignAggr (state_of (enterNewRound env height round cs))
                = PrevoteMaj23SignAggr cs
            \<and> PrecommitMaj23SignAggr (state_of (enterNewRound env height round cs))
                = PrecommitMaj23SignAggr cs)"
  using enterNewRound_core [OF assms, of env]
  by (auto simp: core_of_def)

theorem enterNewRound_clears_proposal_keeps_lock_witness:
  "Proposal cs_locked = Some proposal_B
   \<and> PrevoteMaj23SignAggr cs_locked = Some aggr_1110
   \<and> Proposal (state_of (enterNewRound test_env 5 2 cs_locked)) = None
   \<and> ProposalBlock (state_of (enterNewRound test_env 5 2 cs_locked)) = None
   \<and> PrevoteMaj23SignAggr (state_of (enterNewRound test_env 5 2 cs_locked)) = None
   \<and> PrecommitMaj23SignAggr (state_of (enterNewRound test_env 5 2 cs_locked)) = None
   \<and> LockedBlock (state_of (enterNewRound test_env 5 2 cs_locked)) = Some block_B
   \<and> LockedRound (state_of (enterNewRound test_env 5 2 cs_locked)) = 1
   \<and> Height (state_of (enterNewRound test_env 5 2 cs_locked)) = 5
   \<and> Proposal (state_of (enterNewRound test_env 5 0 cs_new_height))
       = Some (proposal_B\<lparr>p_Round := 0\<rparr>)"
proof -
  have a: "Height cs_locked = 5" "Round cs_locked \<le> 2"
    "Round cs_locked = 2 \<longrightarrow> Step cs_locked = RoundStepNewHeight"
    by (simp_all add: cs_locked_def test_cs_def)
  have b: "Height cs_new_height = 5" "Round cs_new_height \<le> 0"
    "Round cs_new_height = 0 \<longrightarrow> Step cs_new_height = RoundStepNewHeight"
    by (simp_all add: cs_new_height_def test_cs_def)
  have c: "Proposal cs_locked = Some proposal_B" "LockedBlock cs_locked = Some block_B"
    "LockedRound cs_locked = 1" "Height cs_locked = 5"
    "PrevoteMaj23SignAggr cs_locked = Some aggr_1110"
    "Proposal cs_new_height = Some (proposal_B\<lparr>p_Round := 0\<rparr>)"
    by (simp_all add: cs_locked_def cs_new_height_def test_cs_def)
  from enterNewRound_clears_proposal_keeps_lock [OF a, of test_env]
       enterNewRound_clears_proposal_keeps_lock [OF b, of test_env] c
  show ?thesis by simp
qed

theorem enterNewRound_lock_counterexample:
  "Round cs_locked = 1 \<and> LockedBlock cs_locked = Some block_B
   \<and> Round (state_of (enterNewRound test_env 5 2 cs_locked)) = 2
   \<and> LockedBlock (state_of (enterNewRound test_env 5 2 cs_locked)) \<noteq> None"
proof -
  have a: "Height cs_locked = 5" "Round cs_locked \<le> 2"
    "Round cs_locked = 2 \<longrightarrow> Step cs_locked = RoundStepNewHeight"
    by (simp_all add: cs_locked_def test_cs_def)
  have c: "Round cs_locked = 1" "LockedBlock cs_locked = Some block_B"
    by (simp_all add: cs_locked_def test_cs_def)
  have r: "Round (state_of (enterNewRound test_env 5 2 cs_locked)) = 2"
    by (simp add: enterNewRound_def enterPropose_def cs_locked_def test_cs_def test_env_def
          vals4_def val_A_def GetProposer_def with_defer_def pure_upds Let_def RoundStep_defs)
  from enterNewRound_core [OF a, of test_env] c r show ?thesis
    by (simp add: core_of_def)
qed

text \<open>
  C8. Every event that the receive routine takes in (a message from a peer, a message
  from the internal queue, a timeout tick) is given to the write-ahead log before its
  handler runs. The routine starts with the log open and has taken in the events \<open>pre\<close>,
  whatever they are, and waits in state \<open>cs1\<close>. Then, for the event it takes next, the
  handler starts in the state in which nothing but the log record of this event has
  happened since \<open>cs1\<close>, and the record stands in the trace before every effect of the
  handler and of the rest of the run.
\<close>

theorem receive_writes_wal_first:
  assumes "wal cs \<noteq> None"
    and "receiveRoutine env maxSteps pre cs = Return Blocked cs1"
  shows "receiveRoutine env maxSteps (pre @ PeerMsg mi # post) cs =
           and_then (handleMsg env mi cs1 (cs1\<lparr>trace := trace cs1 @ [EffWalSave (WalMsgInfo mi)]\<rparr>))
             (\<lambda>_ cs. receiveRoutine env maxSteps post cs)
       \<and> prefix (trace cs1 @ [EffWalSave (WalMsgInfo mi)])
           (trace (state_of (receiveRoutine env maxSteps (pre @ PeerMsg mi # post) cs)))
       \<and> receiveRoutine env maxSteps (pre @ TimeoutTick ti # post) cs =
           and_then (handleTimeout env ti cs1
                       (cs1\<lparr>trace := trace cs1 @ [EffWalSave (WalTimeoutInfo ti)]\<rparr>))
             (\<lambda>_ cs. receiveRoutine env maxSteps post cs)
       \<and> prefix (trace cs1 @ [EffWalSave (WalTimeoutInfo ti)])
           (trace (state_of (receiveRoutine env maxSteps (pre @ TimeoutTick ti # post) cs)))
       \<and> (takeInternal cs1 = Some (mi', cs2) \<longrightarrow>
            receiveRoutine env maxSteps (pre @ InternalMsg # post) cs =
              and_then (handleMsg env mi' cs1
                          (cs2\<lparr>trace := trace cs1 @ [EffWalSave (WalMsgInfo mi')]\<rparr>))
                (\<lambda>_ cs. receiveRoutine env maxSteps post cs)
            \<and> prefix (trace cs1 @ [EffWalSave (WalMsgInfo mi')])
                (trace (state_of (receiveRoutine env maxSteps (pre @ InternalMsg # post) cs))))
       \<and> prefix (trace cs) (trace cs1)"
proof -
  from receiveRoutine_Blocked [OF assms(2)] assms(1)
  have w: "wal cs1 \<noteq> None" and g: "\<not> (maxSteps > 0 \<and> nSteps cs1 \<ge> maxSteps)"
    and t: "prefix (trace cs) (trace cs1)"
    by simp_all
  note a = receiveRoutine_append [OF assms(2)]
  from receiveRoutine_peer [OF w g, of env mi post]
       receiveRoutine_timeout [OF w g, of env ti post]
       receiveRoutine_internal [OF w g, of mi' cs2 env post] t
  show ?thesis unfolding a by blast
qed

theorem receive_writes_wal_first_witness:
  "receiveRoutine test_env 0 [TimeoutTick propose_tick] cs_queued = Return Blocked cs_after_tick
   \<and> Step cs_queued = RoundStepPropose \<and> Step cs_after_tick = RoundStepPrevote
   \<and> prefix (trace_after_tick @ [EffWalSave (WalTimeoutInfo stale_tick)])
       (trace (state_of (receiveRoutine test_env 0
          [TimeoutTick propose_tick, TimeoutTick stale_tick, Quit] cs_queued)))
   \<and> prefix (trace_after_tick @ [EffWalSave (WalMsgInfo peer_msg)])
       (trace (state_of (receiveRoutine test_env 0
          [TimeoutTick propose_tick, PeerMsg peer_msg, Quit] cs_queued)))
   \<and> prefix (trace_after_tick @ [EffWalSave (WalMsgInfo own_vote_msg)])
       (trace (state_of (receiveRoutine test_env 0
          [TimeoutTick propose_tick, InternalMsg, Quit] cs_queued)))"
proof -
  have w: "wal cs_queued \<noteq> None" by (simp add: cs_queued_def test_cs_def)
  have s: "Step cs_queued = RoundStepPropose" "Step cs_after_tick = RoundStepPrevote"
    by (simp_all add: cs_after_tick_def cs_queued_def test_cs_def)
  have i: "takeInternal cs_after_tick =
             Some (own_vote_msg, cs_after_tick\<lparr>internalMsgQueue :=
                [\<lparr>mi_Msg = VoteMessage (Some
                    \<lparr>v_ValidatorAddress = [0xA], v_ValidatorIndex = 0, v_Height = 5, v_Round = 1,
                     v_Type = VoteTypePrevote, v_BlockID = BlockID_zero,
                     v_Signature = toy_sign [0x1A] [], v_SignBytes = []\<rparr>), mi_PeerKey = []\<rparr>]\<rparr>)"
    by (simp add: takeInternal_def cs_after_tick_def cs_queued_def test_cs_def)
  have t: "trace cs_after_tick = trace_after_tick"
    by (simp add: cs_after_tick_def)
  from receive_writes_wal_first
         [OF w run_propose_tick, where mi = peer_msg and ti = stale_tick and post = "[Quit]"
            and mi' = own_vote_msg] i run_propose_tick s
  show ?thesis unfolding t append_Cons append_Nil by blast
qed

text \<open>
  C2. In \<^verbatim>\<open>finalizeCommit(h)\<close>, once its sanity checks have passed, the seen commit is
  built from the precommits of \<^verbatim>\<open>CommitRound\<close> and then the block is saved to the block
  store with it (both when the store is behind the block); then the record
  \<^verbatim>\<open>EndHeight(h)\<close> is written to the write-ahead log (when the log is open); then the
  block is applied. These are, in this order, all the effects of these four kinds that
  the call has.
\<close>

theorem finalizeCommit_order:
  assumes "Height cs = height" and "Step cs = RoundStepCommit"
    and "VoteSignAggr cs = Some h"
    and "SignAggr_TwoThirdsMajority env (hvsa_Precommits env h (CommitRound cs)) = (blockID, True)"
    and "HasHeader (ProposalBlockParts cs) (bid_PartsHeader blockID)"
    and "ProposalBlock cs = Some block" and "HashesTo (Some block) (bid_Hash blockID)"
    and "state cs = Some st" and "ValidateBlock env st block = None"
  shows "commit_effects (state_of (finalizeCommit env height cs)) =
     commit_effects cs
     @ (if bs_Height (blockStore cs) < b_Height block
        then [EffMakeCommit (CommitRound cs) (hvsa_Precommits env h (CommitRound cs))
                (SignAggr_MakeCommit env (hvsa_Precommits env h (CommitRound cs))),
              EffSaveBlock block (ProposalBlockParts cs)
                (SignAggr_MakeCommit env (hvsa_Precommits env h (CommitRound cs)))]
        else [])
     @ (if wal cs \<noteq> None then [EffWalEndHeight height] else [])
     @ [EffApplyBlock block (PartSet_Header (ProposalBlockParts cs))]"
proof -
  have "finalizeCommit env height cs = commitBlock env height h st block cs"
    using assms by (simp add: finalizeCommit_def)
  then show ?thesis by (simp add: commitBlock_effects)
qed

theorem finalizeCommit_order_witness:
  "commit_effects (state_of (finalizeCommit test_env 5 cs_commit)) =
     [EffMakeCommit 1 (Some precommit_aggr_B) seen_commit_B,
      EffSaveBlock block_B (Some (NewPartSetFromHeader header_B)) seen_commit_B,
      EffWalEndHeight 5,
      EffApplyBlock block_B header_B]"
proof -
  have a: "Height cs_commit = 5" "Step cs_commit = RoundStepCommit"
    "VoteSignAggr cs_commit = Some vsa_commit"
    "SignAggr_TwoThirdsMajority test_env (hvsa_Precommits test_env vsa_commit (CommitRound cs_commit))
       = (blockID_B, True)"
    "HasHeader (ProposalBlockParts cs_commit) (bid_PartsHeader blockID_B)"
    "ProposalBlock cs_commit = Some block_B" "HashesTo (Some block_B) (bid_Hash blockID_B)"
    "state cs_commit = Some test_state" "ValidateBlock test_env test_state block_B = None"
    by (simp_all add: cs_commit_def test_cs_def test_env_def vsa_commit_def precommit_aggr_B_def
          aggr_B_def blockID_B_def block_B_def HasHeader_def HashesTo_def NewPartSetFromHeader_def)
  have b: "commit_effects cs_commit = []" "bs_Height (blockStore cs_commit) < b_Height block_B"
    "wal cs_commit \<noteq> None" "CommitRound cs_commit = 1"
    "ProposalBlockParts cs_commit = Some (NewPartSetFromHeader header_B)"
    by (simp_all add: cs_commit_def test_cs_def commit_effects_def block_B_def)
  have c: "hvsa_Precommits test_env vsa_commit 1 = Some precommit_aggr_B"
    "SignAggr_MakeCommit test_env (Some precommit_aggr_B) = seen_commit_B"
    "PartSet_Header (Some (NewPartSetFromHeader header_B)) = header_B"
    by (simp_all add: test_env_def vsa_commit_def precommit_aggr_B_def aggr_B_def
          seen_commit_B_def PartSet_Header_def NewPartSetFromHeader_def)
  from finalizeCommit_order [OF a] show ?thesis
    by (simp add: b c)
qed

text \<open>
  C6. \<^verbatim>\<open>setMaj23SignAggr\<close> rejects, leaving the state unchanged: an
  aggregate for the current height and round that is short of the +2/3 quorum, like one
  that fails verification, is rejected with \<^verbatim>\<open>ErrInvalidSignatureAggr\<close> (and not with
  \<^verbatim>\<open>ErrNotMaj23SignatureAggr\<close>, which no function returns); a verified aggregate with
  +2/3 that comes while the state holds an aggregate of the same kind for this height and
  round is rejected with \<^verbatim>\<open>ErrDuplicateSignatureAggr\<close>.
\<close>

theorem setMaj23SignAggr_rejects:
  assumes "sa_Height sa = Height cs" and "sa_Round sa = Round cs"
  shows "(BLSVerifySignAggr env cs (Some sa) = Inr False \<longrightarrow>
            setMaj23SignAggr env (Some sa) cs = Return (Some ErrInvalidSignatureAggr, False) cs)
       \<and> (isl (BLSVerifySignAggr env cs (Some sa)) \<longrightarrow>
            setMaj23SignAggr env (Some sa) cs = Return (Some ErrInvalidSignatureAggr, False) cs)
       \<and> (BLSVerifySignAggr env cs (Some sa) = Inr True
            \<and> sa_Type sa = VoteTypePrevote \<and> PrevoteMaj23SignAggr cs \<noteq> None \<longrightarrow>
            setMaj23SignAggr env (Some sa) cs = Return (Some ErrDuplicateSignatureAggr, False) cs)
       \<and> (BLSVerifySignAggr env cs (Some sa) = Inr True
            \<and> sa_Type sa = VoteTypePrecommit \<and> PrecommitMaj23SignAggr cs \<noteq> None \<longrightarrow>
            setMaj23SignAggr env (Some sa) cs = Return (Some ErrDuplicateSignatureAggr, False) cs)"
  using setMaj23SignAggr_invalid [OF assms, of env] setMaj23SignAggr_duplicate [OF assms, of env]
  by blast

theorem setMaj23SignAggr_rejects_witness:
  "BLSVerifySignAggr test_env test_cs (Some aggr_1100) = Inr False
   \<and> setMaj23SignAggr test_env (Some aggr_1100) test_cs
       = Return (Some ErrInvalidSignatureAggr, False) test_cs
   \<and> setMaj23SignAggr test_env (Some aggr_1110) (test_cs\<lparr>PrevoteMaj23SignAggr := Some aggr_1110\<rparr>)
       = Return (Some ErrDuplicateSignatureAggr, False)
           (test_cs\<lparr>PrevoteMaj23SignAggr := Some aggr_1110\<rparr>)"
proof -
  have v: "Validators test_cs = vals4"
    "Validators (test_cs\<lparr>PrevoteMaj23SignAggr := Some aggr_1110\<rparr>) = vals4"
    by (simp_all add: test_cs_def)
  have a: "sa_Height aggr_1100 = Height test_cs" "sa_Round aggr_1100 = Round test_cs"
    by (simp_all add: aggr_1100_def aggr_B_def test_cs_def)
  have b: "sa_Height aggr_1110 = Height (test_cs\<lparr>PrevoteMaj23SignAggr := Some aggr_1110\<rparr>)"
    "sa_Round aggr_1110 = Round (test_cs\<lparr>PrevoteMaj23SignAggr := Some aggr_1110\<rparr>)"
    by (simp_all add: aggr_1110_def aggr_B_def test_cs_def)
  have t: "sa_Type aggr_1110 = VoteTypePrevote"
    by (simp add: aggr_1110_def aggr_B_def)
  from setMaj23SignAggr_rejects [OF a, of test_env] setMaj23SignAggr_rejects [OF b, of test_env]
       verify_aggr_1100 [OF v(1)] verify_aggr_1110 [OF v(2)] t
  show ?thesis by simp
qed

theorem setMaj23SignAggr_short_counterexample:
  "BLSVerifySignAggr test_env test_cs (Some aggr_1100) = Inr False
   \<and> setMaj23SignAggr test_env (Some aggr_1100) test_cs
       = Return (Some ErrInvalidSignatureAggr, False) test_cs
   \<and> setMaj23SignAggr test_env (Some aggr_1100) test_cs
       \<noteq> Return (Some ErrNotMaj23SignatureAggr, False) test_cs"
proof -
  have v: "Validators test_cs = vals4" by (simp add: test_cs_def)
  have a: "sa_Height aggr_1100 = Height test_cs" "sa_Round aggr_1100 = Round test_cs"
    by (simp_all add: aggr_1100_def aggr_B_def test_cs_def)
  from setMaj23SignAggr_invalid [OF a, of test_env] verify_aggr_1100 [OF v]
  show ?thesis by simp
qed

text \<open>
  C3. On the votes of A, B and C for block B and the vote of D for nil (four validators
  of equal power, so that B has +2/3), \<^verbatim>\<open>sendMaj23SignAggr\<close> builds an aggregate
  whose bitmap is 1111, with D's bit set although D did not vote for B, whose block id
  is the nil block id of the last vote, and whose signature sums signatures over
  different messages: \<^verbatim>\<open>BLSVerifySignAggr\<close> answers it with an error and not with
  maj23 = true.
\<close>

theorem sendMaj23SignAggr_mixed_votes:
  "VoteSet_TwoThirdsMajority (hvs_Prevotes test_env (Votes (cs_votes votes_B3_nil)) 1)
     = (blockID_B, True)
   \<and> sendMaj23SignAggr test_env VoteTypePrevote (cs_votes votes_B3_nil) =
       Return () ((cs_votes votes_B3_nil)
         \<lparr>internalMsgQueue :=
            [\<lparr>mi_Msg = Maj23SignAggrMessage (Some sent_aggr_B3_nil), mi_PeerKey = []\<rparr>],
          trace := [EffFireEvent ''SignAggr'']\<rparr>)
   \<and> sa_BitArray sent_aggr_B3_nil = [True, True, True, True]
   \<and> sa_BlockID sent_aggr_B3_nil = BlockID_zero
   \<and> BLSVerifySignAggr test_env (cs_votes votes_B3_nil) (Some sent_aggr_B3_nil)
       = Inl (ErrOther ''Invalid aggregate signature'')"
proof -
  have m: "VoteSet_TwoThirdsMajority (hvs_Prevotes test_env (Votes (cs_votes votes_B3_nil)) 1)
     = (blockID_B, True)"
    by (simp add: cs_votes_def test_env_def VoteSet_TwoThirdsMajority_def)
  show ?thesis
    using m sendMaj23SignAggr_B3_nil verify_sent_aggr_B3_nil
    by (simp add: sent_aggr_B3_nil_def)
qed

end
